theory Spec2Isabelle
  imports Complex_Main "HOL-Library.Sublist" "HOL-Library.Multiset"
begin

section \<open>Pulsar timing glitches: the component of pint/models/glitch.py\<close>

text \<open>
  Conventions of the embedding.

  \<^item> A prefixed parameter name such as \<^verbatim>\<open>GLF0_2\<close> is kept split into its prefix and
    its index, \<open>(''GLF0_'', 2)\<close>, the way \<^verbatim>\<open>split_prefixed_name\<close> of pint.utils
    hands it to this file. \<^verbatim>\<open>'GLEP_%d' % idx\<close> is \<open>(''GLEP_'', idx)\<close>,
    \<^verbatim>\<open>param + '1'\<close> is \<open>(param, 1)\<close>, and the \<^verbatim>\<open>index\<close> of a prefix parameter
    is the second component of its name.
  \<^item> The component's \<^verbatim>\<open>params\<close> list and its parameter attributes are one association
    list, in the order of \<^verbatim>\<open>self.params\<close>; \<^verbatim>\<open>add_param\<close> appends to it.
  \<^item> Every parameter that is present carries a float value. The long double arithmetic of numpy
    is idealised by arithmetic over \<open>real\<close>; rounding is not modelled.
  \<^item> Quantities are represented by their value in seconds, hertz and cycles. The conversions
    astropy performs between days and seconds are written out with \<open>day\<close>.
  \<^item> numpy does not raise on a division by zero: it warns, puts an infinity or a NaN in the
    element and goes on, and whatever is computed from that element is computed from the
    infinity or the NaN. The reals have no such values. An element of an array through which a
    division by zero can pass is therefore a number or the mark \<open>DivideByZero\<close> (the type
    \<open>element\<close>): the mark stands for the result of an element divided by a zero quantity,
    and arithmetic on a marked element gives a marked element. The other elements of the array
    are computed as numpy computes them.
  \<^item> Arrays are lists. An operation on two arrays of different lengths stops with
    \<open>BroadcastError\<close> (the broadcasting of a one-element array is not modelled).
\<close>

type_synonym pname = "string \<times> nat"

record param =
  units :: string
  val :: real

datatype error =
    MissingParameter string pname
  | ValueError
  | AttributeError pname
  | DivideByZero
  | BroadcastError

record glitch =
  params :: "(pname \<times> param) list"
  glitch_indices :: "nat list"
  deriv_funcs :: "(pname \<times> string) list"

text \<open>An element of an array: a number, or the mark of a division by zero.\<close>

type_synonym element = "error + real"

definition bind_err :: "error + 'a \<Rightarrow> ('a \<Rightarrow> error + 'b) \<Rightarrow> error + 'b" where
  "bind_err m f = (case m of Inl e \<Rightarrow> Inl e | Inr v \<Rightarrow> f v)"

primrec those_err :: "(error + 'a) list \<Rightarrow> error + 'a list" where
  "those_err [] = Inr []"
| "those_err (x # xs) =
     bind_err x (\<lambda>v. bind_err (those_err xs) (\<lambda>vs. Inr (v # vs)))"

subsection \<open>Attribute access\<close>

definition hasattr :: "glitch \<Rightarrow> pname \<Rightarrow> bool" where
  "hasattr self n = (map_of (params self) n \<noteq> None)"

definition getattr :: "glitch \<Rightarrow> pname \<Rightarrow> error + param" where
  "getattr self n =
     (case map_of (params self) n of None \<Rightarrow> Inl (AttributeError n) | Some p \<Rightarrow> Inr p)"

definition add_param :: "glitch \<Rightarrow> pname \<Rightarrow> param \<Rightarrow> glitch" where
  "add_param self n p = self\<lparr>params := params self @ [(n, p)]\<rparr>"

definition register_deriv_funcs :: "glitch \<Rightarrow> string \<Rightarrow> pname \<Rightarrow> glitch" where
  "register_deriv_funcs self func n = self\<lparr>deriv_funcs := deriv_funcs self @ [(n, func)]\<rparr>"

text \<open>Python's \<^verbatim>\<open>x in y\<close> on strings: \<open>x\<close> occurs in \<open>y\<close> as a contiguous piece.\<close>

fun str_in :: "string \<Rightarrow> string \<Rightarrow> bool" where
  "str_in x [] = (x = [])"
| "str_in x (c # cs) = (prefix x (c # cs) \<or> str_in x cs)"

subsection \<open>setup\<close>

definition glitch_prop :: "string list" where
  "glitch_prop = [''GLPH_'', ''GLF0_'', ''GLF1_'', ''GLF2_'', ''GLF0D_'', ''GLTD_'']"

text \<open>
  The list comprehension of \<^verbatim>\<open>setup\<close>. Every entry of \<open>glitch_prop\<close> ends in an
  underscore and the index of a name is written in digits, so an entry occurs in a name exactly
  when it occurs in the prefix of the name.
\<close>

definition collect_indices :: "glitch \<Rightarrow> nat list" where
  "collect_indices self =
     [snd y. x \<leftarrow> glitch_prop, y \<leftarrow> map fst (params self), str_in x (fst y)]"

text \<open>
  The body of the inner loop, for one entry \<open>prm\<close> of \<open>glitch_prop\<close> at the index
  \<open>idx\<close>: a parameter that is absent is cloned from the one at index 1 and set to 0.0,
  and the derivative function is registered under the parameter's name.
\<close>

definition setup_param :: "nat \<Rightarrow> string \<Rightarrow> glitch \<Rightarrow> error + glitch" where
  "setup_param idx prm self =
     bind_err
       (if \<not> hasattr self (prm, idx)
        then bind_err (getattr self (prm, 1))
               (\<lambda>param0. Inr (add_param self (prm, idx) (param0\<lparr>val := 0\<rparr>)))
        else Inr self)
       (\<lambda>self'. Inr (register_deriv_funcs self' (''d_phase_d_'' @ butlast prm) (prm, idx)))"

primrec setup_params :: "nat \<Rightarrow> string list \<Rightarrow> glitch \<Rightarrow> error + glitch" where
  "setup_params idx [] self = Inr self"
| "setup_params idx (prm # prms) self =
     bind_err (setup_param idx prm self) (setup_params idx prms)"

primrec setup_indices :: "nat list \<Rightarrow> glitch \<Rightarrow> error + glitch" where
  "setup_indices [] self = Inr self"
| "setup_indices (idx # idxs) self =
     (if \<not> hasattr self (''GLEP_'', idx)
      then Inl (MissingParameter ''Glitch'' (''GLEP_'', idx))
      else bind_err (setup_params idx glitch_prop self) (setup_indices idxs))"

text \<open>The check of the decay term, over the names that start with \<^verbatim>\<open>GLF0D_\<close>.\<close>

primrec check_decay :: "pname list \<Rightarrow> glitch \<Rightarrow> error + unit" where
  "check_decay [] self = Inr ()"
| "check_decay (glf0dnm # nms) self =
     bind_err (getattr self glf0dnm) (\<lambda>glf0d.
       bind_err
         (if val glf0d \<noteq> 0
          then bind_err (getattr self (''GLTD_'', snd glf0dnm)) (\<lambda>gltd. Inr (val gltd = 0))
          else Inr False)
         (\<lambda>bad. if bad then Inl (MissingParameter ''Glitch'' (''GLTD_'', snd glf0dnm))
                 else check_decay nms self))"

text \<open>
  Python does not fix the order in which \<^verbatim>\<open>set(self.glitch_indices)\<close> is iterated.
  \<open>glitch_setup\<close> (the method \<^verbatim>\<open>setup\<close>) takes the function that lists the elements of
  the set as its first argument \<open>py_set\<close>. \<^verbatim>\<open>super().setup()\<close> belongs to the base
  class and is not modelled.
\<close>

definition glitch_setup :: "(nat list \<Rightarrow> nat list) \<Rightarrow> glitch \<Rightarrow> error + glitch" where
  "glitch_setup py_set self =
     (let self1 = self\<lparr>glitch_indices := collect_indices self\<rparr>
      in bind_err (setup_indices (py_set (glitch_indices self1)) self1) (\<lambda>self2.
           bind_err
             (check_decay [x \<leftarrow> map fst (params self2). prefix ''GLF0D_'' (fst x)] self2)
             (\<lambda>_. Inr self2)))"

text \<open>One order of iteration: ascending, without repetitions.\<close>

definition set_order :: "nat list \<Rightarrow> nat list" where
  "set_order xs = sort (remdups xs)"

subsection \<open>glitch_phase\<close>

definition day :: real where
  "day = 86400"

text \<open>\<^verbatim>\<open>dt = (tbl['tdbld'] - eph) * u.day - delay\<close>, in seconds.\<close>

definition dt_seconds :: "real \<Rightarrow> real list \<Rightarrow> real list \<Rightarrow> error + real list" where
  "dt_seconds eph tdbld delay =
     (if length delay \<noteq> length tdbld then Inl BroadcastError
      else Inr (map2 (\<lambda>t d. (t - eph) * day - d) tdbld delay))"

text \<open>\<^verbatim>\<open>1.0 - np.exp(-(dt / tau))\<close> for one element \<open>dt\<close>, both in seconds.\<close>

definition decay_factor :: "real \<Rightarrow> real \<Rightarrow> error + real" where
  "decay_factor tau dt = (if tau = 0 then Inl DivideByZero else Inr (1 - exp (- (dt / tau))))"

text \<open>
  One pass of the loop over the epoch names: the phase array \<open>phs\<close> is updated at the
  elements with \<open>dt > 0\<close>. The quotient \<open>dt[affected] / tau\<close> is formed for these
  elements only, and only when \<open>dF0D\<close> is not 0.
\<close>

definition glitch_event ::
  "glitch \<Rightarrow> real list \<Rightarrow> real list \<Rightarrow> pname \<Rightarrow> element list \<Rightarrow> error + element list" where
  "glitch_event self tdbld delay glepnm phs =
     bind_err (getattr self glepnm) (\<lambda>glep.
     bind_err (getattr self (''GLPH_'', snd glepnm)) (\<lambda>dphs.
     bind_err (getattr self (''GLF0_'', snd glepnm)) (\<lambda>dF0.
     bind_err (getattr self (''GLF1_'', snd glepnm)) (\<lambda>dF1.
     bind_err (getattr self (''GLF2_'', snd glepnm)) (\<lambda>dF2.
     bind_err (dt_seconds (val glep) tdbld delay) (\<lambda>dt.
     bind_err (getattr self (''GLF0D_'', snd glepnm)) (\<lambda>dF0D.
     bind_err
       (if val dF0D \<noteq> 0
        then bind_err (getattr self (''GLTD_'', snd glepnm)) (\<lambda>tau.
               Inr (map (\<lambda>d. if d > 0
                    then bind_err (decay_factor (val tau * day) d)
                           (\<lambda>k. Inr (val dF0D * (val tau * day) * k))
                    else Inr 0) dt))
        else Inr (map (\<lambda>d. Inr 0) dt))
       (\<lambda>decayterm.
          Inr (map (\<lambda>(p, d, dc). if d > 0
                 then bind_err p (\<lambda>p. bind_err dc (\<lambda>dc.
                        Inr (p + (val dphs + d * (val dF0 + 0.5 * d * val dF1
                                    + 1 / 6 * d * d * val dF2) + dc))))
                 else p)
               (zip phs (zip dt decayterm)))))))))))"

primrec glitch_loop ::
  "glitch \<Rightarrow> real list \<Rightarrow> real list \<Rightarrow> pname list \<Rightarrow> element list \<Rightarrow> error + element list" where
  "glitch_loop self tdbld delay [] phs = Inr phs"
| "glitch_loop self tdbld delay (glepnm # nms) phs =
     bind_err (glitch_event self tdbld delay glepnm phs) (glitch_loop self tdbld delay nms)"

definition glepnames :: "glitch \<Rightarrow> pname list" where
  "glepnames self = [x \<leftarrow> map fst (params self). prefix ''GLEP_'' (fst x)]"

definition glitch_phase :: "glitch \<Rightarrow> real list \<Rightarrow> real list \<Rightarrow> error + element list" where
  "glitch_phase self tdbld delay =
     glitch_loop self tdbld delay (glepnames self) (replicate (length tdbld) (Inr 0))"

subsection \<open>The derivatives\<close>

definition d_phase_d_GLPH ::
  "glitch \<Rightarrow> real list \<Rightarrow> pname \<Rightarrow> real list \<Rightarrow> error + real list" where
  "d_phase_d_GLPH self tdbld prm delay =
     (if fst prm \<noteq> ''GLPH_'' then Inl ValueError
      else
        bind_err (getattr self (''GLEP_'', snd prm)) (\<lambda>glep.
        bind_err (getattr self prm) (\<lambda>par_GLPH.
        bind_err (dt_seconds (val glep) tdbld delay) (\<lambda>dt.
          Inr (map (\<lambda>d. if d > 0 then 0 + 1 else 0) dt)))))"

definition d_phase_d_GLF0 ::
  "glitch \<Rightarrow> real list \<Rightarrow> pname \<Rightarrow> real list \<Rightarrow> error + real list" where
  "d_phase_d_GLF0 self tdbld prm delay =
     (if fst prm \<noteq> ''GLF0_'' then Inl ValueError
      else
        bind_err (getattr self (''GLEP_'', snd prm)) (\<lambda>glep.
        bind_err (getattr self prm) (\<lambda>par_GLF0.
        bind_err (dt_seconds (val glep) tdbld delay) (\<lambda>dt.
          Inr (map (\<lambda>d. if d > 0 then d else 0) dt)))))"

definition d_phase_d_GLF1 ::
  "glitch \<Rightarrow> real list \<Rightarrow> pname \<Rightarrow> real list \<Rightarrow> error + real list" where
  "d_phase_d_GLF1 self tdbld prm delay =
     (if fst prm \<noteq> ''GLF1_'' then Inl ValueError
      else
        bind_err (getattr self (''GLEP_'', snd prm)) (\<lambda>glep.
        bind_err (getattr self prm) (\<lambda>par_GLF1.
        bind_err (dt_seconds (val glep) tdbld delay) (\<lambda>dt.
          Inr (map (\<lambda>d. if d > 0 then 0 + 0.5 * d * d else 0) dt)))))"

definition d_phase_d_GLF2 ::
  "glitch \<Rightarrow> real list \<Rightarrow> pname \<Rightarrow> real list \<Rightarrow> error + real list" where
  "d_phase_d_GLF2 self tdbld prm delay =
     (if fst prm \<noteq> ''GLF2_'' then Inl ValueError
      else
        bind_err (getattr self (''GLEP_'', snd prm)) (\<lambda>glep.
        bind_err (getattr self prm) (\<lambda>par_GLF2.
        bind_err (dt_seconds (val glep) tdbld delay) (\<lambda>dt.
          Inr (map (\<lambda>d. if d > 0 then 0 + 1 / 6 * d * d * d else 0) dt)))))"

text \<open>
  \<^verbatim>\<open>d_phase_d_GLF0D\<close> forms the quotient \<open>dt[affected] / tau\<close> whatever \<open>tau\<close>
  is; the elements with \<open>dt \<le> 0\<close> keep the 0 of \<^verbatim>\<open>np.zeros\<close>.
\<close>

definition d_phase_d_GLF0D ::
  "glitch \<Rightarrow> real list \<Rightarrow> pname \<Rightarrow> real list \<Rightarrow> error + element list" where
  "d_phase_d_GLF0D self tdbld prm delay =
     (if fst prm \<noteq> ''GLF0D_'' then Inl ValueError
      else
        bind_err (getattr self (''GLEP_'', snd prm)) (\<lambda>glep.
        bind_err (getattr self prm) (\<lambda>par_GLF0D.
        bind_err (getattr self (''GLTD_'', snd prm)) (\<lambda>tau.
        bind_err (dt_seconds (val glep) tdbld delay) (\<lambda>dt.
          Inr (map (\<lambda>d. if d > 0
                 then bind_err (decay_factor (val tau * day) d)
                        (\<lambda>k. Inr (0 + val tau * day * k))
                 else Inr 0) dt))))))"

text \<open>
  The array of \<^verbatim>\<open>d_phase_d_GLTD\<close> is in cycles per day, the sum it receives is in hertz:
  astropy multiplies by the seconds of a day.
\<close>

definition d_phase_d_GLTD ::
  "glitch \<Rightarrow> real list \<Rightarrow> pname \<Rightarrow> real list \<Rightarrow> error + real list" where
  "d_phase_d_GLTD self tdbld prm delay =
     (if fst prm \<noteq> ''GLTD_'' then Inl ValueError
      else
        bind_err (getattr self (''GLEP_'', snd prm)) (\<lambda>glep.
        bind_err (getattr self prm) (\<lambda>par_GLTD.
          if val par_GLTD = 0 then Inr (replicate (length tdbld) 0)
          else
            bind_err (getattr self (''GLF0D_'', snd prm)) (\<lambda>glf0d.
            bind_err (dt_seconds (val glep) tdbld delay) (\<lambda>dt.
              Inr (map (\<lambda>d. if d > 0
                     then 0 + day * (val glf0d * (1 - exp (- d / (val par_GLTD * day)))
                            + val glf0d * (val par_GLTD * day)
                              * (- exp (- d / (val par_GLTD * day))) * d
                              / ((val par_GLTD * day) * (val par_GLTD * day)))
                     else 0) dt))))))"

subsection \<open>Arrays of numbers\<close>

text \<open>
  A run in which nothing is divided by zero has arrays of numbers only. \<open>event_values\<close>,
  \<open>loop_values\<close> and \<open>phase_values\<close> are the pass, the loop and \<^verbatim>\<open>glitch_phase\<close> on
  such arrays: they compute the numbers and stop with \<open>DivideByZero\<close> where
  \<open>glitch_event\<close> marks an element. They serve the proofs about these runs; the lemma
  \<open>phase_values_iff\<close> relates them to \<open>glitch_phase\<close>.
\<close>

definition event_values ::
  "glitch \<Rightarrow> real list \<Rightarrow> real list \<Rightarrow> pname \<Rightarrow> real list \<Rightarrow> error + real list" where
  "event_values self tdbld delay glepnm phs =
     bind_err (getattr self glepnm) (\<lambda>glep.
     bind_err (getattr self (''GLPH_'', snd glepnm)) (\<lambda>dphs.
     bind_err (getattr self (''GLF0_'', snd glepnm)) (\<lambda>dF0.
     bind_err (getattr self (''GLF1_'', snd glepnm)) (\<lambda>dF1.
     bind_err (getattr self (''GLF2_'', snd glepnm)) (\<lambda>dF2.
     bind_err (dt_seconds (val glep) tdbld delay) (\<lambda>dt.
     bind_err (getattr self (''GLF0D_'', snd glepnm)) (\<lambda>dF0D.
     bind_err
       (if val dF0D \<noteq> 0
        then bind_err (getattr self (''GLTD_'', snd glepnm)) (\<lambda>tau.
               those_err (map (\<lambda>d. if d > 0
                    then bind_err (decay_factor (val tau * day) d)
                           (\<lambda>k. Inr (val dF0D * (val tau * day) * k))
                    else Inr 0) dt))
        else Inr (map (\<lambda>d. 0) dt))
       (\<lambda>decayterm.
          Inr (map (\<lambda>(p, d, dc). if d > 0
                 then p + (val dphs + d * (val dF0 + 0.5 * d * val dF1
                             + 1 / 6 * d * d * val dF2) + dc)
                 else p)
               (zip phs (zip dt decayterm)))))))))))"

primrec loop_values ::
  "glitch \<Rightarrow> real list \<Rightarrow> real list \<Rightarrow> pname list \<Rightarrow> real list \<Rightarrow> error + real list" where
  "loop_values self tdbld delay [] phs = Inr phs"
| "loop_values self tdbld delay (glepnm # nms) phs =
     bind_err (event_values self tdbld delay glepnm phs) (loop_values self tdbld delay nms)"

definition phase_values :: "glitch \<Rightarrow> real list \<Rightarrow> real list \<Rightarrow> error + real list" where
  "phase_values self tdbld delay =
     loop_values self tdbld delay (glepnames self) (replicate (length tdbld) 0)"

subsection \<open>Example parameter sets\<close>

text \<open>
  The seven parameters the constructor adds, with an epoch for glitch 1 and all other values
  at their default 0.0.
\<close>

definition ex_params :: "(pname \<times> param) list" where
  "ex_params =
     [((''GLPH_'', 1), \<lparr>units = ''pulse phase'', val = 0\<rparr>),
      ((''GLEP_'', 1), \<lparr>units = ''day'', val = 55000\<rparr>),
      ((''GLF0_'', 1), \<lparr>units = ''Hz'', val = 0\<rparr>),
      ((''GLF1_'', 1), \<lparr>units = ''Hz/s'', val = 0\<rparr>),
      ((''GLF2_'', 1), \<lparr>units = ''Hz/s^2'', val = 0\<rparr>),
      ((''GLF0D_'', 1), \<lparr>units = ''Hz'', val = 0\<rparr>),
      ((''GLTD_'', 1), \<lparr>units = ''day'', val = 0\<rparr>)]"

definition ex_store :: glitch where
  "ex_store = \<lparr>params = ex_params, glitch_indices = [], deriv_funcs = []\<rparr>"

text \<open>A glitch whose decay amplitude is 1 Hz while its decay time is 0.\<close>

definition ex_decay_store :: glitch where
  "ex_decay_store =
     \<lparr>params =
        [((''GLEP_'', 1), \<lparr>units = ''day'', val = 55000\<rparr>),
         ((''GLF0D_'', 1), \<lparr>units = ''Hz'', val = 1\<rparr>),
         ((''GLTD_'', 1), \<lparr>units = ''day'', val = 0\<rparr>)],
      glitch_indices = [], deriv_funcs = []\<rparr>"

text \<open>
  The scenario of the specification: one glitch with a frequency step of 1e-6 Hz and no decay.
\<close>

definition ex_f0_store :: glitch where
  "ex_f0_store =
     \<lparr>params =
        [((''GLPH_'', 1), \<lparr>units = ''pulse phase'', val = 0\<rparr>),
         ((''GLEP_'', 1), \<lparr>units = ''day'', val = 55000\<rparr>),
         ((''GLF0_'', 1), \<lparr>units = ''Hz'', val = 1 / 1000000\<rparr>),
         ((''GLF1_'', 1), \<lparr>units = ''Hz/s'', val = 0\<rparr>),
         ((''GLF2_'', 1), \<lparr>units = ''Hz/s^2'', val = 0\<rparr>),
         ((''GLF0D_'', 1), \<lparr>units = ''Hz'', val = 0\<rparr>),
         ((''GLTD_'', 1), \<lparr>units = ''day'', val = 0\<rparr>)],
      glitch_indices = [], deriv_funcs = []\<rparr>"

text \<open>
  The parameters of the constructor with a decay amplitude of 1 Hz and the decay time left at
  0.0: a parameter set \<^verbatim>\<open>setup\<close> rejects.
\<close>

definition ex_zero_tau_store :: glitch where
  "ex_zero_tau_store =
     \<lparr>params =
        [((''GLPH_'', 1), \<lparr>units = ''pulse phase'', val = 0\<rparr>),
         ((''GLEP_'', 1), \<lparr>units = ''day'', val = 55000\<rparr>),
         ((''GLF0_'', 1), \<lparr>units = ''Hz'', val = 0\<rparr>),
         ((''GLF1_'', 1), \<lparr>units = ''Hz/s'', val = 0\<rparr>),
         ((''GLF2_'', 1), \<lparr>units = ''Hz/s^2'', val = 0\<rparr>),
         ((''GLF0D_'', 1), \<lparr>units = ''Hz'', val = 1\<rparr>),
         ((''GLTD_'', 1), \<lparr>units = ''day'', val = 0\<rparr>)],
      glitch_indices = [], deriv_funcs = []\<rparr>"

text \<open>A glitch with all six fields set.\<close>

definition ex_full_store :: glitch where
  "ex_full_store =
     \<lparr>params =
        [((''GLPH_'', 1), \<lparr>units = ''pulse phase'', val = 1\<rparr>),
         ((''GLEP_'', 1), \<lparr>units = ''day'', val = 55000\<rparr>),
         ((''GLF0_'', 1), \<lparr>units = ''Hz'', val = 2\<rparr>),
         ((''GLF1_'', 1), \<lparr>units = ''Hz/s'', val = 3\<rparr>),
         ((''GLF2_'', 1), \<lparr>units = ''Hz/s^2'', val = 4\<rparr>),
         ((''GLF0D_'', 1), \<lparr>units = ''Hz'', val = 5\<rparr>),
         ((''GLTD_'', 1), \<lparr>units = ''day'', val = 6\<rparr>)],
      glitch_indices = [], deriv_funcs = []\<rparr>"

text \<open>Glitch 1 and glitch 5: the second one with an epoch and a frequency step only.\<close>

definition ex_two_store :: glitch where
  "ex_two_store =
     \<lparr>params = ex_params @
        [((''GLEP_'', 5), \<lparr>units = ''day'', val = 55100\<rparr>),
         ((''GLF0_'', 5), \<lparr>units = ''Hz'', val = 2 / 1000000\<rparr>)],
      glitch_indices = [], deriv_funcs = []\<rparr>"

text \<open>The same parameter set after \<^verbatim>\<open>setup\<close>.\<close>

definition ex_two_after :: glitch where
  "ex_two_after =
     \<lparr>params = ex_params @
        [((''GLEP_'', 5), \<lparr>units = ''day'', val = 55100\<rparr>),
         ((''GLF0_'', 5), \<lparr>units = ''Hz'', val = 2 / 1000000\<rparr>),
         ((''GLPH_'', 5), \<lparr>units = ''pulse phase'', val = 0\<rparr>),
         ((''GLF1_'', 5), \<lparr>units = ''Hz/s'', val = 0\<rparr>),
         ((''GLF2_'', 5), \<lparr>units = ''Hz/s^2'', val = 0\<rparr>),
         ((''GLF0D_'', 5), \<lparr>units = ''Hz'', val = 0\<rparr>),
         ((''GLTD_'', 5), \<lparr>units = ''day'', val = 0\<rparr>)],
      glitch_indices = [1, 1, 5, 1, 1, 1, 1],
      deriv_funcs =
        [((''GLPH_'', 1), ''d_phase_d_GLPH''), ((''GLF0_'', 1), ''d_phase_d_GLF0''),
         ((''GLF1_'', 1), ''d_phase_d_GLF1''), ((''GLF2_'', 1), ''d_phase_d_GLF2''),
         ((''GLF0D_'', 1), ''d_phase_d_GLF0D''), ((''GLTD_'', 1), ''d_phase_d_GLTD''),
         ((''GLPH_'', 5), ''d_phase_d_GLPH''), ((''GLF0_'', 5), ''d_phase_d_GLF0''),
         ((''GLF1_'', 5), ''d_phase_d_GLF1''), ((''GLF2_'', 5), ''d_phase_d_GLF2''),
         ((''GLF0D_'', 5), ''d_phase_d_GLF0D''), ((''GLTD_'', 5), ''d_phase_d_GLTD'')]\<rparr>"

text \<open>A frequency step for glitch 2 without an epoch.\<close>

definition ex_no_epoch_store :: glitch where
  "ex_no_epoch_store =
     \<lparr>params = ex_params @ [((''GLF0_'', 2), \<lparr>units = ''Hz'', val = 2 / 1000000\<rparr>)],
      glitch_indices = [], deriv_funcs = []\<rparr>"

text \<open>A decay amplitude for glitch 2 without a decay time.\<close>

definition ex_bad_decay_store :: glitch where
  "ex_bad_decay_store =
     \<lparr>params = ex_params @
        [((''GLEP_'', 2), \<lparr>units = ''day'', val = 55100\<rparr>),
         ((''GLF0D_'', 2), \<lparr>units = ''Hz'', val = 1 / 1000000\<rparr>)],
      glitch_indices = [], deriv_funcs = []\<rparr>"

text \<open>An epoch for glitch 3 and no other parameter of that glitch.\<close>

definition ex_glep3_store :: glitch where
  "ex_glep3_store =
     \<lparr>params = ex_params @ [((''GLEP_'', 3), \<lparr>units = ''day'', val = 55100\<rparr>)],
      glitch_indices = [], deriv_funcs = []\<rparr>"

text \<open>The derivative functions \<^verbatim>\<open>setup\<close> registers for glitch 1.\<close>

definition ex_registered :: "(pname \<times> string) list" where
  "ex_registered =
     [((''GLPH_'', 1), ''d_phase_d_GLPH''), ((''GLF0_'', 1), ''d_phase_d_GLF0''),
      ((''GLF1_'', 1), ''d_phase_d_GLF1''), ((''GLF2_'', 1), ''d_phase_d_GLF2''),
      ((''GLF0D_'', 1), ''d_phase_d_GLF0D''), ((''GLTD_'', 1), ''d_phase_d_GLTD'')]"


text \<open>
  The glitch of index \<open>k\<close> made absent: its six fields are set to zero (its epoch stays).
\<close>

definition zero_event :: "nat \<Rightarrow> glitch \<Rightarrow> glitch" where
  "zero_event k self =
     self\<lparr>params := map (\<lambda>(n, p). (n, if snd n = k \<and> fst n \<in> set glitch_prop
                                      then p\<lparr>val := 0\<rparr> else p)) (params self)\<rparr>"

text \<open>Two glitches that both affect a TOA at MJD 55010.\<close>

definition ex_overlap_store :: glitch where
  "ex_overlap_store =
     \<lparr>params =
        [((''GLEP_'', 1), \<lparr>units = ''day'', val = 55000\<rparr>),
         ((''GLPH_'', 1), \<lparr>units = ''pulse phase'', val = 0\<rparr>),
         ((''GLF0_'', 1), \<lparr>units = ''Hz'', val = 1 / 1000000\<rparr>),
         ((''GLF1_'', 1), \<lparr>units = ''Hz/s'', val = 0\<rparr>),
         ((''GLF2_'', 1), \<lparr>units = ''Hz/s^2'', val = 0\<rparr>),
         ((''GLF0D_'', 1), \<lparr>units = ''Hz'', val = 0\<rparr>),
         ((''GLTD_'', 1), \<lparr>units = ''day'', val = 0\<rparr>),
         ((''GLEP_'', 2), \<lparr>units = ''day'', val = 55005\<rparr>),
         ((''GLPH_'', 2), \<lparr>units = ''pulse phase'', val = 1 / 2\<rparr>),
         ((''GLF0_'', 2), \<lparr>units = ''Hz'', val = 0\<rparr>),
         ((''GLF1_'', 2), \<lparr>units = ''Hz/s'', val = 0\<rparr>),
         ((''GLF2_'', 2), \<lparr>units = ''Hz/s^2'', val = 0\<rparr>),
         ((''GLF0D_'', 2), \<lparr>units = ''Hz'', val = 0\<rparr>),
         ((''GLTD_'', 2), \<lparr>units = ''day'', val = 0\<rparr>)],
      glitch_indices = [], deriv_funcs = []\<rparr>"

subsection \<open>Notions used to state the properties\<close>

text \<open>
  Every name of the component carries one of its seven prefixes; the constructor has added the
  six parameters of index 1 that serve as templates.
\<close>

definition wf_names :: "glitch \<Rightarrow> bool" where
  "wf_names self \<longleftrightarrow> (\<forall>n\<in>set (map fst (params self)). fst n \<in> set (''GLEP_'' # glitch_prop))"

definition templates :: "glitch \<Rightarrow> bool" where
  "templates self \<longleftrightarrow> (\<forall>x\<in>set glitch_prop. hasattr self (x, 1))"

text \<open>
  The two conditions under which \<^verbatim>\<open>setup\<close> is to fail: an index collected from the six
  families has no epoch; a decay amplitude differs from 0 while the decay time of the same index is
  0, or absent and so set to 0.0 by \<^verbatim>\<open>setup\<close>.
\<close>

definition missing_epoch :: "glitch \<Rightarrow> bool" where
  "missing_epoch self \<longleftrightarrow> (\<exists>idx\<in>set (collect_indices self). \<not> hasattr self (''GLEP_'', idx))"

definition bad_decay_at :: "glitch \<Rightarrow> nat \<Rightarrow> bool" where
  "bad_decay_at self idx =
     (case map_of (params self) (''GLF0D_'', idx) of
        None \<Rightarrow> False
      | Some glf0d \<Rightarrow> val glf0d \<noteq> 0 \<and>
          (case map_of (params self) (''GLTD_'', idx) of
             None \<Rightarrow> True
           | Some gltd \<Rightarrow> val gltd = 0))"

definition bad_decay :: "glitch \<Rightarrow> bool" where
  "bad_decay self \<longleftrightarrow>
     (\<exists>n\<in>set (map fst (params self)). fst n = ''GLF0D_'' \<and> bad_decay_at self (snd n))"

text \<open>
  The fitting engine assigns a new value to a parameter between two evaluations
  (\<^verbatim>\<open>getattr(self, name).value = v\<close>).
\<close>

definition set_val :: "glitch \<Rightarrow> pname \<Rightarrow> real \<Rightarrow> glitch" where
  "set_val self n v =
     self\<lparr>params := map (\<lambda>(k, p). (k, if k = n then p\<lparr>val := v\<rparr> else p)) (params self)\<rparr>"

text \<open>
  The entry \<open>i\<close> of the phase array (0 where \<^verbatim>\<open>glitch_phase\<close> does not return or the
  entry is marked).
\<close>

definition phase_at :: "glitch \<Rightarrow> real list \<Rightarrow> real list \<Rightarrow> nat \<Rightarrow> real" where
  "phase_at self tdbld delay i =
     (case glitch_phase self tdbld delay of
        Inr phs \<Rightarrow> (case phs ! i of Inr x \<Rightarrow> x | Inl e \<Rightarrow> 0)
      | Inl e \<Rightarrow> 0)"

text \<open>
  \<open>is_phase_derivative self tdbld delay prm i x\<close>: the parameter \<open>prm\<close> is present,
  \<^verbatim>\<open>glitch_phase\<close> returns an array of numbers (no entry marked) for every value of that
  parameter in an open set around its current value, and there the entry \<open>i\<close> of the phase,
  as a function of the value of \<open>prm\<close>, has the derivative \<open>x\<close>.
\<close>

definition is_phase_derivative ::
  "glitch \<Rightarrow> real list \<Rightarrow> real list \<Rightarrow> pname \<Rightarrow> nat \<Rightarrow> real \<Rightarrow> bool" where
  "is_phase_derivative self tdbld delay prm i x \<longleftrightarrow>
     (\<exists>p U. getattr self prm = Inr p \<and> open U \<and> val p \<in> U \<and>
        (\<forall>v\<in>U. \<exists>phs. glitch_phase (set_val self prm v) tdbld delay = Inr (map Inr phs)) \<and>
        ((\<lambda>v. phase_at (set_val self prm v) tdbld delay i) has_real_derivative x) (at (val p)))"

text \<open>
  The values of the parameters of one index by prefix (0 for an absent one), the contribution
  of an event to one entry as a function of these values and of \<open>dt\<close>, and the condition
  under which the decay term of \<^verbatim>\<open>glitch_phase\<close> divides by no zero.
\<close>

definition event_vals :: "glitch \<Rightarrow> nat \<Rightarrow> string \<Rightarrow> real" where
  "event_vals self idx x = (case map_of (params self) (x, idx) of Some p \<Rightarrow> val p | None \<Rightarrow> 0)"

definition event_phase :: "(string \<Rightarrow> real) \<Rightarrow> real \<Rightarrow> real" where
  "event_phase w dt =
     (if dt > 0
      then w ''GLPH_'' + dt * (w ''GLF0_'' + 0.5 * dt * w ''GLF1_'' + 1 / 6 * dt * dt * w ''GLF2_'')
           + (if w ''GLF0D_'' \<noteq> 0
              then w ''GLF0D_'' * (w ''GLTD_'' * day) * (1 - exp (- (dt / (w ''GLTD_'' * day))))
              else 0)
      else 0)"

definition decay_ok :: "(string \<Rightarrow> real) \<Rightarrow> real list \<Rightarrow> bool" where
  "decay_ok w dts \<longleftrightarrow> (w ''GLF0D_'' \<noteq> 0 \<longrightarrow> w ''GLTD_'' \<noteq> 0 \<or> (\<forall>x\<in>set dts. x \<le> 0))"

text \<open>
  For the event of the epoch name \<open>n\<close> and the TOA \<open>i\<close>: the \<open>dt\<close> of
  \<^verbatim>\<open>glitch_phase\<close> in seconds (the epoch is the value of the parameter \<open>n\<close> itself), and
  the condition under which the pass of that event divides the \<open>dt\<close> of that TOA by zero.
\<close>

definition event_dt :: "glitch \<Rightarrow> real list \<Rightarrow> real list \<Rightarrow> pname \<Rightarrow> nat \<Rightarrow> real" where
  "event_dt self tdbld delay n i = (tdbld ! i - event_vals self (snd n) (fst n)) * day - delay ! i"

definition divides_by_zero :: "glitch \<Rightarrow> real list \<Rightarrow> real list \<Rightarrow> pname \<Rightarrow> nat \<Rightarrow> bool" where
  "divides_by_zero self tdbld delay n i \<longleftrightarrow>
     event_dt self tdbld delay n i > 0 \<and> event_vals self (snd n) ''GLF0D_'' \<noteq> 0 \<and>
     event_vals self (snd n) ''GLTD_'' = 0"

text \<open>
  \<open>grown P I a b\<close>: the parameter set \<open>b\<close> keeps every parameter of \<open>a\<close> as it
  is, and every other parameter of \<open>b\<close> has the value 0, a prefix in \<open>P\<close> and an index
  in \<open>I\<close>.
\<close>

definition grown :: "string set \<Rightarrow> nat set \<Rightarrow> glitch \<Rightarrow> glitch \<Rightarrow> bool" where
  "grown P I a b \<longleftrightarrow>
     (\<forall>n. hasattr a n \<longrightarrow> map_of (params b) n = map_of (params a) n) \<and>
     (\<forall>n p. map_of (params b) n = Some p \<longrightarrow> \<not> hasattr a n \<longrightarrow>
        val p = 0 \<and> fst n \<in> P \<and> snd n \<in> I) \<and>
     glitch_indices b = glitch_indices a"

text \<open>The epoch and the six family parameters of an index are all present.\<close>

definition complete_at :: "glitch \<Rightarrow> nat \<Rightarrow> bool" where
  "complete_at self idx \<longleftrightarrow>
     hasattr self (''GLEP_'', idx) \<and> (\<forall>x\<in>set glitch_prop. hasattr self (x, idx))"

text \<open>The condition \<^verbatim>\<open>check_decay\<close> tests at a name.\<close>

definition decay_undefined :: "glitch \<Rightarrow> pname \<Rightarrow> bool" where
  "decay_undefined self n \<longleftrightarrow>
     (\<exists>g t. getattr self n = Inr g \<and> getattr self (''GLTD_'', snd n) = Inr t \<and>
        val g \<noteq> 0 \<and> val t = 0)"

section \<open>Auxiliary facts\<close>

lemma bind_err_simps [simp]:
  "bind_err (Inl e) f = Inl e" "bind_err (Inr v) f = f v"
  by (simp_all add: bind_err_def)

lemma those_err_map_Inr:
  "(\<And>x. x \<in> set xs \<Longrightarrow> g x = Inr (f x)) \<Longrightarrow> those_err (map g xs) = Inr (map f xs)"
  by (induction xs) simp_all

lemma those_err_Inr_iff:
  "those_err xs = Inr ys \<longleftrightarrow> xs = map Inr ys"
proof (induction xs arbitrary: ys)
  case Nil
  then show ?case by auto
next
  case (Cons x xs)
  show ?case
  proof (cases x)
    case (Inl e)
    then show ?thesis by (cases ys) simp_all
  next
    case (Inr v)
    show ?thesis
    proof (cases "those_err xs")
      case (Inl e)
      then have "\<And>zs. xs \<noteq> map Inr zs" using Cons.IH by simp
      then show ?thesis using Inl Inr by (cases ys) simp_all
    next
      case r: (Inr vs)
      then have "xs = map Inr vs" using Cons.IH by simp
      then show ?thesis using r Inr by (cases ys) (auto simp: inj_map_eq_map)
    qed
  qed
qed

lemma bind_err_Inr_iff:
  "bind_err m f = Inr y \<longleftrightarrow> (\<exists>v. m = Inr v \<and> f v = Inr y)"
  by (cases m) simp_all

lemma dt_seconds_Inr_iff:
  "dt_seconds eph tdbld delay = Inr dt \<longleftrightarrow>
     length delay = length tdbld \<and> dt = map2 (\<lambda>t d. (t - eph) * day - d) tdbld delay"
  by (auto simp: dt_seconds_def)

lemma those_err_map_nth:
  assumes "those_err (map g xs) = Inr ys"
  shows "length ys = length xs" and "i < length xs \<Longrightarrow> g (xs ! i) = Inr (ys ! i)"
proof -
  from assms have eq: "map g xs = map Inr ys"
    by (simp add: those_err_Inr_iff)
  then show len: "length ys = length xs"
    by (rule map_eq_imp_length_eq [symmetric])
  assume i: "i < length xs"
  from eq have "map g xs ! i = map Inr ys ! i" by simp
  with i len show "g (xs ! i) = Inr (ys ! i)" by simp
qed

lemma decayterm_Inr:
  assumes "those_err (map (\<lambda>d. if d > 0
                    then bind_err (decay_factor tau d) (\<lambda>k. Inr (h k))
                    else Inr 0) dt) = Inr dc"
  shows "length dc = length dt"
    and "i < length dt \<Longrightarrow> dt ! i \<le> 0 \<Longrightarrow> dc ! i = 0"
    and "i < length dt \<Longrightarrow> dt ! i > 0 \<Longrightarrow> tau \<noteq> 0 \<and> dc ! i = h (1 - exp (- (dt ! i / tau)))"
proof -
  show "length dc = length dt" by (rule those_err_map_nth(1) [OF assms])
  {
    assume i: "i < length dt"
    have *: "(if dt ! i > 0
                    then bind_err (decay_factor tau (dt ! i)) (\<lambda>k. Inr (h k))
                    else Inr 0) = Inr (dc ! i)"
      by (rule those_err_map_nth(2) [OF assms i])
    show "dt ! i \<le> 0 \<Longrightarrow> dc ! i = 0" using * by simp
    show "dt ! i > 0 \<Longrightarrow> tau \<noteq> 0 \<and> dc ! i = h (1 - exp (- (dt ! i / tau)))"
      using * by (cases "tau = 0") (simp_all add: decay_factor_def)
  }
qed

lemma event_values_InrD:
  assumes "event_values self tdbld delay glepnm phs = Inr phs'"
  obtains glep dphs dF0 dF1 dF2 dF0D dt dc where
    "getattr self glepnm = Inr glep"
    "getattr self (''GLPH_'', snd glepnm) = Inr dphs"
    "getattr self (''GLF0_'', snd glepnm) = Inr dF0"
    "getattr self (''GLF1_'', snd glepnm) = Inr dF1"
    "getattr self (''GLF2_'', snd glepnm) = Inr dF2"
    "getattr self (''GLF0D_'', snd glepnm) = Inr dF0D"
    "dt_seconds (val glep) tdbld delay = Inr dt"
    "(if val dF0D \<noteq> 0
        then bind_err (getattr self (''GLTD_'', snd glepnm)) (\<lambda>tau.
               those_err (map (\<lambda>d. if d > 0
                    then bind_err (decay_factor (val tau * day) d)
                           (\<lambda>k. Inr (val dF0D * (val tau * day) * k))
                    else Inr 0) dt))
        else Inr (map (\<lambda>d. 0) dt)) = Inr dc"
    "phs' = map (\<lambda>(p, d, dc). if d > 0
                 then p + (val dphs + d * (val dF0 + 0.5 * d * val dF1
                             + 1 / 6 * d * d * val dF2) + dc)
                 else p)
               (zip phs (zip dt dc))"
proof -
  from assms show ?thesis
    unfolding event_values_def bind_err_Inr_iff
    by (elim exE conjE) (rule that, assumption+, simp)
qed

lemma dt_seconds_InrD:
  assumes "dt_seconds eph tdbld delay = Inr dt"
  shows "length delay = length tdbld" and "length dt = length tdbld"
    and "i < length tdbld \<Longrightarrow> dt ! i = (tdbld ! i - eph) * day - delay ! i"
  using assms by (simp_all add: dt_seconds_Inr_iff)

lemma d_phase_d_GLPH_Inr:
  assumes "d_phase_d_GLPH self tdbld prm delay = Inr arr"
    and "getattr self (''GLEP_'', snd prm) = Inr glep"
  shows "length arr = length tdbld \<and> length delay = length tdbld \<and> fst prm = ''GLPH_'' \<and>
    (\<forall>i<length tdbld. arr ! i = (if (tdbld ! i - val glep) * day - delay ! i > 0 then 1 else 0))"
proof -
  from assms obtain dt where p: "fst prm = ''GLPH_''"
    and dt: "dt_seconds (val glep) tdbld delay = Inr dt"
    and arr: "arr = map (\<lambda>d. if d > 0 then 0 + 1 else 0) dt"
    by (auto simp: d_phase_d_GLPH_def bind_err_Inr_iff split: if_splits)
  show ?thesis using p arr dt_seconds_InrD [OF dt] by simp
qed

lemma d_phase_d_GLF0_Inr:
  assumes "d_phase_d_GLF0 self tdbld prm delay = Inr arr"
    and "getattr self (''GLEP_'', snd prm) = Inr glep"
  shows "length arr = length tdbld \<and> length delay = length tdbld \<and> fst prm = ''GLF0_'' \<and>
    (\<forall>i<length tdbld. arr ! i = (if (tdbld ! i - val glep) * day - delay ! i > 0
        then (tdbld ! i - val glep) * day - delay ! i else 0))"
proof -
  from assms obtain dt where p: "fst prm = ''GLF0_''"
    and dt: "dt_seconds (val glep) tdbld delay = Inr dt"
    and arr: "arr = map (\<lambda>d. if d > 0 then d else 0) dt"
    by (auto simp: d_phase_d_GLF0_def bind_err_Inr_iff split: if_splits)
  show ?thesis using p arr dt_seconds_InrD [OF dt] by simp
qed

lemma d_phase_d_GLF1_Inr:
  assumes "d_phase_d_GLF1 self tdbld prm delay = Inr arr"
    and "getattr self (''GLEP_'', snd prm) = Inr glep"
  shows "length arr = length tdbld \<and> length delay = length tdbld \<and> fst prm = ''GLF1_'' \<and>
    (\<forall>i<length tdbld. arr ! i = (if (tdbld ! i - val glep) * day - delay ! i > 0
        then 0.5 * ((tdbld ! i - val glep) * day - delay ! i)\<^sup>2 else 0))"
proof -
  from assms obtain dt where p: "fst prm = ''GLF1_''"
    and dt: "dt_seconds (val glep) tdbld delay = Inr dt"
    and arr: "arr = map (\<lambda>d. if d > 0 then 0 + 0.5 * d * d else 0) dt"
    by (auto simp: d_phase_d_GLF1_def bind_err_Inr_iff split: if_splits)
  show ?thesis using p arr dt_seconds_InrD [OF dt] by (simp add: power2_eq_square)
qed

lemma d_phase_d_GLF2_Inr:
  assumes "d_phase_d_GLF2 self tdbld prm delay = Inr arr"
    and "getattr self (''GLEP_'', snd prm) = Inr glep"
  shows "length arr = length tdbld \<and> length delay = length tdbld \<and> fst prm = ''GLF2_'' \<and>
    (\<forall>i<length tdbld. arr ! i = (if (tdbld ! i - val glep) * day - delay ! i > 0
        then (1 / 6) * ((tdbld ! i - val glep) * day - delay ! i) ^ 3 else 0))"
proof -
  from assms obtain dt where p: "fst prm = ''GLF2_''"
    and dt: "dt_seconds (val glep) tdbld delay = Inr dt"
    and arr: "arr = map (\<lambda>d. if d > 0 then 0 + 1 / 6 * d * d * d else 0) dt"
    by (auto simp: d_phase_d_GLF2_def bind_err_Inr_iff split: if_splits)
  show ?thesis using p arr dt_seconds_InrD [OF dt] by (simp add: power3_eq_cube)
qed

lemma d_phase_d_GLF0D_Inr:
  assumes "d_phase_d_GLF0D self tdbld prm delay = Inr arr"
    and "getattr self (''GLEP_'', snd prm) = Inr glep"
    and "getattr self (''GLTD_'', snd prm) = Inr tau"
  shows "length arr = length tdbld \<and> length delay = length tdbld \<and> fst prm = ''GLF0D_'' \<and>
    (\<forall>i<length tdbld. arr ! i =
       (if (tdbld ! i - val glep) * day - delay ! i > 0
        then if val tau = 0 then Inl DivideByZero
             else Inr (val tau * day *
               (1 - exp (- (((tdbld ! i - val glep) * day - delay ! i) / (val tau * day)))))
        else Inr 0))"
proof -
  from assms obtain dt where p: "fst prm = ''GLF0D_''"
    and dt: "dt_seconds (val glep) tdbld delay = Inr dt"
    and arr: "arr = map (\<lambda>d. if d > 0
                 then bind_err (decay_factor (val tau * day) d)
                        (\<lambda>k. Inr (0 + val tau * day * k))
                 else Inr 0) dt"
    by (auto simp: d_phase_d_GLF0D_def bind_err_Inr_iff split: if_splits)
  show ?thesis using p arr dt_seconds_InrD [OF dt] by (simp add: decay_factor_def day_def)
qed

lemma d_phase_d_GLF0D_defined:
  assumes "getattr self (''GLEP_'', idx) = Inr glep"
    and "getattr self (''GLF0D_'', idx) = Inr glf0d"
    and "getattr self (''GLTD_'', idx) = Inr tau"
    and "length delay = length tdbld"
  shows "\<exists>arr. d_phase_d_GLF0D self tdbld (''GLF0D_'', idx) delay = Inr arr"
  using assms by (simp add: d_phase_d_GLF0D_def dt_seconds_def)

lemma d_phase_d_GLTD_Inr:
  assumes "d_phase_d_GLTD self tdbld prm delay = Inr arr"
    and "getattr self (''GLEP_'', snd prm) = Inr glep"
    and "getattr self prm = Inr gltd"
  shows "length arr = length tdbld \<and> fst prm = ''GLTD_'' \<and>
    (val gltd = 0 \<longrightarrow> arr = replicate (length tdbld) 0) \<and>
    (val gltd \<noteq> 0 \<longrightarrow> length delay = length tdbld \<and>
       (\<exists>glf0d. getattr self (''GLF0D_'', snd prm) = Inr glf0d \<and>
       (\<forall>i<length tdbld. arr ! i = (if (tdbld ! i - val glep) * day - delay ! i > 0
        then day * (val glf0d * (1 - exp (- ((tdbld ! i - val glep) * day - delay ! i) / (val gltd * day)))
                + val glf0d * (val gltd * day)
                    * (- exp (- ((tdbld ! i - val glep) * day - delay ! i) / (val gltd * day)))
                    * ((tdbld ! i - val glep) * day - delay ! i)
                    / ((val gltd * day) * (val gltd * day)))
        else 0))))"
proof (cases "val gltd = 0")
  case True
  with assms show ?thesis
    by (auto simp: d_phase_d_GLTD_def bind_err_Inr_iff split: if_splits)
next
  case False
  with assms obtain dt glf0d where p: "fst prm = ''GLTD_''"
    and g: "getattr self (''GLF0D_'', snd prm) = Inr glf0d"
    and dt: "dt_seconds (val glep) tdbld delay = Inr dt"
    and arr: "arr = map (\<lambda>d. if d > 0
                     then 0 + day * (val glf0d * (1 - exp (- d / (val gltd * day)))
                            + val glf0d * (val gltd * day)
                              * (- exp (- d / (val gltd * day))) * d
                              / ((val gltd * day) * (val gltd * day)))
                     else 0) dt"
    by (auto simp: d_phase_d_GLTD_def bind_err_Inr_iff split: if_splits)
  show ?thesis using False p g arr dt_seconds_InrD [OF dt] by simp
qed

lemma decay_clause_length:
  assumes "(if c then bind_err m (\<lambda>tau. those_err (map (g tau) dt)) else Inr (map z dt)) = Inr dc"
  shows "length dc = length dt"
proof (cases c)
  case True
  with assms obtain tau where "those_err (map (g tau) dt) = Inr dc"
    by (auto simp: bind_err_Inr_iff)
  then show ?thesis by (rule those_err_map_nth(1))
next
  case False
  with assms show ?thesis by auto
qed

lemma singleton_nth: "length xs = Suc 0 \<Longrightarrow> xs = [xs ! 0]"
  by (cases xs) simp_all

lemma two_nth: "length xs = 2 \<Longrightarrow> xs = [xs ! 0, xs ! 1]"
  by (cases xs; cases "tl xs") auto

subsection \<open>The loops of setup\<close>

lemma hasattr_iff: "hasattr self n \<longleftrightarrow> n \<in> fst ` set (params self)"
  by (simp add: hasattr_def map_of_eq_None_iff)

lemma getattr_Inr_iff: "getattr self n = Inr p \<longleftrightarrow> map_of (params self) n = Some p"
  by (simp add: getattr_def split: option.splits)

lemma getattr_Inl_iff: "getattr self n = Inl e \<longleftrightarrow> map_of (params self) n = None \<and> e = AttributeError n"
  by (auto simp: getattr_def split: option.splits)

lemma hasattr_getattr: "hasattr self n \<longleftrightarrow> (\<exists>p. getattr self n = Inr p)"
  by (simp add: hasattr_def getattr_Inr_iff)

lemma grown_refl: "grown P I a a"
  by (simp add: grown_def hasattr_def)

lemma grown_map_of: "grown P I a b \<Longrightarrow> hasattr a n \<Longrightarrow> map_of (params b) n = map_of (params a) n"
  unfolding grown_def by blast

lemma grown_hasattr: "grown P I a b \<Longrightarrow> hasattr a n \<Longrightarrow> hasattr b n"
  using grown_map_of [of P I a b n] by (simp add: hasattr_def)

lemma grown_new: "grown P I a b \<Longrightarrow> map_of (params b) n = Some p \<Longrightarrow> \<not> hasattr a n \<Longrightarrow>
  val p = 0 \<and> fst n \<in> P \<and> snd n \<in> I"
  unfolding grown_def by blast

lemma grown_indices: "grown P I a b \<Longrightarrow> glitch_indices b = glitch_indices a"
  unfolding grown_def by blast

lemma grown_trans:
  assumes ab: "grown P I a b" and bc: "grown Q J b c"
  shows "grown (P \<union> Q) (I \<union> J) a c"
proof -
  have 1: "map_of (params c) n = map_of (params a) n" if h: "hasattr a n" for n
    using grown_map_of [OF bc grown_hasattr [OF ab h]] grown_map_of [OF ab h] by simp
  have 2: "val p = 0 \<and> fst n \<in> P \<union> Q \<and> snd n \<in> I \<union> J"
    if c: "map_of (params c) n = Some p" and na: "\<not> hasattr a n" for n p
  proof (cases "hasattr b n")
    case True
    with grown_map_of [OF bc True] c have "map_of (params b) n = Some p" by simp
    from grown_new [OF ab this na] show ?thesis by simp
  next
    case False
    from grown_new [OF bc c False] show ?thesis by simp
  qed
  have 3: "glitch_indices c = glitch_indices a"
    using grown_indices [OF ab] grown_indices [OF bc] by simp
  show ?thesis unfolding grown_def using 1 2 3 by blast
qed

lemma grown_mono: "grown P I a b \<Longrightarrow> P \<subseteq> Q \<Longrightarrow> I \<subseteq> J \<Longrightarrow> grown Q J a b"
  by (auto simp: grown_def)

lemma grown_register:
  "grown P I a b \<Longrightarrow> grown P I a (register_deriv_funcs b f n)"
  by (simp add: grown_def register_deriv_funcs_def)

lemma hasattr_register [simp]: "hasattr (register_deriv_funcs b f n) k = hasattr b k"
  by (simp add: hasattr_def register_deriv_funcs_def)

lemma grown_add_param:
  "\<not> hasattr a n \<Longrightarrow> val p = 0 \<Longrightarrow> grown {fst n} {snd n} a (add_param a n p)"
  by (auto simp: grown_def add_param_def hasattr_def map_add_def split: option.splits)

lemma hasattr_add_param: "hasattr (add_param a n p) k \<longleftrightarrow> k = n \<or> hasattr a k"
  by (auto simp: hasattr_iff add_param_def)

lemma setup_param_Inr:
  assumes "setup_param idx prm self = Inr self'"
  shows "grown {prm} {idx} self self'" and "hasattr self' (prm, idx)"
proof -
  show "grown {prm} {idx} self self'"
  proof (cases "hasattr self (prm, idx)")
    case True
    with assms show ?thesis
      by (auto simp: setup_param_def intro: grown_register grown_refl)
  next
    case False
    with assms obtain param0 where
      "self' = register_deriv_funcs (add_param self (prm, idx) (param0\<lparr>val := 0\<rparr>))
                 (''d_phase_d_'' @ butlast prm) (prm, idx)"
      by (auto simp: setup_param_def bind_err_Inr_iff)
    with grown_add_param [OF False, of "param0\<lparr>val := 0\<rparr>"] show ?thesis
      by (simp add: grown_register)
  qed
  show "hasattr self' (prm, idx)"
    using assms
    by (cases "hasattr self (prm, idx)")
      (auto simp: setup_param_def bind_err_Inr_iff hasattr_add_param)
qed

lemma setup_params_Inr:
  assumes "setup_params idx prms self = Inr self'"
  shows "grown (set prms) {idx} self self' \<and> (\<forall>x\<in>set prms. hasattr self' (x, idx))"
  using assms
proof (induction prms arbitrary: self)
  case Nil
  then show ?case by (simp add: grown_refl)
next
  case (Cons prm prms)
  then obtain s1 where s1: "setup_param idx prm self = Inr s1"
    and r: "setup_params idx prms s1 = Inr self'"
    by (auto simp: bind_err_Inr_iff)
  note a = setup_param_Inr [OF s1]
  from Cons.IH [OF r] have b1: "grown (set prms) {idx} s1 self'"
    and b2: "\<forall>x\<in>set prms. hasattr self' (x, idx)" by simp_all
  have "grown ({prm} \<union> set prms) ({idx} \<union> {idx}) self self'"
    using a(1) b1 by (rule grown_trans)
  moreover have "hasattr self' (prm, idx)"
    using a(2) b1 by (rule grown_hasattr [rotated])
  ultimately show ?case using b2 by simp
qed

lemma grown_complete_at: "grown P I a b \<Longrightarrow> complete_at a idx \<Longrightarrow> complete_at b idx"
  by (auto simp: complete_at_def intro: grown_hasattr)

lemma setup_indices_Inr:
  assumes "setup_indices idxs self = Inr self'"
  shows "grown (set glitch_prop) (set idxs) self self' \<and> (\<forall>idx\<in>set idxs. complete_at self' idx)"
  using assms
proof (induction idxs arbitrary: self)
  case Nil
  then show ?case by (simp add: grown_refl)
next
  case (Cons idx idxs)
  then obtain s1 where ep: "hasattr self (''GLEP_'', idx)"
    and s1: "setup_params idx glitch_prop self = Inr s1"
    and r: "setup_indices idxs s1 = Inr self'"
    by (auto simp: bind_err_Inr_iff split: if_splits)
  from setup_params_Inr [OF s1]
  have a: "grown (set glitch_prop) {idx} self s1" and a2: "\<forall>x\<in>set glitch_prop. hasattr s1 (x, idx)"
    by simp_all
  from Cons.IH [OF r] have b1: "grown (set glitch_prop) (set idxs) s1 self'"
    and b2: "\<forall>idx\<in>set idxs. complete_at self' idx" by simp_all
  have g: "grown (set glitch_prop \<union> set glitch_prop) ({idx} \<union> set idxs) self self'"
    using a b1 by (rule grown_trans)
  have "hasattr s1 (''GLEP_'', idx)" using a ep by (rule grown_hasattr)
  with a2 have "complete_at s1 idx" by (simp add: complete_at_def)
  with b1 have "complete_at self' idx" by (rule grown_complete_at)
  with g b2 show ?case by simp
qed

lemma setup_param_noop:
  assumes "hasattr self (prm, idx)"
  shows "\<exists>self'. setup_param idx prm self = Inr self' \<and> params self' = params self \<and>
           glitch_indices self' = glitch_indices self"
  using assms by (simp add: setup_param_def register_deriv_funcs_def)

lemma hasattr_cong: "params a = params b \<Longrightarrow> hasattr a n = hasattr b n"
  by (simp add: hasattr_def)

lemma getattr_cong: "params a = params b \<Longrightarrow> getattr a n = getattr b n"
  by (simp add: getattr_def)

lemma complete_at_cong: "params a = params b \<Longrightarrow> complete_at a idx = complete_at b idx"
  by (simp add: complete_at_def hasattr_def)

lemma setup_params_noop:
  assumes "\<forall>x\<in>set prms. hasattr self (x, idx)"
  shows "\<exists>self'. setup_params idx prms self = Inr self' \<and> params self' = params self \<and>
           glitch_indices self' = glitch_indices self"
  using assms
proof (induction prms arbitrary: self)
  case Nil
  then show ?case by simp
next
  case (Cons prm prms)
  then have "hasattr self (prm, idx)" by simp
  from setup_param_noop [OF this] obtain s1 where s1: "setup_param idx prm self = Inr s1"
    and p1: "params s1 = params self" and g1: "glitch_indices s1 = glitch_indices self"
    by blast
  from Cons.prems p1 have "\<forall>x\<in>set prms. hasattr s1 (x, idx)"
    by (simp add: hasattr_def)
  from Cons.IH [OF this] s1 p1 g1 show ?case by auto
qed

lemma setup_indices_noop:
  assumes "\<forall>idx\<in>set idxs. complete_at self idx"
  shows "\<exists>self'. setup_indices idxs self = Inr self' \<and> params self' = params self \<and>
           glitch_indices self' = glitch_indices self"
  using assms
proof (induction idxs arbitrary: self)
  case Nil
  then show ?case by simp
next
  case (Cons idx idxs)
  then have c: "complete_at self idx" by simp
  then have ep: "hasattr self (''GLEP_'', idx)"
    and "\<forall>x\<in>set glitch_prop. hasattr self (x, idx)"
    by (simp_all add: complete_at_def)
  from setup_params_noop [OF this(2)] obtain s1
    where s1: "setup_params idx glitch_prop self = Inr s1"
    and p1: "params s1 = params self" and g1: "glitch_indices s1 = glitch_indices self"
    by blast
  from Cons.prems have "\<forall>idx\<in>set idxs. complete_at s1 idx"
    using complete_at_cong [OF p1] by simp
  from Cons.IH [OF this] s1 p1 g1 ep show ?case by auto
qed

lemma check_decay_cong: "params a = params b \<Longrightarrow> check_decay nms a = check_decay nms b"
proof (induction nms)
  case Nil
  show ?case by simp
next
  case (Cons n nms)
  show ?case
    unfolding check_decay.simps getattr_cong [OF Cons.prems] Cons.IH [OF Cons.prems] ..
qed

lemma str_in_refl: "str_in x x"
  by (cases x) simp_all

lemma set_comprehension:
  "set [f y. x \<leftarrow> xs, y \<leftarrow> ys, P x y] = {f y | x y. x \<in> set xs \<and> y \<in> set ys \<and> P x y}"
  by auto

lemma set_collect_indices:
  "set (collect_indices self) =
     {snd y | y. hasattr self y \<and> (\<exists>x\<in>set glitch_prop. str_in x (fst y))}"
  unfolding collect_indices_def set_comprehension hasattr_iff set_map by blast

lemma collect_indicesI:
  "hasattr self y \<Longrightarrow> x \<in> set glitch_prop \<Longrightarrow> str_in x (fst y) \<Longrightarrow>
     snd y \<in> set (collect_indices self)"
  unfolding set_collect_indices by blast

lemma collect_indicesE:
  assumes "k \<in> set (collect_indices self)"
  obtains y x where "hasattr self y" "x \<in> set glitch_prop" "str_in x (fst y)" "k = snd y"
  using assms unfolding set_collect_indices by blast

lemma grown_collect_indices:
  assumes g: "grown (set glitch_prop) (set (collect_indices a)) a b"
  shows "set (collect_indices b) = set (collect_indices a)"
proof (intro set_eqI iffI)
  fix k assume "k \<in> set (collect_indices b)"
  then obtain y x where y: "hasattr b y" "x \<in> set glitch_prop" "str_in x (fst y)" "k = snd y"
    by (rule collect_indicesE)
  show "k \<in> set (collect_indices a)"
  proof (cases "hasattr a y")
    case True
    from collect_indicesI [OF True y(2,3)] y(4) show ?thesis by simp
  next
    case False
    from y(1) obtain p where "map_of (params b) y = Some p" by (auto simp: hasattr_def)
    from grown_new [OF g this False] y(4) show ?thesis by simp
  qed
next
  fix k assume "k \<in> set (collect_indices a)"
  then obtain y x where y: "hasattr a y" "x \<in> set glitch_prop" "str_in x (fst y)" "k = snd y"
    by (rule collect_indicesE)
  from collect_indicesI [OF grown_hasattr [OF g y(1)] y(2,3)] y(4)
  show "k \<in> set (collect_indices b)" by simp
qed

lemma glitch_setup_InrD:
  assumes "glitch_setup py_set self = Inr self'"
  shows "setup_indices (py_set (collect_indices self))
           (self\<lparr>glitch_indices := collect_indices self\<rparr>) = Inr self'"
    and "check_decay [x \<leftarrow> map fst (params self'). prefix ''GLF0D_'' (fst x)] self' = Inr ()"
proof -
  from assms obtain s2 where
    s2: "setup_indices (py_set (collect_indices self))
           (self\<lparr>glitch_indices := collect_indices self\<rparr>) = Inr s2"
    and r: "bind_err (check_decay [x \<leftarrow> map fst (params s2). prefix ''GLF0D_'' (fst x)] s2)
             (\<lambda>_. Inr s2) = Inr self'"
    unfolding glitch_setup_def Let_def bind_err_Inr_iff by auto
  from r obtain u where "check_decay [x \<leftarrow> map fst (params s2). prefix ''GLF0D_'' (fst x)] s2 = Inr u"
    and "s2 = self'"
    unfolding bind_err_Inr_iff by auto
  with s2 show "setup_indices (py_set (collect_indices self))
           (self\<lparr>glitch_indices := collect_indices self\<rparr>) = Inr self'"
    and "check_decay [x \<leftarrow> map fst (params self'). prefix ''GLF0D_'' (fst x)] self' = Inr ()"
    by simp_all
qed

lemma setup_param_defined:
  assumes "hasattr self (prm, idx) \<or> hasattr self (prm, 1)"
  shows "\<exists>self'. setup_param idx prm self = Inr self'"
proof (cases "hasattr self (prm, idx)")
  case True
  then show ?thesis by (simp add: setup_param_def)
next
  case False
  with assms obtain p where "getattr self (prm, 1) = Inr p"
    by (auto simp: hasattr_getattr)
  with False show ?thesis by (simp add: setup_param_def)
qed

lemma setup_params_defined:
  assumes "\<forall>x\<in>set prms. hasattr self (x, 1)"
  shows "\<exists>self'. setup_params idx prms self = Inr self'"
  using assms
proof (induction prms arbitrary: self)
  case Nil
  show ?case by simp
next
  case (Cons prm prms)
  then have "hasattr self (prm, idx) \<or> hasattr self (prm, 1)" by simp
  from setup_param_defined [OF this] obtain s1 where s1: "setup_param idx prm self = Inr s1" ..
  have "\<forall>x\<in>set prms. hasattr s1 (x, 1)"
    using Cons.prems grown_hasattr [OF setup_param_Inr(1) [OF s1]] by simp
  from Cons.IH [OF this] s1 show ?case by simp
qed

lemma GLEP_not_prop: "''GLEP_'' \<notin> set glitch_prop"
  by (simp add: glitch_prop_def)

lemma grown_hasattr_GLEP:
  assumes "grown (set glitch_prop) I a b"
  shows "hasattr b (''GLEP_'', k) \<longleftrightarrow> hasattr a (''GLEP_'', k)"
proof
  assume b: "hasattr b (''GLEP_'', k)"
  show "hasattr a (''GLEP_'', k)"
  proof (rule ccontr)
    assume n: "\<not> hasattr a (''GLEP_'', k)"
    from b obtain p where "map_of (params b) (''GLEP_'', k) = Some p"
      by (auto simp: hasattr_def)
    from grown_new [OF assms this n] GLEP_not_prop show False by simp
  qed
next
  assume "hasattr a (''GLEP_'', k)"
  with assms show "hasattr b (''GLEP_'', k)" by (rule grown_hasattr)
qed

lemma grown_templates: "grown P I a b \<Longrightarrow> templates a \<Longrightarrow> templates b"
  unfolding templates_def using grown_hasattr by blast

lemma setup_indices_total:
  assumes "templates self"
  shows "(if \<forall>idx\<in>set idxs. hasattr self (''GLEP_'', idx)
          then \<exists>self'. setup_indices idxs self = Inr self'
          else \<exists>idx\<in>set idxs. \<not> hasattr self (''GLEP_'', idx) \<and>
                 setup_indices idxs self = Inl (MissingParameter ''Glitch'' (''GLEP_'', idx)))"
  using assms
proof (induction idxs arbitrary: self)
  case Nil
  show ?case by simp
next
  case (Cons idx idxs)
  show ?case
  proof (cases "hasattr self (''GLEP_'', idx)")
    case False
    then show ?thesis by auto
  next
    case True
    from Cons.prems have "\<forall>x\<in>set glitch_prop. hasattr self (x, 1)"
      by (simp add: templates_def)
    from setup_params_defined [OF this] obtain s1
      where s1: "setup_params idx glitch_prop self = Inr s1" ..
    from setup_params_Inr [OF s1] have g: "grown (set glitch_prop) {idx} self s1" by simp
    note ih = Cons.IH [OF grown_templates [OF g Cons.prems]]
    have e: "hasattr s1 (''GLEP_'', k) \<longleftrightarrow> hasattr self (''GLEP_'', k)" for k
      by (rule grown_hasattr_GLEP [OF g])
    have r: "setup_indices (idx # idxs) self = setup_indices idxs s1"
      using True s1 by simp
    show ?thesis using ih True unfolding r e by simp
  qed
qed

lemma check_decay_total:
  assumes "\<forall>n\<in>set nms. \<exists>g t. getattr self n = Inr g \<and> getattr self (''GLTD_'', snd n) = Inr t"
  shows "(if \<exists>n\<in>set nms. decay_undefined self n
          then \<exists>n\<in>set nms. decay_undefined self n \<and>
                check_decay nms self = Inl (MissingParameter ''Glitch'' (''GLTD_'', snd n))
          else check_decay nms self = Inr ())"
  using assms
proof (induction nms)
  case Nil
  show ?case by simp
next
  case (Cons n nms)
  from Cons.prems obtain g t where g: "getattr self n = Inr g"
    and t: "getattr self (''GLTD_'', snd n) = Inr t" by auto
  from Cons.prems have "\<forall>n\<in>set nms. \<exists>g t. getattr self n = Inr g \<and>
      getattr self (''GLTD_'', snd n) = Inr t" by simp
  note ih = Cons.IH [OF this]
  show ?case
  proof (cases "decay_undefined self n")
    case True
    with g t have "check_decay (n # nms) self = Inl (MissingParameter ''Glitch'' (''GLTD_'', snd n))"
      by (simp add: decay_undefined_def)
    with True show ?thesis by simp
  next
    case False
    with g t have r: "check_decay (n # nms) self = check_decay nms self"
      by (auto simp: decay_undefined_def)
    show ?thesis using ih False unfolding r by simp
  qed
qed

lemma wf_prefix_GLF0D:
  assumes "p \<in> set (''GLEP_'' # glitch_prop)"
  shows "prefix ''GLF0D_'' p \<longleftrightarrow> p = ''GLF0D_''"
  using assms by (auto simp: glitch_prop_def)

lemma wf_prefix_GLEP:
  assumes "p \<in> set (''GLEP_'' # glitch_prop)"
  shows "prefix ''GLEP_'' p \<longleftrightarrow> p = ''GLEP_''"
  using assms by (auto simp: glitch_prop_def)

lemma wf_namesD: "wf_names a \<Longrightarrow> hasattr a n \<Longrightarrow> fst n \<in> set (''GLEP_'' # glitch_prop)"
  unfolding wf_names_def hasattr_iff set_map by blast

lemma grown_wf_names:
  assumes g: "grown (set glitch_prop) I a b" and w: "wf_names a"
  shows "wf_names b"
  unfolding wf_names_def
proof
  fix n assume "n \<in> set (map fst (params b))"
  then have hb: "hasattr b n" by (simp add: hasattr_iff)
  show "fst n \<in> set (''GLEP_'' # glitch_prop)"
  proof (cases "hasattr a n")
    case True
    with w show ?thesis by (rule wf_namesD)
  next
    case False
    from hb obtain p where "map_of (params b) n = Some p" by (auto simp: hasattr_def)
    from grown_new [OF g this False] show ?thesis by simp
  qed
qed

lemma GLF0D_prop: "''GLF0D_'' \<in> set glitch_prop" and GLTD_prop: "''GLTD_'' \<in> set glitch_prop"
  by (simp_all add: glitch_prop_def)

lemma grown_bad_decay:
  assumes g: "grown (set glitch_prop) I a b"
    and gb: "getattr b (''GLF0D_'', k) = Inr gl" and tb: "getattr b (''GLTD_'', k) = Inr t"
  shows "val gl \<noteq> 0 \<and> val t = 0 \<longleftrightarrow> bad_decay_at a k"
proof (cases "hasattr a (''GLF0D_'', k)")
  case False
  then have "map_of (params a) (''GLF0D_'', k) = None" by (simp add: hasattr_def)
  moreover from gb have "map_of (params b) (''GLF0D_'', k) = Some gl"
    by (simp add: getattr_Inr_iff)
  from grown_new [OF g this False] have "val gl = 0" by simp
  ultimately show ?thesis by (simp add: bad_decay_at_def)
next
  case True
  from grown_map_of [OF g True] gb have ga: "map_of (params a) (''GLF0D_'', k) = Some gl"
    by (simp add: getattr_Inr_iff)
  show ?thesis
  proof (cases "hasattr a (''GLTD_'', k)")
    case False
    then have n: "map_of (params a) (''GLTD_'', k) = None" by (simp add: hasattr_def)
    from tb have "map_of (params b) (''GLTD_'', k) = Some t" by (simp add: getattr_Inr_iff)
    from grown_new [OF g this False] have "val t = 0" by simp
    with ga n show ?thesis by (simp add: bad_decay_at_def)
  next
    case True
    from grown_map_of [OF g True] tb have "map_of (params a) (''GLTD_'', k) = Some t"
      by (simp add: getattr_Inr_iff)
    with ga show ?thesis by (simp add: bad_decay_at_def)
  qed
qed

lemma bad_decay_at_hasattr: "bad_decay_at a k \<Longrightarrow> hasattr a (''GLF0D_'', k)"
  by (simp add: bad_decay_at_def hasattr_def split: option.splits)

lemma glitch_setup_unfold:
  "glitch_setup py_set self =
     bind_err (setup_indices (py_set (collect_indices self))
                 (self\<lparr>glitch_indices := collect_indices self\<rparr>))
       (\<lambda>self2. bind_err
           (check_decay [x \<leftarrow> map fst (params self2). prefix ''GLF0D_'' (fst x)] self2)
           (\<lambda>_. Inr self2))"
  by (simp add: glitch_setup_def Let_def)

lemma decay_names:
  assumes g: "grown (set glitch_prop) (set (collect_indices a)) a b"
    and c: "\<forall>idx\<in>set (collect_indices a). complete_at b idx"
    and w: "wf_names a"
    and n: "n \<in> set [x \<leftarrow> map fst (params b). prefix ''GLF0D_'' (fst x)]"
  shows "\<exists>gl t. getattr b n = Inr gl \<and> getattr b (''GLTD_'', snd n) = Inr t \<and>
           fst n = ''GLF0D_'' \<and> (decay_undefined b n \<longleftrightarrow> bad_decay_at a (snd n))"
proof -
  from n have hb: "hasattr b n" and p: "prefix ''GLF0D_'' (fst n)"
    by (simp_all add: hasattr_iff)
  from wf_namesD [OF grown_wf_names [OF g w] hb] p have f: "fst n = ''GLF0D_''"
    by (simp add: wf_prefix_GLF0D)
  have k: "snd n \<in> set (collect_indices a)"
  proof (cases "hasattr a n")
    case True
    from collect_indicesI [OF True GLF0D_prop] f str_in_refl [of "''GLF0D_''"] show ?thesis
      by simp
  next
    case False
    from hb obtain q where "map_of (params b) n = Some q" by (auto simp: hasattr_def)
    from grown_new [OF g this False] show ?thesis by simp
  qed
  with c have "complete_at b (snd n)" by simp
  then have "hasattr b (''GLTD_'', snd n)" using GLTD_prop by (simp add: complete_at_def)
  then obtain t where t: "getattr b (''GLTD_'', snd n) = Inr t" by (auto simp: hasattr_getattr)
  from hb obtain gl where gl: "getattr b n = Inr gl" by (auto simp: hasattr_getattr)
  have n': "n = (''GLF0D_'', snd n)" using f by (cases n) simp
  from gl n' have gl': "getattr b (''GLF0D_'', snd n) = Inr gl" by simp
  have "decay_undefined b n \<longleftrightarrow> val gl \<noteq> 0 \<and> val t = 0"
    using gl t by (simp add: decay_undefined_def)
  also have "\<dots> \<longleftrightarrow> bad_decay_at a (snd n)"
    by (rule grown_bad_decay [OF g gl' t])
  finally show ?thesis using gl t f by blast
qed

lemma bad_decay_names:
  assumes g: "grown (set glitch_prop) (set (collect_indices a)) a b"
    and c: "\<forall>idx\<in>set (collect_indices a). complete_at b idx"
    and w: "wf_names a"
  shows "(\<exists>n\<in>set [x \<leftarrow> map fst (params b). prefix ''GLF0D_'' (fst x)]. decay_undefined b n)
           \<longleftrightarrow> bad_decay a"
proof
  assume "\<exists>n\<in>set [x \<leftarrow> map fst (params b). prefix ''GLF0D_'' (fst x)]. decay_undefined b n"
  then obtain n where n: "n \<in> set [x \<leftarrow> map fst (params b). prefix ''GLF0D_'' (fst x)]"
    and d: "decay_undefined b n" by blast
  from decay_names [OF g c w n] d have f: "fst n = ''GLF0D_''" and b: "bad_decay_at a (snd n)"
    by blast+
  from bad_decay_at_hasattr [OF b] f have "hasattr a n" by (cases n) simp
  then have "n \<in> set (map fst (params a))" by (simp add: hasattr_iff)
  with f b show "bad_decay a" unfolding bad_decay_def by blast
next
  assume "bad_decay a"
  then obtain n where na: "n \<in> set (map fst (params a))" and f: "fst n = ''GLF0D_''"
    and b: "bad_decay_at a (snd n)" unfolding bad_decay_def by blast
  from na have "hasattr a n" by (simp add: hasattr_iff)
  from grown_hasattr [OF g this] f
  have n: "n \<in> set [x \<leftarrow> map fst (params b). prefix ''GLF0D_'' (fst x)]"
    by (simp add: hasattr_iff)
  from decay_names [OF g c w n] b have "decay_undefined b n" by blast
  with n show "\<exists>n\<in>set [x \<leftarrow> map fst (params b). prefix ''GLF0D_'' (fst x)]. decay_undefined b n"
    by blast
qed

subsection \<open>Evaluation of the examples\<close>

lemmas ex_defs = ex_params_def glitch_prop_def setup_param_def
  hasattr_def getattr_def add_param_def register_deriv_funcs_def

lemma set_order_set: "\<forall>xs. set (set_order xs) = set xs"
  by (simp add: set_order_def)

lemma ex_collect: "collect_indices ex_two_store = [1, 1, 5, 1, 1, 1, 1]"
  by (simp add: collect_indices_def ex_two_store_def ex_params_def glitch_prop_def)

lemma ex_two_setup: "glitch_setup set_order ex_two_store = Inr ex_two_after"
  by (simp add: glitch_setup_def ex_collect set_order_def)
    (simp add: ex_two_store_def ex_two_after_def ex_params_def glitch_prop_def setup_param_def
      hasattr_def getattr_def add_param_def register_deriv_funcs_def)

lemma ex_bad_decay_only_2: "bad_decay_at ex_bad_decay_store idx \<Longrightarrow> idx = 2"
proof -
  assume b: "bad_decay_at ex_bad_decay_store idx"
  have "hasattr ex_bad_decay_store (''GLF0D_'', idx)" using b by (rule bad_decay_at_hasattr)
  then have "idx = 1 \<or> idx = 2"
    unfolding hasattr_iff ex_bad_decay_store_def ex_params_def by auto
  moreover have "\<not> bad_decay_at ex_bad_decay_store 1"
    by (simp add: bad_decay_at_def ex_bad_decay_store_def ex_defs)
  ultimately show ?thesis using b by blast
qed

subsection \<open>The loop on arrays of numbers as a sum\<close>

lemma event_values_shift:
  assumes ev: "event_values self tdbld delay n phs = Inr phs'"
    and len: "length phs = length tdbld" and len2: "length phs2 = length tdbld"
  shows "\<exists>r. event_values self tdbld delay n phs2 = Inr r \<and> length r = length tdbld \<and>
           length phs' = length tdbld \<and>
           (\<forall>i<length tdbld. r ! i - phs2 ! i = phs' ! i - phs ! i)"
proof (rule event_values_InrD [OF ev])
  fix glep dphs dF0 dF1 dF2 dF0D dt dc
  assume a: "getattr self n = Inr glep"
    "getattr self (''GLPH_'', snd n) = Inr dphs"
    "getattr self (''GLF0_'', snd n) = Inr dF0"
    "getattr self (''GLF1_'', snd n) = Inr dF1"
    "getattr self (''GLF2_'', snd n) = Inr dF2"
    "getattr self (''GLF0D_'', snd n) = Inr dF0D"
    and dt: "dt_seconds (val glep) tdbld delay = Inr dt"
    and dc: "(if val dF0D \<noteq> 0
        then bind_err (getattr self (''GLTD_'', snd n)) (\<lambda>tau.
               those_err (map (\<lambda>d. if d > 0
                    then bind_err (decay_factor (val tau * day) d)
                           (\<lambda>k. Inr (val dF0D * (val tau * day) * k))
                    else Inr 0) dt))
        else Inr (map (\<lambda>d. 0) dt)) = Inr dc"
    and phs': "phs' = map (\<lambda>(p, d, dc). if d > 0
                 then p + (val dphs + d * (val dF0 + 0.5 * d * val dF1
                             + 1 / 6 * d * d * val dF2) + dc)
                 else p)
               (zip phs (zip dt dc))"
  have r: "event_values self tdbld delay n phs2 = Inr (map (\<lambda>(p, d, dc). if d > 0
                 then p + (val dphs + d * (val dF0 + 0.5 * d * val dF1
                             + 1 / 6 * d * d * val dF2) + dc)
                 else p)
               (zip phs2 (zip dt dc)))"
    unfolding event_values_def a dt bind_err_simps dc ..
  note d = dt_seconds_InrD [OF dt]
  have ldc: "length dc = length dt" using dc by (rule decay_clause_length)
  show ?thesis
    unfolding r phs' using d ldc len len2 by simp
qed

lemma event_values_zeros:
  assumes ev: "event_values self tdbld delay n phs = Inr phs'"
    and len: "length phs = length tdbld"
  shows "\<exists>c. event_values self tdbld delay n (replicate (length tdbld) 0) = Inr c \<and>
           length c = length tdbld \<and> length phs' = length tdbld \<and>
           (\<forall>i<length tdbld. phs' ! i = phs ! i + c ! i)"
proof -
  from event_values_shift [OF ev len, of "replicate (length tdbld) 0"]
  obtain c where c: "event_values self tdbld delay n (replicate (length tdbld) 0) = Inr c"
    "length c = length tdbld" "length phs' = length tdbld"
    and e: "\<forall>i<length tdbld. c ! i - replicate (length tdbld) 0 ! i = phs' ! i - phs ! i"
    by auto
  from e have "\<forall>i<length tdbld. phs' ! i = phs ! i + c ! i" by (simp add: algebra_simps)
  with c show ?thesis by blast
qed

lemma event_values_from_zeros:
  assumes ev: "event_values self tdbld delay n (replicate (length tdbld) 0) = Inr c"
    and len: "length phs = length tdbld"
  shows "\<exists>phs'. event_values self tdbld delay n phs = Inr phs' \<and>
           length c = length tdbld \<and> length phs' = length tdbld \<and>
           (\<forall>i<length tdbld. phs' ! i = phs ! i + c ! i)"
proof -
  from event_values_shift [OF ev _ len]
  obtain r where r: "event_values self tdbld delay n phs = Inr r"
    "length r = length tdbld" "length c = length tdbld"
    and e: "\<forall>i<length tdbld. r ! i - phs ! i = c ! i - replicate (length tdbld) 0 ! i"
    by auto
  from e have "\<forall>i<length tdbld. r ! i = phs ! i + c ! i" by (simp add: algebra_simps)
  with r show ?thesis by blast
qed

lemma those_err_Cons_Inr_iff:
  "those_err (x # xs) = Inr ys \<longleftrightarrow> (\<exists>v vs. x = Inr v \<and> those_err xs = Inr vs \<and> ys = v # vs)"
  by (cases x; cases "those_err xs") auto

lemma loop_values_sum:
  assumes "length phs = length tdbld"
  shows "loop_values self tdbld delay nms phs = Inr phs' \<longleftrightarrow>
    (\<exists>cs. those_err (map (\<lambda>n. event_values self tdbld delay n (replicate (length tdbld) 0)) nms)
            = Inr cs \<and>
          length phs' = length tdbld \<and>
          (\<forall>i<length tdbld. phs' ! i = phs ! i + (\<Sum>c\<leftarrow>cs. c ! i)))"
  using assms
proof (induction nms arbitrary: phs)
  case Nil
  show ?case
  proof
    assume "loop_values self tdbld delay [] phs = Inr phs'"
    with Nil show "\<exists>cs. those_err (map (\<lambda>n. event_values self tdbld delay n
        (replicate (length tdbld) 0)) []) = Inr cs \<and> length phs' = length tdbld \<and>
          (\<forall>i<length tdbld. phs' ! i = phs ! i + (\<Sum>c\<leftarrow>cs. c ! i))"
      by simp
  next
    assume "\<exists>cs. those_err (map (\<lambda>n. event_values self tdbld delay n
        (replicate (length tdbld) 0)) []) = Inr cs \<and> length phs' = length tdbld \<and>
          (\<forall>i<length tdbld. phs' ! i = phs ! i + (\<Sum>c\<leftarrow>cs. c ! i))"
    then have "length phs' = length tdbld" and "\<forall>i<length tdbld. phs' ! i = phs ! i"
      by auto
    with Nil have "phs' = phs" by (intro nth_equalityI) simp_all
    then show "loop_values self tdbld delay [] phs = Inr phs'" by simp
  qed
next
  case (Cons n nms)
  show ?case
  proof
    assume "loop_values self tdbld delay (n # nms) phs = Inr phs'"
    then obtain p1 where e: "event_values self tdbld delay n phs = Inr p1"
      and l: "loop_values self tdbld delay nms p1 = Inr phs'"
      by (auto simp: bind_err_Inr_iff)
    from event_values_zeros [OF e Cons.prems]
    obtain c where c: "event_values self tdbld delay n (replicate (length tdbld) 0) = Inr c"
      and lp1: "length p1 = length tdbld"
      and p1: "\<forall>i<length tdbld. p1 ! i = phs ! i + c ! i"
      by (elim exE conjE)
    from l [unfolded Cons.IH [OF lp1]]
    obtain cs where cs: "those_err (map (\<lambda>n. event_values self tdbld delay n
        (replicate (length tdbld) 0)) nms) = Inr cs"
      and lp: "length phs' = length tdbld"
      and p: "\<forall>i<length tdbld. phs' ! i = p1 ! i + (\<Sum>c\<leftarrow>cs. c ! i)"
      by (elim exE conjE)
    have 1: "those_err (map (\<lambda>n. event_values self tdbld delay n
        (replicate (length tdbld) 0)) (n # nms)) = Inr (c # cs)"
      using c cs by simp
    have 2: "\<forall>i<length tdbld. phs' ! i = phs ! i + (\<Sum>c\<leftarrow>c # cs. c ! i)"
      using p p1 by simp
    show "\<exists>cs. those_err (map (\<lambda>n. event_values self tdbld delay n
        (replicate (length tdbld) 0)) (n # nms)) = Inr cs \<and> length phs' = length tdbld \<and>
          (\<forall>i<length tdbld. phs' ! i = phs ! i + (\<Sum>c\<leftarrow>cs. c ! i))"
      by (intro exI [of _ "c # cs"] conjI 1 2 lp)
  next
    assume "\<exists>cs. those_err (map (\<lambda>n. event_values self tdbld delay n
        (replicate (length tdbld) 0)) (n # nms)) = Inr cs \<and> length phs' = length tdbld \<and>
          (\<forall>i<length tdbld. phs' ! i = phs ! i + (\<Sum>c\<leftarrow>cs. c ! i))"
    then obtain cs' where cs': "those_err (map (\<lambda>n. event_values self tdbld delay n
        (replicate (length tdbld) 0)) (n # nms)) = Inr cs'"
      and lp: "length phs' = length tdbld"
      and p': "\<forall>i<length tdbld. phs' ! i = phs ! i + (\<Sum>c\<leftarrow>cs'. c ! i)"
      by (elim exE conjE)
    from cs' obtain c cs where c: "event_values self tdbld delay n (replicate (length tdbld) 0) = Inr c"
      and cs: "those_err (map (\<lambda>n. event_values self tdbld delay n
        (replicate (length tdbld) 0)) nms) = Inr cs"
      and eq: "cs' = c # cs"
      unfolding list.map those_err_Cons_Inr_iff by (elim exE conjE)
    from p' eq have p: "\<forall>i<length tdbld. phs' ! i = phs ! i + (\<Sum>c\<leftarrow>c # cs. c ! i)"
      by simp
    from event_values_from_zeros [OF c Cons.prems]
    obtain p1 where e: "event_values self tdbld delay n phs = Inr p1"
      and lp1: "length p1 = length tdbld"
      and p1: "\<forall>i<length tdbld. p1 ! i = phs ! i + c ! i"
      by (elim exE conjE)
    have "\<forall>i<length tdbld. phs' ! i = p1 ! i + (\<Sum>c\<leftarrow>cs. c ! i)"
      using p p1 by simp
    with cs lp have "\<exists>cs. those_err (map (\<lambda>n. event_values self tdbld delay n
        (replicate (length tdbld) 0)) nms) = Inr cs \<and> length phs' = length tdbld \<and>
          (\<forall>i<length tdbld. phs' ! i = p1 ! i + (\<Sum>c\<leftarrow>cs. c ! i))"
      by (intro exI [of _ cs] conjI)
    then have "loop_values self tdbld delay nms p1 = Inr phs'"
      by (simp only: Cons.IH [OF lp1])
    with e show "loop_values self tdbld delay (n # nms) phs = Inr phs'" by simp
  qed
qed

lemma phase_values_sum:
  "phase_values self tdbld delay = Inr phs \<longleftrightarrow>
    (\<exists>cs. those_err (map (\<lambda>n. event_values self tdbld delay n (replicate (length tdbld) 0))
              (glepnames self)) = Inr cs \<and>
          length phs = length tdbld \<and>
          (\<forall>i<length tdbld. phs ! i = (\<Sum>c\<leftarrow>cs. c ! i)))"
  unfolding phase_values_def
  by (subst loop_values_sum) simp_all

lemma getattr_map_of_cong:
  "map_of (params a) = map_of (params b) \<Longrightarrow> getattr a = getattr b"
  by (simp add: getattr_def fun_eq_iff)

lemma event_values_cong:
  assumes "map_of (params a) = map_of (params b)"
  shows "event_values a tdbld delay n phs = event_values b tdbld delay n phs"
  unfolding event_values_def getattr_map_of_cong [OF assms] ..

lemma those_err_perm:
  assumes m: "mset ys = mset xs" and t: "those_err (map g xs) = Inr cs"
  shows "\<exists>cs'. those_err (map g ys) = Inr cs' \<and> mset cs' = mset cs"
proof -
  define h where "h x = (case g x of Inr v \<Rightarrow> v | Inl e \<Rightarrow> undefined)" for x
  have gx: "g x = Inr (h x)" if "x \<in> set xs" for x
  proof -
    from that obtain i where i: "i < length xs" "x = xs ! i" by (auto simp: in_set_conv_nth)
    from those_err_map_nth(2) [OF t i(1)] i(2) show ?thesis by (simp add: h_def)
  qed
  have "those_err (map g xs) = Inr (map h xs)"
    by (rule those_err_map_Inr) (rule gx)
  with t have cs: "cs = map h xs" by simp
  from m have "set ys = set xs" by (rule mset_eq_setD)
  then have "those_err (map g ys) = Inr (map h ys)"
    by (intro those_err_map_Inr gx) simp
  moreover have "mset (map h ys) = mset cs" using m by (simp add: cs)
  ultimately show ?thesis by blast
qed

lemma sum_list_mset_cong:
  fixes f :: "'a \<Rightarrow> real"
  assumes "mset xs = mset ys"
  shows "(\<Sum>x\<leftarrow>xs. f x) = (\<Sum>x\<leftarrow>ys. f x)"
proof -
  have "(\<Sum>x\<leftarrow>xs. f x) = sum_mset (mset (map f xs))" by (simp only: sum_mset_sum_list)
  also have "\<dots> = sum_mset (mset (map f ys))" using assms by simp
  also have "\<dots> = (\<Sum>x\<leftarrow>ys. f x)" by (simp only: sum_mset_sum_list)
  finally show ?thesis .
qed

lemma phase_values_permuted:
  assumes ph: "phase_values self tdbld delay = Inr phs"
    and d: "distinct (map fst (params self))"
    and m: "mset (params self') = mset (params self)"
  shows "phase_values self' tdbld delay = Inr phs"
proof -
  from m have "mset (map fst (params self')) = mset (map fst (params self))" by simp
  with d have d': "distinct (map fst (params self'))"
    using mset_eq_imp_distinct_iff by blast
  from m have "set (params self') = set (params self)" by (rule mset_eq_setD)
  with d d' have mo: "map_of (params self') = map_of (params self)"
    by (simp add: map_of_inject_set)
  have gn: "mset (glepnames self') = mset (glepnames self)"
    using m by (simp add: glepnames_def)
  from ph obtain cs where cs: "those_err (map (\<lambda>n. event_values self tdbld delay n
      (replicate (length tdbld) 0)) (glepnames self)) = Inr cs"
    and l: "length phs = length tdbld"
    and p: "\<forall>i<length tdbld. phs ! i = (\<Sum>c\<leftarrow>cs. c ! i)"
    unfolding phase_values_sum by (elim exE conjE)
  from those_err_perm [OF gn cs] obtain cs' where
    cs': "those_err (map (\<lambda>n. event_values self tdbld delay n
      (replicate (length tdbld) 0)) (glepnames self')) = Inr cs'"
    and mc: "mset cs' = mset cs" by (elim exE conjE)
  have e: "(\<lambda>n. event_values self' tdbld delay n (replicate (length tdbld) 0))
      = (\<lambda>n. event_values self tdbld delay n (replicate (length tdbld) 0))"
    by (rule ext) (rule event_values_cong [OF mo])
  have "\<forall>i<length tdbld. phs ! i = (\<Sum>c\<leftarrow>cs'. c ! i)"
    using p sum_list_mset_cong [OF mc] by simp
  with cs' l show ?thesis
    unfolding phase_values_sum e by (intro exI [of _ cs'] conjI)
qed

lemma map_of_map_key:
  "map_of (map (\<lambda>(n, p). (n, f n p)) xs) k = map_option (f k) (map_of xs k)"
  by (induction xs) auto

lemma getattr_zero_event:
  "getattr (zero_event k self) n =
     (if snd n = k \<and> fst n \<in> set glitch_prop
      then bind_err (getattr self n) (\<lambda>p. Inr (p\<lparr>val := 0\<rparr>))
      else getattr self n)"
  by (simp add: getattr_def zero_event_def map_of_map_key split: option.splits)

lemma map_fst_map_key: "map fst (map (\<lambda>(n, p). (n, f n p)) xs) = map fst xs"
  by (induction xs) auto

lemma glepnames_zero_event: "glepnames (zero_event k self) = glepnames self"
proof -
  have "params (zero_event k self) = map (\<lambda>(n, p). (n, if snd n = k \<and> fst n \<in> set glitch_prop
                                      then p\<lparr>val := 0\<rparr> else p)) (params self)"
    by (simp add: zero_event_def)
  then have "map fst (params (zero_event k self)) = map fst (params self)"
    by (simp only: map_fst_map_key)
  then show ?thesis by (simp only: glepnames_def)
qed

lemma prop_strings:
  "''GLPH_'' \<in> set glitch_prop" "''GLF0_'' \<in> set glitch_prop" "''GLF1_'' \<in> set glitch_prop"
  "''GLF2_'' \<in> set glitch_prop" "''GLF0D_'' \<in> set glitch_prop" "''GLTD_'' \<in> set glitch_prop"
  by (simp_all add: glitch_prop_def)

lemma event_values_zero_other:
  assumes "fst n = ''GLEP_''" and "snd n \<noteq> k"
  shows "event_values (zero_event k self) tdbld delay n phs = event_values self tdbld delay n phs"
proof -
  have 1: "getattr (zero_event k self) n = getattr self n"
    using assms GLEP_not_prop by (simp add: getattr_zero_event)
  have 2: "getattr (zero_event k self) (x, snd n) = getattr self (x, snd n)" for x
    using assms by (simp add: getattr_zero_event)
  show ?thesis unfolding event_values_def 1 2 ..
qed

lemma event_values_zero_self:
  assumes ev: "event_values self tdbld delay n phs = Inr phs'"
    and f: "fst n = ''GLEP_''" and len: "length phs = length tdbld"
  shows "event_values (zero_event (snd n) self) tdbld delay n phs = Inr phs"
proof (rule event_values_InrD [OF ev])
  fix glep dphs dF0 dF1 dF2 dF0D dt dc
  assume a: "getattr self n = Inr glep"
    "getattr self (''GLPH_'', snd n) = Inr dphs"
    "getattr self (''GLF0_'', snd n) = Inr dF0"
    "getattr self (''GLF1_'', snd n) = Inr dF1"
    "getattr self (''GLF2_'', snd n) = Inr dF2"
    "getattr self (''GLF0D_'', snd n) = Inr dF0D"
    and dt: "dt_seconds (val glep) tdbld delay = Inr dt"
  have 1: "getattr (zero_event (snd n) self) n = Inr glep"
    using f GLEP_not_prop a(1) by (simp add: getattr_zero_event)
  have 2: "getattr (zero_event (snd n) self) (''GLPH_'', snd n) = Inr (dphs\<lparr>val := 0\<rparr>)"
    "getattr (zero_event (snd n) self) (''GLF0_'', snd n) = Inr (dF0\<lparr>val := 0\<rparr>)"
    "getattr (zero_event (snd n) self) (''GLF1_'', snd n) = Inr (dF1\<lparr>val := 0\<rparr>)"
    "getattr (zero_event (snd n) self) (''GLF2_'', snd n) = Inr (dF2\<lparr>val := 0\<rparr>)"
    "getattr (zero_event (snd n) self) (''GLF0D_'', snd n) = Inr (dF0D\<lparr>val := 0\<rparr>)"
    using a(2-6) prop_strings by (simp_all add: getattr_zero_event)
  note d = dt_seconds_InrD [OF dt]
  have "val (dF0D\<lparr>val := 0\<rparr>) \<noteq> 0 \<longleftrightarrow> False" by simp
  then have "event_values (zero_event (snd n) self) tdbld delay n phs =
     Inr (map (\<lambda>(p, d, dc). if d > 0
                 then p + (val (dphs\<lparr>val := 0\<rparr>) + d * (val (dF0\<lparr>val := 0\<rparr>)
                             + 0.5 * d * val (dF1\<lparr>val := 0\<rparr>)
                             + 1 / 6 * d * d * val (dF2\<lparr>val := 0\<rparr>)) + dc)
                 else p) (zip phs (zip dt (map (\<lambda>d. 0) dt))))"
    unfolding event_values_def 1 2 dt bind_err_simps by (simp only: if_False bind_err_simps)
  also have "map (\<lambda>(p, d, dc). if d > 0
                 then p + (val (dphs\<lparr>val := 0\<rparr>) + d * (val (dF0\<lparr>val := 0\<rparr>)
                             + 0.5 * d * val (dF1\<lparr>val := 0\<rparr>)
                             + 1 / 6 * d * d * val (dF2\<lparr>val := 0\<rparr>)) + dc)
                 else p) (zip phs (zip dt (map (\<lambda>d. 0) dt))) = phs"
    using d len by (intro nth_equalityI) simp_all
  finally show ?thesis .
qed

lemma two_glitches_additive:
  assumes ph: "phase_values self tdbld delay = Inr phs"
    and names: "glepnames self = [ea, eb]"
    and f: "fst ea = ''GLEP_''" "fst eb = ''GLEP_''" and ne: "snd ea \<noteq> snd eb"
  shows "\<exists>pa pb. phase_values (zero_event (snd eb) self) tdbld delay = Inr pa \<and>
                 phase_values (zero_event (snd ea) self) tdbld delay = Inr pb \<and>
                 (\<forall>i<length tdbld. phs ! i = pa ! i + pb ! i)"
proof -
  let ?z = "replicate (length tdbld) (0::real)"
  from ph obtain cs where cs: "those_err (map (\<lambda>n. event_values self tdbld delay n ?z)
      [ea, eb]) = Inr cs"
    and p: "\<forall>i<length tdbld. phs ! i = (\<Sum>c\<leftarrow>cs. c ! i)"
    unfolding phase_values_sum names by (elim exE conjE)
  from cs obtain ca cb where ca: "event_values self tdbld delay ea ?z = Inr ca"
    and cb: "event_values self tdbld delay eb ?z = Inr cb" and eq: "cs = [ca, cb]"
    unfolding list.map those_err_Cons_Inr_iff by (elim exE conjE) simp
  have "length ?z = length tdbld" by simp
  from event_values_zeros [OF ca this] have la: "length ca = length tdbld" by (elim exE conjE)
  have "length ?z = length tdbld" by simp
  from event_values_zeros [OF cb this] have lb: "length cb = length tdbld" by (elim exE conjE)
  have za: "event_values (zero_event (snd ea) self) tdbld delay ea ?z = Inr ?z"
    by (rule event_values_zero_self [OF ca f(1)]) simp
  have zb: "event_values (zero_event (snd eb) self) tdbld delay eb ?z = Inr ?z"
    by (rule event_values_zero_self [OF cb f(2)]) simp
  have oa: "event_values (zero_event (snd eb) self) tdbld delay ea ?z = Inr ca"
    using event_values_zero_other [OF f(1) ne] ca by simp
  have ob: "event_values (zero_event (snd ea) self) tdbld delay eb ?z = Inr cb"
    using event_values_zero_other [OF f(2) ne [symmetric]] cb by simp
  have pa: "phase_values (zero_event (snd eb) self) tdbld delay = Inr ca"
    unfolding phase_values_sum glepnames_zero_event names
    by (intro exI [of _ "[ca, ?z]"] conjI) (simp_all add: oa zb la)
  have pb: "phase_values (zero_event (snd ea) self) tdbld delay = Inr cb"
    unfolding phase_values_sum glepnames_zero_event names
    by (intro exI [of _ "[?z, cb]"] conjI) (simp_all add: ob za lb)
  have "\<forall>i<length tdbld. phs ! i = ca ! i + cb ! i" using p eq by simp
  with pa pb show ?thesis by blast
qed

lemmas phase_defs = phase_values_def glepnames_def event_values_def dt_seconds_def getattr_def

lemma ex_overlap_phase: "phase_values ex_overlap_store [55010] [0] = Inr [341 / 250]"
  by (simp add: phase_defs ex_overlap_store_def day_def)

lemma ex_overlap_alone:
  "phase_values (zero_event 2 ex_overlap_store) [55010] [0] = Inr [108 / 125]"
  "phase_values (zero_event 1 ex_overlap_store) [55010] [0] = Inr [1 / 2]"
  by (simp_all add: phase_defs zero_event_def glitch_prop_def ex_overlap_store_def day_def)

lemma getattr_event_vals: "getattr self (x, idx) = Inr p \<Longrightarrow> event_vals self idx x = val p"
  by (simp add: event_vals_def getattr_Inr_iff)

lemma decayterm_ok:
  assumes "T \<noteq> 0 \<or> (\<forall>x\<in>set dts. x \<le> 0)"
  shows "those_err (map (\<lambda>d. if d > 0
                    then bind_err (decay_factor T d) (\<lambda>k. Inr (h k))
                    else Inr 0) dts)
         = Inr (map (\<lambda>d. if d > 0 then h (1 - exp (- (d / T))) else 0) dts)"
proof (rule those_err_map_Inr)
  fix x assume "x \<in> set dts"
  with assms show "(if 0 < x then bind_err (decay_factor T x) (\<lambda>k. Inr (h k)) else Inr 0)
      = Inr (if 0 < x then h (1 - exp (- (x / T))) else 0)"
    by (cases "T = 0") (auto simp: decay_factor_def)
qed

subsection \<open>Marked elements\<close>

lemma glitch_event_InrD:
  assumes "glitch_event self tdbld delay glepnm phs = Inr phs'"
  obtains glep dphs dF0 dF1 dF2 dF0D dt dc where
    "getattr self glepnm = Inr glep"
    "getattr self (''GLPH_'', snd glepnm) = Inr dphs"
    "getattr self (''GLF0_'', snd glepnm) = Inr dF0"
    "getattr self (''GLF1_'', snd glepnm) = Inr dF1"
    "getattr self (''GLF2_'', snd glepnm) = Inr dF2"
    "getattr self (''GLF0D_'', snd glepnm) = Inr dF0D"
    "dt_seconds (val glep) tdbld delay = Inr dt"
    "(if val dF0D \<noteq> 0
        then bind_err (getattr self (''GLTD_'', snd glepnm)) (\<lambda>tau.
               Inr (map (\<lambda>d. if d > 0
                    then bind_err (decay_factor (val tau * day) d)
                           (\<lambda>k. Inr (val dF0D * (val tau * day) * k))
                    else Inr 0) dt))
        else Inr (map (\<lambda>d. Inr 0) dt)) = Inr dc"
    "phs' = map (\<lambda>(p, d, dc). if d > 0
                 then bind_err p (\<lambda>p. bind_err dc (\<lambda>dc.
                        Inr (p + (val dphs + d * (val dF0 + 0.5 * d * val dF1
                                    + 1 / 6 * d * d * val dF2) + dc))))
                 else p)
               (zip phs (zip dt dc))"
proof -
  from assms show ?thesis
    unfolding glitch_event_def bind_err_Inr_iff
    by (elim exE conjE) (rule that, assumption+, simp)
qed

text \<open>One pass of the loop, element by element.\<close>

lemma glitch_event_entries:
  assumes ev: "glitch_event self tdbld delay n phs = Inr phs'"
    and len: "length phs = length tdbld"
  shows "length phs' = length tdbld \<and> length delay = length tdbld \<and>
    (\<forall>i<length tdbld. phs' ! i =
       (if event_dt self tdbld delay n i > 0
        then bind_err (phs ! i) (\<lambda>p.
               if divides_by_zero self tdbld delay n i then Inl DivideByZero
               else Inr (p + event_phase (event_vals self (snd n)) (event_dt self tdbld delay n i)))
        else phs ! i))"
proof (rule glitch_event_InrD [OF ev])
  fix glep dphs dF0 dF1 dF2 dF0D dt dc
  assume a: "getattr self n = Inr glep"
    "getattr self (''GLPH_'', snd n) = Inr dphs"
    "getattr self (''GLF0_'', snd n) = Inr dF0"
    "getattr self (''GLF1_'', snd n) = Inr dF1"
    "getattr self (''GLF2_'', snd n) = Inr dF2"
    "getattr self (''GLF0D_'', snd n) = Inr dF0D"
    and dt: "dt_seconds (val glep) tdbld delay = Inr dt"
    and dc: "(if val dF0D \<noteq> 0
        then bind_err (getattr self (''GLTD_'', snd n)) (\<lambda>tau.
               Inr (map (\<lambda>d. if d > 0
                    then bind_err (decay_factor (val tau * day) d)
                           (\<lambda>k. Inr (val dF0D * (val tau * day) * k))
                    else Inr 0) dt))
        else Inr (map (\<lambda>d. Inr 0) dt)) = Inr dc"
    and phs': "phs' = map (\<lambda>(p, d, dc). if d > 0
                 then bind_err p (\<lambda>p. bind_err dc (\<lambda>dc.
                        Inr (p + (val dphs + d * (val dF0 + 0.5 * d * val dF1
                                    + 1 / 6 * d * d * val dF2) + dc))))
                 else p)
               (zip phs (zip dt dc))"
  note d = dt_seconds_InrD [OF dt]
  have n: "n = (fst n, snd n)" by simp
  have v0: "event_vals self (snd n) (fst n) = val glep"
    using a(1) by (subst (asm) n) (rule getattr_event_vals)
  note v = a(2-6) [THEN getattr_event_vals]
  have ldc: "length dc = length dt"
    using dc by (auto simp: bind_err_Inr_iff split: if_splits)
  have dcv: "dc ! i = (if dt ! i > 0 \<and> val dF0D \<noteq> 0 \<and> event_vals self (snd n) ''GLTD_'' = 0
      then Inl DivideByZero
      else Inr (if dt ! i > 0 \<and> val dF0D \<noteq> 0
        then val dF0D * (event_vals self (snd n) ''GLTD_'' * day)
               * (1 - exp (- (dt ! i / (event_vals self (snd n) ''GLTD_'' * day))))
        else 0))" if i: "i < length tdbld" for i
  proof (cases "val dF0D = 0")
    case True
    with dc i d show ?thesis by auto
  next
    case False
    with dc obtain tau where tau: "getattr self (''GLTD_'', snd n) = Inr tau"
      and e: "dc = map (\<lambda>d. if d > 0
                    then bind_err (decay_factor (val tau * day) d)
                           (\<lambda>k. Inr (val dF0D * (val tau * day) * k))
                    else Inr 0) dt"
      by (auto simp: bind_err_Inr_iff)
    from i d False show ?thesis
      unfolding e getattr_event_vals [OF tau]
      by (simp add: decay_factor_def day_def)
  qed
  show ?thesis
  proof (intro conjI allI impI)
    show "length phs' = length tdbld" using phs' d ldc len by simp
    show "length delay = length tdbld" by (rule d(1))
    fix i assume i: "i < length tdbld"
    have "phs' ! i = (if dt ! i > 0
                 then bind_err (phs ! i) (\<lambda>p. bind_err (dc ! i) (\<lambda>dc.
                        Inr (p + (val dphs + dt ! i * (val dF0 + 0.5 * dt ! i * val dF1
                                    + 1 / 6 * dt ! i * dt ! i * val dF2) + dc))))
                 else phs ! i)"
      using i d ldc len by (simp add: phs')
    also have "\<dots> = (if dt ! i > 0
        then bind_err (phs ! i) (\<lambda>p.
               if event_vals self (snd n) ''GLF0D_'' \<noteq> 0 \<and> event_vals self (snd n) ''GLTD_'' = 0
               then Inl DivideByZero
               else Inr (p + event_phase (event_vals self (snd n)) (dt ! i)))
        else phs ! i)"
      by (cases "phs ! i") (simp_all add: dcv [OF i] event_phase_def v)
    finally have f: "phs' ! i = (if dt ! i > 0
        then bind_err (phs ! i) (\<lambda>p.
               if event_vals self (snd n) ''GLF0D_'' \<noteq> 0 \<and> event_vals self (snd n) ''GLTD_'' = 0
               then Inl DivideByZero
               else Inr (p + event_phase (event_vals self (snd n)) (dt ! i)))
        else phs ! i)" .
    have di: "event_dt self tdbld delay n i = dt ! i"
      by (simp add: event_dt_def v0 d(3) [OF i])
    have dz: "divides_by_zero self tdbld delay n i \<longleftrightarrow>
        dt ! i > 0 \<and> event_vals self (snd n) ''GLF0D_'' \<noteq> 0 \<and> event_vals self (snd n) ''GLTD_'' = 0"
      by (simp only: divides_by_zero_def di)
    show "phs' ! i =
       (if event_dt self tdbld delay n i > 0
        then bind_err (phs ! i) (\<lambda>p.
               if divides_by_zero self tdbld delay n i then Inl DivideByZero
               else Inr (p + event_phase (event_vals self (snd n)) (event_dt self tdbld delay n i)))
        else phs ! i)"
      unfolding di dz using f by (cases "dt ! i > 0") simp_all
  qed
qed


lemma glitch_event_step:
  assumes ev: "glitch_event self tdbld delay n phs = Inr phs'"
    and len: "length phs = length tdbld" and i: "i < length tdbld"
  shows "phs' ! i =
       (if event_dt self tdbld delay n i > 0
        then bind_err (phs ! i) (\<lambda>p.
               if divides_by_zero self tdbld delay n i then Inl DivideByZero
               else Inr (p + event_phase (event_vals self (snd n)) (event_dt self tdbld delay n i)))
        else phs ! i)"
  using glitch_event_entries [OF ev len] i by blast

lemma glitch_event_length:
  assumes "glitch_event self tdbld delay n phs = Inr phs'" and "length phs = length tdbld"
  shows "length phs' = length tdbld"
  using glitch_event_entries [OF assms] by simp

lemma event_phase_unaffected: "d \<le> 0 \<Longrightarrow> event_phase w d = 0"
  by (simp add: event_phase_def)

lemma glitch_loop_entries:
  assumes "glitch_loop self tdbld delay nms phs = Inr phs'" and "length phs = length tdbld"
  shows "length phs' = length tdbld \<and>
    (\<forall>i<length tdbld. phs' ! i = bind_err (phs ! i) (\<lambda>p.
        if \<exists>n\<in>set nms. divides_by_zero self tdbld delay n i then Inl DivideByZero
        else Inr (p + (\<Sum>n\<leftarrow>nms. event_phase (event_vals self (snd n))
                                      (event_dt self tdbld delay n i)))))"
  using assms
proof (induction nms arbitrary: phs)
  case Nil
  then show ?case by (auto simp: bind_err_def split: sum.splits)
next
  case (Cons n nms)
  from Cons.prems(1) obtain p1 where e: "glitch_event self tdbld delay n phs = Inr p1"
    and l: "glitch_loop self tdbld delay nms p1 = Inr phs'"
    by (auto simp: bind_err_Inr_iff)
  note l1 = glitch_event_length [OF e Cons.prems(2)]
  note ih = Cons.IH [OF l l1]
  show ?case
  proof (intro conjI allI impI)
    show "length phs' = length tdbld" using ih by simp
    fix i assume i: "i < length tdbld"
    note s = glitch_event_step [OF e Cons.prems(2) i]
    from ih i have r: "phs' ! i = bind_err (p1 ! i) (\<lambda>p.
        if \<exists>n\<in>set nms. divides_by_zero self tdbld delay n i then Inl DivideByZero
        else Inr (p + (\<Sum>n\<leftarrow>nms. event_phase (event_vals self (snd n))
                                      (event_dt self tdbld delay n i))))"
      by simp
    show "phs' ! i = bind_err (phs ! i) (\<lambda>p.
        if \<exists>n\<in>set (n # nms). divides_by_zero self tdbld delay n i then Inl DivideByZero
        else Inr (p + (\<Sum>n\<leftarrow>n # nms. event_phase (event_vals self (snd n))
                                      (event_dt self tdbld delay n i))))"
    proof (cases "phs ! i")
      case (Inl e)
      with s have "p1 ! i = Inl e" by simp
      with r Inl show ?thesis by simp
    next
      case (Inr p)
      show ?thesis
      proof (cases "event_dt self tdbld delay n i > 0")
        case False
        then have z: "event_phase (event_vals self (snd n)) (event_dt self tdbld delay n i) = 0"
          by (simp add: event_phase_unaffected)
        from False have nd: "\<not> divides_by_zero self tdbld delay n i"
          by (simp add: divides_by_zero_def)
        from s False Inr have "p1 ! i = Inr p" by simp
        with r Inr z nd show ?thesis by simp
      next
        case True
        show ?thesis
        proof (cases "divides_by_zero self tdbld delay n i")
          case d: True
          with s True Inr have "p1 ! i = Inl DivideByZero" by simp
          with r Inr d show ?thesis by simp
        next
          case d: False
          with s True Inr have "p1 ! i = Inr (p + event_phase (event_vals self (snd n))
              (event_dt self tdbld delay n i))" by simp
          with r Inr d show ?thesis by (simp add: add.assoc)
        qed
      qed
    qed
  qed
qed

lemma glitch_phase_entries:
  assumes "glitch_phase self tdbld delay = Inr arr"
  shows "length arr = length tdbld \<and>
    (\<forall>i<length tdbld. arr ! i =
       (if \<exists>n\<in>set (glepnames self). divides_by_zero self tdbld delay n i then Inl DivideByZero
        else Inr (\<Sum>n\<leftarrow>glepnames self. event_phase (event_vals self (snd n))
                                      (event_dt self tdbld delay n i))))"
proof -
  have "length (replicate (length tdbld) (Inr 0 :: element)) = length tdbld" by simp
  from glitch_loop_entries [OF assms [unfolded glitch_phase_def] this]
  show ?thesis by simp
qed

lemma glitch_event_returns:
  assumes "hasattr self n" and "\<forall>x\<in>set glitch_prop. hasattr self (x, snd n)"
    and "length delay = length tdbld"
  shows "\<exists>phs'. glitch_event self tdbld delay n phs = Inr phs'"
proof -
  from assms(1,2) obtain glep dphs dF0 dF1 dF2 dF0D tau where
    a: "getattr self n = Inr glep"
       "getattr self (''GLPH_'', snd n) = Inr dphs"
       "getattr self (''GLF0_'', snd n) = Inr dF0"
       "getattr self (''GLF1_'', snd n) = Inr dF1"
       "getattr self (''GLF2_'', snd n) = Inr dF2"
       "getattr self (''GLF0D_'', snd n) = Inr dF0D"
       "getattr self (''GLTD_'', snd n) = Inr tau"
    unfolding glitch_prop_def hasattr_getattr by auto
  show ?thesis
    using assms(3) by (simp add: glitch_event_def a dt_seconds_def)
qed

lemma glitch_loop_returns:
  assumes "\<forall>n\<in>set nms. hasattr self n \<and> (\<forall>x\<in>set glitch_prop. hasattr self (x, snd n))"
    and "length delay = length tdbld"
  shows "\<exists>phs'. glitch_loop self tdbld delay nms phs = Inr phs'"
  using assms(1)
proof (induction nms arbitrary: phs)
  case Nil
  show ?case by simp
next
  case (Cons n nms)
  from Cons.prems have n: "hasattr self n" "\<forall>x\<in>set glitch_prop. hasattr self (x, snd n)"
    and r: "\<forall>n\<in>set nms. hasattr self n \<and> (\<forall>x\<in>set glitch_prop. hasattr self (x, snd n))"
    by simp_all
  from glitch_event_returns [OF n assms(2)] obtain p1 where
    "glitch_event self tdbld delay n phs = Inr p1" ..
  with Cons.IH [OF r, of p1] show ?case by simp
qed

lemma glepnames_hasattr: "n \<in> set (glepnames self) \<Longrightarrow> hasattr self n"
  by (simp add: glepnames_def hasattr_iff)

lemma glitch_phase_returns:
  assumes "\<forall>n\<in>set (glepnames self). \<forall>x\<in>set glitch_prop. hasattr self (x, snd n)"
    and "length delay = length tdbld"
  shows "\<exists>arr. glitch_phase self tdbld delay = Inr arr"
  unfolding glitch_phase_def
  by (rule glitch_loop_returns [OF _ assms(2)]) (simp add: assms(1) glepnames_hasattr)


lemma event_values_marks:
  assumes ev: "event_values self tdbld delay n phs = Inr phs'"
  shows "glitch_event self tdbld delay n (map Inr phs) = Inr (map Inr phs')"
proof (rule event_values_InrD [OF ev])
  fix glep dphs dF0 dF1 dF2 dF0D dt dc
  assume a: "getattr self n = Inr glep"
    "getattr self (''GLPH_'', snd n) = Inr dphs"
    "getattr self (''GLF0_'', snd n) = Inr dF0"
    "getattr self (''GLF1_'', snd n) = Inr dF1"
    "getattr self (''GLF2_'', snd n) = Inr dF2"
    "getattr self (''GLF0D_'', snd n) = Inr dF0D"
    and dt: "dt_seconds (val glep) tdbld delay = Inr dt"
    and dc: "(if val dF0D \<noteq> 0
        then bind_err (getattr self (''GLTD_'', snd n)) (\<lambda>tau.
               those_err (map (\<lambda>d. if d > 0
                    then bind_err (decay_factor (val tau * day) d)
                           (\<lambda>k. Inr (val dF0D * (val tau * day) * k))
                    else Inr 0) dt))
        else Inr (map (\<lambda>d. 0) dt)) = Inr dc"
    and phs': "phs' = map (\<lambda>(p, d, dc). if d > 0
                 then p + (val dphs + d * (val dF0 + 0.5 * d * val dF1
                             + 1 / 6 * d * d * val dF2) + dc)
                 else p)
               (zip phs (zip dt dc))"
  have dc': "(if val dF0D \<noteq> 0
        then bind_err (getattr self (''GLTD_'', snd n)) (\<lambda>tau.
               Inr (map (\<lambda>d. if d > 0
                    then bind_err (decay_factor (val tau * day) d)
                           (\<lambda>k. Inr (val dF0D * (val tau * day) * k))
                    else Inr 0) dt))
        else Inr (map (\<lambda>d. Inr 0) dt)) = Inr (map Inr dc)"
  proof (cases "val dF0D = 0")
    case True
    with dc show ?thesis by auto
  next
    case False
    with dc obtain tau where tau: "getattr self (''GLTD_'', snd n) = Inr tau"
      and t: "those_err (map (\<lambda>d. if d > 0
                    then bind_err (decay_factor (val tau * day) d)
                           (\<lambda>k. Inr (val dF0D * (val tau * day) * k))
                    else Inr 0) dt) = Inr dc"
      by (auto simp: bind_err_Inr_iff)
    from t have "map (\<lambda>d. if d > 0
                    then bind_err (decay_factor (val tau * day) d)
                           (\<lambda>k. Inr (val dF0D * (val tau * day) * k))
                    else Inr 0) dt = map Inr dc"
      by (simp only: those_err_Inr_iff)
    with False tau show ?thesis by simp
  qed
  have "glitch_event self tdbld delay n (map Inr phs) =
      Inr (map (\<lambda>(p, d, dc). if d > 0
                 then bind_err p (\<lambda>p. bind_err dc (\<lambda>dc.
                        Inr (p + (val dphs + d * (val dF0 + 0.5 * d * val dF1
                                    + 1 / 6 * d * d * val dF2) + dc))))
                 else p)
               (zip (map Inr phs) (zip dt (map Inr dc))))"
    unfolding glitch_event_def a dt bind_err_simps dc' ..
  also have "map (\<lambda>(p, d, dc). if d > 0
                 then bind_err p (\<lambda>p. bind_err dc (\<lambda>dc.
                        Inr (p + (val dphs + d * (val dF0 + 0.5 * d * val dF1
                                    + 1 / 6 * d * d * val dF2) + dc))))
                 else p)
               (zip (map Inr phs) (zip dt (map Inr dc))) = map Inr phs'"
    unfolding phs' by (rule nth_equalityI) simp_all
  finally show ?thesis .
qed

lemma marks_event_values:
  assumes ev: "glitch_event self tdbld delay n (map Inr phs) = Inr (map Inr phs')"
    and len: "length phs = length tdbld"
  shows "event_values self tdbld delay n phs = Inr phs'"
proof (rule glitch_event_InrD [OF ev])
  fix glep dphs dF0 dF1 dF2 dF0D dt dc
  assume a: "getattr self n = Inr glep"
    "getattr self (''GLPH_'', snd n) = Inr dphs"
    "getattr self (''GLF0_'', snd n) = Inr dF0"
    "getattr self (''GLF1_'', snd n) = Inr dF1"
    "getattr self (''GLF2_'', snd n) = Inr dF2"
    "getattr self (''GLF0D_'', snd n) = Inr dF0D"
    and dt: "dt_seconds (val glep) tdbld delay = Inr dt"
    and dc: "(if val dF0D \<noteq> 0
        then bind_err (getattr self (''GLTD_'', snd n)) (\<lambda>tau.
               Inr (map (\<lambda>d. if d > 0
                    then bind_err (decay_factor (val tau * day) d)
                           (\<lambda>k. Inr (val dF0D * (val tau * day) * k))
                    else Inr 0) dt))
        else Inr (map (\<lambda>d. Inr 0) dt)) = Inr dc"
  note d = dt_seconds_InrD [OF dt]
  have nn: "n = (fst n, snd n)" by simp
  have v0: "event_vals self (snd n) (fst n) = val glep"
    using a(1) by (subst (asm) nn) (rule getattr_event_vals)
  note v = a(2-6) [THEN getattr_event_vals]
  have len': "length (map Inr phs :: element list) = length tdbld" using len by simp
  note e = glitch_event_entries [OF ev len']
  from e have lp: "length phs' = length tdbld" by simp
  have di: "event_dt self tdbld delay n i = dt ! i" if "i < length tdbld" for i
    by (simp add: event_dt_def v0 d(3) [OF that])
  have ent: "(dt ! i > 0 \<longrightarrow> \<not> divides_by_zero self tdbld delay n i \<and>
                  phs' ! i = phs ! i + event_phase (event_vals self (snd n)) (dt ! i)) \<and>
             (\<not> dt ! i > 0 \<longrightarrow> phs' ! i = phs ! i)" if i: "i < length tdbld" for i
  proof -
    from e i have "map Inr phs' ! i =
       (if event_dt self tdbld delay n i > 0
        then bind_err (map Inr phs ! i) (\<lambda>p.
               if divides_by_zero self tdbld delay n i then Inl DivideByZero
               else Inr (p + event_phase (event_vals self (snd n)) (event_dt self tdbld delay n i)))
        else map Inr phs ! i)" by blast
    then have "Inr (phs' ! i) =
       (if dt ! i > 0
        then if divides_by_zero self tdbld delay n i then Inl DivideByZero
             else Inr (phs ! i + event_phase (event_vals self (snd n)) (dt ! i))
        else (Inr (phs ! i) :: element))"
      using i lp len by (simp add: di [OF i])
    then show ?thesis by (auto split: if_splits)
  qed
  let ?g = "\<lambda>d. if val dF0D \<noteq> 0 \<and> d > 0
              then val dF0D * (event_vals self (snd n) ''GLTD_'' * day)
                     * (1 - exp (- (d / (event_vals self (snd n) ''GLTD_'' * day))))
              else 0"
  have old: "(if val dF0D \<noteq> 0
        then bind_err (getattr self (''GLTD_'', snd n)) (\<lambda>tau.
               those_err (map (\<lambda>d. if d > 0
                    then bind_err (decay_factor (val tau * day) d)
                           (\<lambda>k. Inr (val dF0D * (val tau * day) * k))
                    else Inr 0) dt))
        else Inr (map (\<lambda>d. 0) dt)) = Inr (map ?g dt)"
  proof (cases "val dF0D = 0")
    case True
    then show ?thesis by simp
  next
    case False
    with dc obtain tau where tau: "getattr self (''GLTD_'', snd n) = Inr tau"
      by (auto simp: bind_err_Inr_iff)
    note vt = getattr_event_vals [OF tau]
    have "val tau * day \<noteq> 0 \<or> (\<forall>x\<in>set dt. x \<le> 0)"
    proof (rule disjCI)
      assume "\<not> (\<forall>x\<in>set dt. x \<le> 0)"
      then obtain j where j: "j < length dt" "dt ! j > 0"
        by (auto simp: in_set_conv_nth not_le)
      with d(2) have jj: "j < length tdbld" by simp
      from ent [OF jj] j(2) have "\<not> divides_by_zero self tdbld delay n j" by simp
      with j(2) False show "val tau * day \<noteq> 0"
        by (simp add: divides_by_zero_def di [OF jj] v vt day_def)
    qed
    from decayterm_ok [OF this, where h = "\<lambda>k. val dF0D * (val tau * day) * k"]
      False tau show ?thesis
      by (simp add: vt)
  qed
  have "event_values self tdbld delay n phs =
      Inr (map (\<lambda>(p, d, dc). if d > 0
                 then p + (val dphs + d * (val dF0 + 0.5 * d * val dF1
                             + 1 / 6 * d * d * val dF2) + dc)
                 else p)
               (zip phs (zip dt (map ?g dt))))"
    unfolding event_values_def a dt bind_err_simps old ..
  also have "map (\<lambda>(p, d, dc). if d > 0
                 then p + (val dphs + d * (val dF0 + 0.5 * d * val dF1
                             + 1 / 6 * d * d * val dF2) + dc)
                 else p)
               (zip phs (zip dt (map ?g dt))) = phs'"
  proof (rule nth_equalityI)
    show "length (map (\<lambda>(p, d, dc). if d > 0
                 then p + (val dphs + d * (val dF0 + 0.5 * d * val dF1
                             + 1 / 6 * d * d * val dF2) + dc)
                 else p)
               (zip phs (zip dt (map ?g dt)))) = length phs'"
      using lp len d by simp
    fix i assume "i < length (map (\<lambda>(p, d, dc). if d > 0
                 then p + (val dphs + d * (val dF0 + 0.5 * d * val dF1
                             + 1 / 6 * d * d * val dF2) + dc)
                 else p)
               (zip phs (zip dt (map ?g dt))))"
    then have i: "i < length tdbld" using len d by simp
    from ent [OF i] i len d
    show "map (\<lambda>(p, d, dc). if d > 0
                 then p + (val dphs + d * (val dF0 + 0.5 * d * val dF1
                             + 1 / 6 * d * d * val dF2) + dc)
                 else p)
               (zip phs (zip dt (map ?g dt))) ! i = phs' ! i"
      by (simp add: event_phase_def v)
  qed
  finally show ?thesis .
qed


lemma loop_values_marks:
  assumes "loop_values self tdbld delay nms phs = Inr phs'"
  shows "glitch_loop self tdbld delay nms (map Inr phs) = Inr (map Inr phs')"
  using assms
proof (induction nms arbitrary: phs)
  case Nil
  then show ?case by simp
next
  case (Cons n nms)
  from Cons.prems obtain p1 where e: "event_values self tdbld delay n phs = Inr p1"
    and l: "loop_values self tdbld delay nms p1 = Inr phs'"
    by (auto simp: bind_err_Inr_iff)
  from event_values_marks [OF e] Cons.IH [OF l] show ?case by simp
qed

lemma all_Inr_map:
  assumes "\<forall>i<length xs. \<exists>p. xs ! i = Inr p"
  shows "\<exists>ps. xs = map Inr ps"
proof -
  have "xs = map Inr (map (\<lambda>x. case x of Inr p \<Rightarrow> p | Inl e \<Rightarrow> undefined) xs)"
  proof (rule nth_equalityI)
    show "length xs = length (map Inr (map (\<lambda>x. case x of Inr p \<Rightarrow> p | Inl e \<Rightarrow> undefined) xs))"
      by simp
    fix i assume i: "i < length xs"
    with assms obtain p where "xs ! i = Inr p" by blast
    with i show "xs ! i = map Inr (map (\<lambda>x. case x of Inr p \<Rightarrow> p | Inl e \<Rightarrow> undefined) xs) ! i"
      by simp
  qed
  then show ?thesis ..
qed

lemma marks_loop_values:
  assumes "glitch_loop self tdbld delay nms (map Inr phs) = Inr (map Inr phs')"
    and "length phs = length tdbld"
  shows "loop_values self tdbld delay nms phs = Inr phs'"
  using assms
proof (induction nms arbitrary: phs)
  case Nil
  then have "map Inr phs = (map Inr phs' :: element list)" by simp
  then have "phs = phs'" by (simp add: inj_map_eq_map)
  then show ?case by simp
next
  case (Cons n nms)
  from Cons.prems(1) obtain a1 where e: "glitch_event self tdbld delay n (map Inr phs) = Inr a1"
    and l: "glitch_loop self tdbld delay nms a1 = Inr (map Inr phs')"
    by (auto simp: bind_err_Inr_iff)
  have len: "length (map Inr phs :: element list) = length tdbld" using Cons.prems(2) by simp
  note l1 = glitch_event_length [OF e len]
  note le = glitch_loop_entries [OF l l1]
  have "\<forall>i<length a1. \<exists>p. a1 ! i = Inr p"
  proof (intro allI impI)
    fix i assume "i < length a1"
    with l1 have i: "i < length tdbld" by simp
    with le have b: "map Inr phs' ! i = bind_err (a1 ! i) (\<lambda>p.
        if \<exists>n\<in>set nms. divides_by_zero self tdbld delay n i then Inl DivideByZero
        else Inr (p + (\<Sum>n\<leftarrow>nms. event_phase (event_vals self (snd n))
                                      (event_dt self tdbld delay n i))))" by blast
    from le i have m: "map Inr phs' ! i = Inr (phs' ! i)" by simp
    from b [symmetric] m have "bind_err (a1 ! i) (\<lambda>p.
        if \<exists>n\<in>set nms. divides_by_zero self tdbld delay n i then Inl DivideByZero
        else Inr (p + (\<Sum>n\<leftarrow>nms. event_phase (event_vals self (snd n))
                                      (event_dt self tdbld delay n i)))) = Inr (phs' ! i)"
      by (rule trans)
    then show "\<exists>p. a1 ! i = Inr p" by (cases "a1 ! i") simp_all
  qed
  from all_Inr_map [OF this] obtain p1 where a1: "a1 = map Inr p1" ..
  from l1 have lp1: "length p1 = length tdbld" by (simp add: a1)
  from marks_event_values [OF e [unfolded a1] Cons.prems(2)]
  have "event_values self tdbld delay n phs = Inr p1" .
  moreover from Cons.IH [OF l [unfolded a1] lp1]
  have "loop_values self tdbld delay nms p1 = Inr phs'" .
  ultimately show ?case by simp
qed

lemma phase_values_iff:
  "glitch_phase self tdbld delay = Inr (map Inr phs) \<longleftrightarrow> phase_values self tdbld delay = Inr phs"
proof
  assume "glitch_phase self tdbld delay = Inr (map Inr phs)"
  then have "glitch_loop self tdbld delay (glepnames self) (map Inr (replicate (length tdbld) 0))
      = Inr (map Inr phs)"
    by (simp add: glitch_phase_def)
  from marks_loop_values [OF this] show "phase_values self tdbld delay = Inr phs"
    by (simp add: phase_values_def)
next
  assume "phase_values self tdbld delay = Inr phs"
  from loop_values_marks [OF this [unfolded phase_values_def]]
  show "glitch_phase self tdbld delay = Inr (map Inr phs)"
    by (simp add: glitch_phase_def)
qed

lemma contributions_marks:
  assumes "those_err (map (\<lambda>n. event_values self tdbld delay n (replicate k 0)) nms) = Inr cs"
  shows "map (\<lambda>n. glitch_event self tdbld delay n (replicate k (Inr 0))) nms
           = map (\<lambda>c. Inr (map Inr c)) cs"
  using assms
proof (induction nms arbitrary: cs)
  case Nil
  then show ?case by simp
next
  case (Cons n nms)
  from Cons.prems obtain c cs' where c: "event_values self tdbld delay n (replicate k 0) = Inr c"
    and r: "those_err (map (\<lambda>n. event_values self tdbld delay n (replicate k 0)) nms) = Inr cs'"
    and e: "cs = c # cs'"
    unfolding list.map those_err_Cons_Inr_iff by (elim exE conjE)
  from event_values_marks [OF c]
  have "glitch_event self tdbld delay n (replicate k (Inr 0)) = Inr (map Inr c)" by simp
  with Cons.IH [OF r] e show ?case by simp
qed

lemma ex_overlap_marks: "glitch_phase ex_overlap_store [55010] [0] = Inr (map Inr [341 / 250])"
  unfolding phase_values_iff by (rule ex_overlap_phase)

lemma ex_overlap_alone_marks:
  "glitch_phase (zero_event 2 ex_overlap_store) [55010] [0] = Inr (map Inr [108 / 125])"
  "glitch_phase (zero_event 1 ex_overlap_store) [55010] [0] = Inr (map Inr [1 / 2])"
  unfolding phase_values_iff by (rule ex_overlap_alone)+

subsection \<open>The phase as a function of one parameter value\<close>

lemma event_values_value:
  assumes c: "\<forall>x\<in>set (''GLEP_'' # glitch_prop). hasattr self (x, idx)"
    and dts: "dt_seconds (event_vals self idx ''GLEP_'') tdbld delay = Inr dts"
    and ok: "decay_ok (event_vals self idx) dts"
    and len: "length phs = length tdbld"
  shows "\<exists>r. event_values self tdbld delay (''GLEP_'', idx) phs = Inr r \<and>
           length r = length tdbld \<and>
           (\<forall>i<length tdbld. r ! i = phs ! i + event_phase (event_vals self idx) (dts ! i))"
proof -
  from c obtain glep dphs dF0 dF1 dF2 dF0D tau where
    a: "getattr self (''GLEP_'', idx) = Inr glep"
       "getattr self (''GLPH_'', idx) = Inr dphs"
       "getattr self (''GLF0_'', idx) = Inr dF0"
       "getattr self (''GLF1_'', idx) = Inr dF1"
       "getattr self (''GLF2_'', idx) = Inr dF2"
       "getattr self (''GLF0D_'', idx) = Inr dF0D"
       "getattr self (''GLTD_'', idx) = Inr tau"
    unfolding glitch_prop_def hasattr_getattr by auto
  note v = a [THEN getattr_event_vals]
  from dts have dts': "dt_seconds (val glep) tdbld delay = Inr dts" by (simp add: v)
  note d = dt_seconds_InrD [OF dts']
  let ?dc = "map (\<lambda>d. if val dF0D \<noteq> 0 \<and> d > 0
                   then val dF0D * (val tau * day) * (1 - exp (- (d / (val tau * day)))) else 0) dts"
  have r: "event_values self tdbld delay (''GLEP_'', idx) phs =
    Inr (map (\<lambda>(p, d, dc). if d > 0
                 then p + (val dphs + d * (val dF0 + 0.5 * d * val dF1
                             + 1 / 6 * d * d * val dF2) + dc)
                 else p) (zip phs (zip dts ?dc)))"
  proof (cases "val dF0D = 0")
    case True
    then show ?thesis using a dts' by (simp add: event_values_def)
  next
    case False
    with ok have "val tau * day \<noteq> 0 \<or> (\<forall>x\<in>set dts. x \<le> 0)"
      by (simp add: decay_ok_def v day_def)
    from decayterm_ok [OF this, where h = "\<lambda>k. val dF0D * (val tau * day) * k"]
      False a dts' show ?thesis
      by (simp add: event_values_def)
  qed
  show ?thesis
    unfolding r using d len by (simp add: event_phase_def v)
qed

lemma event_values_decay_ok:
  assumes ev: "event_values self tdbld delay (''GLEP_'', idx) phs = Inr r"
    and dts: "dt_seconds (event_vals self idx ''GLEP_'') tdbld delay = Inr dts"
  shows "decay_ok (event_vals self idx) dts"
proof (rule event_values_InrD [OF ev])
  fix glep dphs dF0 dF1 dF2 dF0D dt dc
  assume a: "getattr self (''GLEP_'', idx) = Inr glep"
    "getattr self (''GLF0D_'', snd (''GLEP_'', idx)) = Inr dF0D"
    and dt: "dt_seconds (val glep) tdbld delay = Inr dt"
    and dc: "(if val dF0D \<noteq> 0
        then bind_err (getattr self (''GLTD_'', snd (''GLEP_'', idx))) (\<lambda>tau.
               those_err (map (\<lambda>d. if d > 0
                    then bind_err (decay_factor (val tau * day) d)
                           (\<lambda>k. Inr (val dF0D * (val tau * day) * k))
                    else Inr 0) dt))
        else Inr (map (\<lambda>d. 0) dt)) = Inr dc"
  from a(1) dts dt have [simp]: "dt = dts" by (simp add: getattr_event_vals)
  show ?thesis
  proof (cases "val dF0D = 0")
    case True
    with a(2) show ?thesis by (simp add: decay_ok_def getattr_event_vals)
  next
    case False
    with dc obtain tau where tau: "getattr self (''GLTD_'', idx) = Inr tau"
      and t: "those_err (map (\<lambda>d. if d > 0
                    then bind_err (decay_factor (val tau * day) d)
                           (\<lambda>k. Inr (val dF0D * (val tau * day) * k))
                    else Inr 0) dts) = Inr dc"
      by (auto simp: bind_err_Inr_iff)
    have "val tau \<noteq> 0 \<or> (\<forall>x\<in>set dts. x \<le> 0)"
    proof (rule disjCI)
      assume "\<not> (\<forall>x\<in>set dts. x \<le> 0)"
      then obtain i where "i < length dts" "dts ! i > 0"
        by (auto simp: in_set_conv_nth not_le)
      from decayterm_Inr(3) [OF t this] show "val tau \<noteq> 0" by simp
    qed
    then show ?thesis using tau by (simp add: decay_ok_def getattr_event_vals)
  qed
qed

lemma getattr_set_val:
  "getattr (set_val self n v) k =
     (if k = n then bind_err (getattr self n) (\<lambda>p. Inr (p\<lparr>val := v\<rparr>)) else getattr self k)"
  by (simp add: getattr_def set_val_def map_of_map_key split: option.splits)

lemma keys_set_val: "map fst (params (set_val self n v)) = map fst (params self)"
proof -
  have "params (set_val self n v)
      = map (\<lambda>(k, p). (k, if k = n then p\<lparr>val := v\<rparr> else p)) (params self)"
    by (simp add: set_val_def)
  then show ?thesis by (simp only: map_fst_map_key)
qed

lemma glepnames_set_val: "glepnames (set_val self n v) = glepnames self"
  by (simp only: glepnames_def keys_set_val)

lemma hasattr_set_val: "hasattr (set_val self n v) k = hasattr self k"
  unfolding hasattr_iff using keys_set_val [of self n v] by (metis set_map)

lemma event_vals_set_val:
  assumes "hasattr self (x, idx)"
  shows "event_vals (set_val self (x, idx) v) idx = (event_vals self idx)(x := v)"
proof
  fix y
  from assms obtain p where p: "getattr self (x, idx) = Inr p" by (auto simp: hasattr_getattr)
  show "event_vals (set_val self (x, idx) v) idx y = ((event_vals self idx)(x := v)) y"
  proof (cases "y = x")
    case True
    have "getattr (set_val self (x, idx) v) (x, idx) = Inr (p\<lparr>val := v\<rparr>)"
      by (simp add: getattr_set_val p)
    from getattr_event_vals [OF this] True show ?thesis by simp
  next
    case False
    then have "getattr (set_val self (x, idx) v) (y, idx) = getattr self (y, idx)"
      by (simp add: getattr_set_val)
    then have "map_of (params (set_val self (x, idx) v)) (y, idx) = map_of (params self) (y, idx)"
      by (simp add: getattr_def split: option.splits)
    with False show ?thesis by (simp add: event_vals_def)
  qed
qed

lemma event_values_set_val_other:
  assumes "fst n = ''GLEP_''" and "snd n \<noteq> idx" and "x \<noteq> ''GLEP_''"
  shows "event_values (set_val self (x, idx) v) tdbld delay n phs
           = event_values self tdbld delay n phs"
proof -
  have 1: "getattr (set_val self (x, idx) v) n = getattr self n"
    using assms by (cases n) (simp add: getattr_set_val)
  have 2: "getattr (set_val self (x, idx) v) (y, snd n) = getattr self (y, snd n)" for y
    using assms by (simp add: getattr_set_val)
  show ?thesis unfolding event_values_def 1 2 ..
qed

lemma glepnames_GLEP:
  assumes "wf_names self" and "n \<in> set (glepnames self)"
  shows "fst n = ''GLEP_''"
proof -
  from assms(2) have h: "hasattr self n" and p: "prefix ''GLEP_'' (fst n)"
    by (simp_all add: glepnames_def hasattr_iff)
  from wf_namesD [OF assms(1) h] p show ?thesis by (simp add: wf_prefix_GLEP)
qed

lemma glepnames_member: "hasattr self (''GLEP_'', idx) \<Longrightarrow> (''GLEP_'', idx) \<in> set (glepnames self)"
  by (simp add: glepnames_def hasattr_iff)

lemma those_err_deterministic_map:
  assumes "\<forall>x\<in>set xs. f x = g x"
  shows "those_err (map f xs) = those_err (map g xs)"
proof -
  from assms have "map f xs = map g xs" by (intro map_cong) simp_all
  then show ?thesis by (rule arg_cong)
qed

lemma phase_split:
  assumes wf: "wf_names self" and dist: "distinct (map fst (params self))"
    and e: "hasattr self (''GLEP_'', idx)" and x: "x \<noteq> ''GLEP_''"
    and ph: "phase_values self tdbld delay = Inr phs"
  shows "\<exists>K. \<forall>v c. event_values (set_val self (x, idx) v) tdbld delay (''GLEP_'', idx)
                    (replicate (length tdbld) 0) = Inr c \<longrightarrow>
            (\<exists>phs'. phase_values (set_val self (x, idx) v) tdbld delay = Inr phs' \<and>
                (\<forall>i<length tdbld. phs' ! i = c ! i + K i))"
proof -
  let ?z = "replicate (length tdbld) (0::real)"
  let ?e = "(''GLEP_'', idx)"
  let ?ev = "\<lambda>n. event_values self tdbld delay n ?z"
  let ?names = "glepnames self"
  let ?rest = "remove1 ?e ?names"
  have mem: "?e \<in> set ?names" using e by (rule glepnames_member)
  have dn: "distinct ?names" using dist by (simp add: glepnames_def)
  have perm: "mset (?e # ?rest) = mset ?names" using mem by simp
  from ph obtain cs where cs: "those_err (map ?ev ?names) = Inr cs"
    unfolding phase_values_sum by (elim exE conjE)
  from those_err_perm [OF perm cs] obtain cs' where
    cs': "those_err (map ?ev (?e # ?rest)) = Inr cs'" by (elim exE conjE)
  then obtain c0 rest where rest: "those_err (map ?ev ?rest) = Inr rest"
    unfolding list.map those_err_Cons_Inr_iff by (elim exE conjE)
  define K where "K i = (\<Sum>c\<leftarrow>rest. c ! i)" for i
  have other: "event_values (set_val self (x, idx) v) tdbld delay n ?z = ?ev n"
    if "n \<in> set ?rest" for n v
  proof -
    from that dn have ne: "n \<noteq> ?e" and nn: "n \<in> set ?names" by auto
    from glepnames_GLEP [OF wf nn] have f: "fst n = ''GLEP_''" .
    with ne have "snd n \<noteq> idx" by (cases n) auto
    from event_values_set_val_other [OF f this x] show ?thesis .
  qed
  show ?thesis
  proof (intro exI [of _ K] allI impI)
    fix v c
    let ?s = "set_val self (x, idx) v"
    let ?evv = "\<lambda>n. event_values ?s tdbld delay n ?z"
    assume c: "event_values ?s tdbld delay ?e ?z = Inr c"
    have "those_err (map ?evv ?rest) = those_err (map ?ev ?rest)"
      by (rule those_err_deterministic_map) (simp add: other)
    with rest have "those_err (map ?evv ?rest) = Inr rest" by simp
    with c have t: "those_err (map ?evv (?e # ?rest)) = Inr (c # rest)" by simp
    from those_err_perm [OF perm [symmetric] t] obtain csv where
      csv: "those_err (map ?evv ?names) = Inr csv" and m: "mset csv = mset (c # rest)"
      by (elim exE conjE)
    define phs' where "phs' = map (\<lambda>i. \<Sum>c\<leftarrow>csv. c ! i) [0..<length tdbld]"
    have l: "length phs' = length tdbld" by (simp add: phs'_def)
    have n: "\<forall>i<length tdbld. phs' ! i = (\<Sum>c\<leftarrow>csv. c ! i)" by (simp add: phs'_def)
    have "phase_values ?s tdbld delay = Inr phs'"
      unfolding phase_values_sum glepnames_set_val
      by (intro exI [of _ csv] conjI csv l n)
    moreover have "\<forall>i<length tdbld. phs' ! i = c ! i + K i"
      using n sum_list_mset_cong [OF m] by (simp add: K_def)
    ultimately show "\<exists>phs'. phase_values ?s tdbld delay = Inr phs' \<and>
                (\<forall>i<length tdbld. phs' ! i = c ! i + K i)" by blast
  qed
qed

lemma deriv_GLPH:
  "((\<lambda>v. event_phase (w(''GLPH_'' := v)) d) has_real_derivative
      (if d > 0 then 1 else 0)) (at v0)"
proof (cases "d > 0")
  case False
  then show ?thesis by (simp add: event_phase_def)
next
  case True
  define C where "C = (if w ''GLF0D_'' \<noteq> 0
              then w ''GLF0D_'' * (w ''GLTD_'' * day) * (1 - exp (- (d / (w ''GLTD_'' * day))))
              else 0)"
  have eq: "(\<lambda>v. event_phase (w(''GLPH_'' := v)) d) = (\<lambda>v. v + d * (w ''GLF0_'' + 0.5 * d * w ''GLF1_'' + 1 / 6 * d * d * w ''GLF2_'') + C)"
    using True by (auto simp: event_phase_def fun_eq_iff C_def)
  show ?thesis unfolding eq using True by (auto intro!: derivative_eq_intros)
qed

lemma deriv_GLF0:
  "((\<lambda>v. event_phase (w(''GLF0_'' := v)) d) has_real_derivative
      (if d > 0 then d else 0)) (at v0)"
proof (cases "d > 0")
  case False
  then show ?thesis by (simp add: event_phase_def)
next
  case True
  define C where "C = (if w ''GLF0D_'' \<noteq> 0
              then w ''GLF0D_'' * (w ''GLTD_'' * day) * (1 - exp (- (d / (w ''GLTD_'' * day))))
              else 0)"
  have eq: "(\<lambda>v. event_phase (w(''GLF0_'' := v)) d) = (\<lambda>v. w ''GLPH_'' + d * (v + 0.5 * d * w ''GLF1_'' + 1 / 6 * d * d * w ''GLF2_'') + C)"
    using True by (auto simp: event_phase_def fun_eq_iff C_def)
  show ?thesis unfolding eq using True by (auto intro!: derivative_eq_intros)
qed

lemma deriv_GLF1:
  "((\<lambda>v. event_phase (w(''GLF1_'' := v)) d) has_real_derivative
      (if d > 0 then 0.5 * d\<^sup>2 else 0)) (at v0)"
proof (cases "d > 0")
  case False
  then show ?thesis by (simp add: event_phase_def)
next
  case True
  define C where "C = (if w ''GLF0D_'' \<noteq> 0
              then w ''GLF0D_'' * (w ''GLTD_'' * day) * (1 - exp (- (d / (w ''GLTD_'' * day))))
              else 0)"
  have eq: "(\<lambda>v. event_phase (w(''GLF1_'' := v)) d) = (\<lambda>v. w ''GLPH_'' + d * (w ''GLF0_'' + 0.5 * d * v + 1 / 6 * d * d * w ''GLF2_'') + C)"
    using True by (auto simp: event_phase_def fun_eq_iff C_def)
  show ?thesis unfolding eq using True by (auto intro!: derivative_eq_intros simp: power2_eq_square)
qed

lemma deriv_GLF2:
  "((\<lambda>v. event_phase (w(''GLF2_'' := v)) d) has_real_derivative
      (if d > 0 then (1 / 6) * d ^ 3 else 0)) (at v0)"
proof (cases "d > 0")
  case False
  then show ?thesis by (simp add: event_phase_def)
next
  case True
  define C where "C = (if w ''GLF0D_'' \<noteq> 0
              then w ''GLF0D_'' * (w ''GLTD_'' * day) * (1 - exp (- (d / (w ''GLTD_'' * day))))
              else 0)"
  have eq: "(\<lambda>v. event_phase (w(''GLF2_'' := v)) d) = (\<lambda>v. w ''GLPH_'' + d * (w ''GLF0_'' + 0.5 * d * w ''GLF1_'' + 1 / 6 * d * d * v) + C)"
    using True by (auto simp: event_phase_def fun_eq_iff C_def)
  show ?thesis unfolding eq using True by (auto intro!: derivative_eq_intros simp: power3_eq_cube)
qed

lemma deriv_GLF0D:
  "((\<lambda>v. event_phase (w(''GLF0D_'' := v)) d) has_real_derivative
      (if d > 0 then w ''GLTD_'' * day * (1 - exp (- (d / (w ''GLTD_'' * day)))) else 0)) (at v0)"
proof (cases "d > 0")
  case False
  then show ?thesis by (simp add: event_phase_def)
next
  case True
  have eq: "(\<lambda>v. event_phase (w(''GLF0D_'' := v)) d) =
    (\<lambda>v. w ''GLPH_'' + d * (w ''GLF0_'' + 0.5 * d * w ''GLF1_'' + 1 / 6 * d * d * w ''GLF2_'')
           + v * (w ''GLTD_'' * day) * (1 - exp (- (d / (w ''GLTD_'' * day)))))"
    using True by (auto simp: event_phase_def fun_eq_iff)
  show ?thesis unfolding eq using True by (auto intro!: derivative_eq_intros)
qed

lemma deriv_GLTD:
  assumes "v0 \<noteq> 0"
  shows "((\<lambda>v. event_phase (w(''GLTD_'' := v)) d) has_real_derivative
      (if d > 0
       then day * (w ''GLF0D_'' * (1 - exp (- d / (v0 * day)))
                   + w ''GLF0D_'' * (v0 * day) * (- exp (- d / (v0 * day))) * d
                     / ((v0 * day) * (v0 * day)))
       else 0)) (at v0)"
proof (cases "d > 0")
  case False
  then show ?thesis by (simp add: event_phase_def)
next
  case True
  have eq: "(\<lambda>v. event_phase (w(''GLTD_'' := v)) d) =
    (\<lambda>v. w ''GLPH_'' + d * (w ''GLF0_'' + 0.5 * d * w ''GLF1_'' + 1 / 6 * d * d * w ''GLF2_'')
           + w ''GLF0D_'' * (v * day) * (1 - exp (- (d / (v * day)))))"
    using True by (auto simp: event_phase_def fun_eq_iff)
  have day: "day \<noteq> 0" by (simp add: day_def)
  show ?thesis unfolding eq using True assms day
    by (auto intro!: derivative_eq_intros simp: field_simps)
qed

lemma deriv_GLTD_zero:
  assumes "decay_ok w dts" and "w ''GLTD_'' = 0" and "d \<in> set dts"
  shows "((\<lambda>v. event_phase (w(''GLTD_'' := v)) d) has_real_derivative 0) (at v0)"
proof -
  from assms have "w ''GLF0D_'' = 0 \<or> d \<le> 0" by (auto simp: decay_ok_def)
  then have "(\<lambda>v. event_phase (w(''GLTD_'' := v)) d) = (\<lambda>v. event_phase w d)"
    by (auto simp: event_phase_def fun_eq_iff)
  then show ?thesis by simp
qed

lemma phase_values_event_defined:
  assumes ph: "phase_values self tdbld delay = Inr phs" and n: "n \<in> set (glepnames self)"
  shows "\<exists>c. event_values self tdbld delay n (replicate (length tdbld) 0) = Inr c"
proof -
  from ph obtain cs where cs: "those_err (map (\<lambda>n. event_values self tdbld delay n
      (replicate (length tdbld) 0)) (glepnames self)) = Inr cs"
    unfolding phase_values_sum by (elim exE conjE)
  from n obtain j where j: "j < length (glepnames self)" "n = glepnames self ! j"
    by (auto simp: in_set_conv_nth)
  from those_err_map_nth(2) [OF cs j(1)] j(2) show ?thesis by blast
qed

lemma phase_variation:
  assumes wf: "wf_names self" and dist: "distinct (map fst (params self))"
    and c: "\<forall>y\<in>set (''GLEP_'' # glitch_prop). hasattr self (y, idx)"
    and x: "x \<in> set glitch_prop"
    and ph: "phase_values self tdbld delay = Inr phs"
    and dts: "dt_seconds (event_vals self idx ''GLEP_'') tdbld delay = Inr dts"
  shows "\<exists>K. \<forall>v. decay_ok ((event_vals self idx)(x := v)) dts \<longrightarrow>
           (\<exists>phs'. phase_values (set_val self (x, idx) v) tdbld delay = Inr phs' \<and>
              (\<forall>i<length tdbld. phs' ! i
                   = event_phase ((event_vals self idx)(x := v)) (dts ! i) + K i))"
proof -
  from x GLEP_not_prop have xg: "x \<noteq> ''GLEP_''" by auto
  from c have e: "hasattr self (''GLEP_'', idx)" and hx: "hasattr self (x, idx)"
    using x by simp_all
  from phase_split [OF wf dist e xg ph] obtain K where
    K: "\<And>v c. event_values (set_val self (x, idx) v) tdbld delay (''GLEP_'', idx)
                    (replicate (length tdbld) 0) = Inr c \<Longrightarrow>
            (\<exists>phs'. phase_values (set_val self (x, idx) v) tdbld delay = Inr phs' \<and>
                (\<forall>i<length tdbld. phs' ! i = c ! i + K i))"
    by blast
  show ?thesis
  proof (intro exI [of _ K] allI impI)
    fix v
    let ?s = "set_val self (x, idx) v"
    assume ok: "decay_ok ((event_vals self idx)(x := v)) dts"
    have ev: "event_vals ?s idx = (event_vals self idx)(x := v)"
      using hx by (rule event_vals_set_val)
    have c': "\<forall>y\<in>set (''GLEP_'' # glitch_prop). hasattr ?s (y, idx)"
      using c by (simp add: hasattr_set_val)
    have dts': "dt_seconds (event_vals ?s idx ''GLEP_'') tdbld delay = Inr dts"
      using dts xg by (simp add: ev)
    have ok': "decay_ok (event_vals ?s idx) dts" using ok by (simp only: ev)
    have "length (replicate (length tdbld) (0::real)) = length tdbld" by simp
    from event_values_value [OF c' dts' ok' this]
    obtain r where r: "event_values ?s tdbld delay (''GLEP_'', idx)
        (replicate (length tdbld) 0) = Inr r"
      and rv: "\<forall>i<length tdbld. r ! i = replicate (length tdbld) 0 ! i
          + event_phase (event_vals ?s idx) (dts ! i)"
      by (elim exE conjE)
    from K [OF r] obtain phs' where p: "phase_values ?s tdbld delay = Inr phs'"
      and pv: "\<forall>i<length tdbld. phs' ! i = r ! i + K i" by (elim exE conjE)
    from rv pv have "\<forall>i<length tdbld. phs' ! i
        = event_phase ((event_vals self idx)(x := v)) (dts ! i) + K i"
      by (simp add: ev)
    with p show "\<exists>phs'. phase_values ?s tdbld delay = Inr phs' \<and>
              (\<forall>i<length tdbld. phs' ! i
                   = event_phase ((event_vals self idx)(x := v)) (dts ! i) + K i)"
      by blast
  qed
qed

lemma is_phase_derivativeI:
  assumes wf: "wf_names self" and dist: "distinct (map fst (params self))"
    and c: "\<forall>y\<in>set (''GLEP_'' # glitch_prop). hasattr self (y, idx)"
    and x: "x \<in> set glitch_prop"
    and ph: "phase_values self tdbld delay = Inr phs"
    and dts: "dt_seconds (event_vals self idx ''GLEP_'') tdbld delay = Inr dts"
    and i: "i < length tdbld"
    and U: "open U" "event_vals self idx x \<in> U"
      "\<forall>v\<in>U. decay_ok ((event_vals self idx)(x := v)) dts"
    and d: "((\<lambda>v. event_phase ((event_vals self idx)(x := v)) (dts ! i)) has_real_derivative y)
              (at (event_vals self idx x))"
  shows "is_phase_derivative self tdbld delay (x, idx) i y"
proof -
  from c x obtain p where p: "getattr self (x, idx) = Inr p"
    by (auto simp: hasattr_getattr)
  note vp = getattr_event_vals [OF p]
  from phase_variation [OF wf dist c x ph dts] obtain K where
    K: "\<And>v. decay_ok ((event_vals self idx)(x := v)) dts \<Longrightarrow>
           (\<exists>phs'. phase_values (set_val self (x, idx) v) tdbld delay = Inr phs' \<and>
              (\<forall>i<length tdbld. phs' ! i
                   = event_phase ((event_vals self idx)(x := v)) (dts ! i) + K i))"
    by blast
  have def: "\<forall>v\<in>U. \<exists>phs. glitch_phase (set_val self (x, idx) v) tdbld delay = Inr (map Inr phs)"
    unfolding phase_values_iff using K U(3) by blast
  have eq: "event_phase ((event_vals self idx)(x := v)) (dts ! i) + K i
      = phase_at (set_val self (x, idx) v) tdbld delay i" if "v \<in> U" for v
  proof -
    from that U(3) have "decay_ok ((event_vals self idx)(x := v)) dts" by blast
    from K [OF this] obtain phs' where
      p: "phase_values (set_val self (x, idx) v) tdbld delay = Inr phs'"
      and e: "\<forall>i<length tdbld. phs' ! i
                   = event_phase ((event_vals self idx)(x := v)) (dts ! i) + K i"
      by (elim exE conjE)
    from p have g: "glitch_phase (set_val self (x, idx) v) tdbld delay = Inr (map Inr phs')"
      by (simp only: phase_values_iff)
    from glitch_phase_entries [OF g] have "length phs' = length tdbld" by simp
    with e i show ?thesis by (simp add: phase_at_def g)
  qed
  have "((\<lambda>v. event_phase ((event_vals self idx)(x := v)) (dts ! i) + K i)
      has_real_derivative y) (at (event_vals self idx x))"
    using d by (auto intro!: derivative_eq_intros)
  from has_field_derivative_transform_within_open [OF this U(1,2) eq]
  have "((\<lambda>v. phase_at (set_val self (x, idx) v) tdbld delay i) has_real_derivative y)
      (at (val p))" by (simp add: vp)
  with p U(1) U(2) def show ?thesis
    unfolding is_phase_derivative_def vp by blast
qed

lemma decay_ok_upd_other:
  assumes "x \<noteq> ''GLF0D_''" and "x \<noteq> ''GLTD_''"
  shows "decay_ok (w(x := v)) dts = decay_ok w dts"
  using assms by (simp add: decay_ok_def)

lemma event_of_phase:
  assumes ph: "phase_values self tdbld delay = Inr phs"
    and ge: "getattr self (''GLEP_'', idx) = Inr glep"
    and gt: "getattr self (''GLTD_'', idx) = Inr gltd"
  shows "\<exists>dts. (\<forall>y\<in>set (''GLEP_'' # glitch_prop). hasattr self (y, idx)) \<and>
           dt_seconds (event_vals self idx ''GLEP_'') tdbld delay = Inr dts \<and>
           decay_ok (event_vals self idx) dts"
proof -
  have "hasattr self (''GLEP_'', idx)" using ge by (auto simp: hasattr_getattr)
  then have "(''GLEP_'', idx) \<in> set (glepnames self)" by (rule glepnames_member)
  from phase_values_event_defined [OF ph this] obtain c where
    c: "event_values self tdbld delay (''GLEP_'', idx) (replicate (length tdbld) 0) = Inr c" ..
  show ?thesis
  proof (rule event_values_InrD [OF c])
    fix glep' dphs dF0 dF1 dF2 dF0D dt dc
    assume a: "getattr self (''GLEP_'', idx) = Inr glep'"
      "getattr self (''GLPH_'', snd (''GLEP_'', idx)) = Inr dphs"
      "getattr self (''GLF0_'', snd (''GLEP_'', idx)) = Inr dF0"
      "getattr self (''GLF1_'', snd (''GLEP_'', idx)) = Inr dF1"
      "getattr self (''GLF2_'', snd (''GLEP_'', idx)) = Inr dF2"
      "getattr self (''GLF0D_'', snd (''GLEP_'', idx)) = Inr dF0D"
      and dt: "dt_seconds (val glep') tdbld delay = Inr dt"
    have h: "\<forall>y\<in>set (''GLEP_'' # glitch_prop). hasattr self (y, idx)"
      using a gt by (auto simp: glitch_prop_def hasattr_getattr)
    have d: "dt_seconds (event_vals self idx ''GLEP_'') tdbld delay = Inr dt"
      using dt a(1) by (simp add: getattr_event_vals)
    from event_values_decay_ok [OF c d] h d show ?thesis by blast
  qed
qed

lemmas deriv_defs = d_phase_d_GLPH_def d_phase_d_GLF0_def d_phase_d_GLF1_def d_phase_d_GLF2_def
  d_phase_d_GLF0D_def d_phase_d_GLTD_def getattr_def dt_seconds_def decay_factor_def

section \<open>Properties of the component\<close>

text \<open>
  C7. When the decay time \<^verbatim>\<open>GLTD_n\<close> of an event is exactly 0, \<^verbatim>\<open>d_phase_d_GLTD\<close>
  returns an array of zeros as long as the table of TOAs, whatever the TOAs, the delay and the
  decay amplitude \<^verbatim>\<open>GLF0D_n\<close> are: the amplitude is not read and nothing is divided.
\<close>

theorem d_phase_d_GLTD_zero_tau:
  assumes "getattr self (''GLEP_'', idx) = Inr glep"
    and "getattr self (''GLTD_'', idx) = Inr gltd"
    and "val gltd = 0"
  shows "d_phase_d_GLTD self tdbld (''GLTD_'', idx) delay = Inr (replicate (length tdbld) 0)"
  using assms by (simp add: d_phase_d_GLTD_def)

theorem d_phase_d_GLTD_zero_tau_witness:
  "getattr ex_decay_store (''GLEP_'', 1) = Inr \<lparr>units = ''day'', val = 55000\<rparr> \<and>
   getattr ex_decay_store (''GLTD_'', 1) = Inr \<lparr>units = ''day'', val = 0\<rparr> \<and>
   getattr ex_decay_store (''GLF0D_'', 1) = Inr \<lparr>units = ''Hz'', val = 1\<rparr> \<and>
   val \<lparr>units = ''day'', val = 0\<rparr> = 0 \<and>
   d_phase_d_GLTD ex_decay_store [54999, 55001, 55002] (''GLTD_'', 1) [0, 0, 0] = Inr [0, 0, 0]"
proof -
  have g: "getattr ex_decay_store (''GLEP_'', 1) = Inr \<lparr>units = ''day'', val = 55000\<rparr>"
    by (simp add: getattr_def ex_decay_store_def)
  have t: "getattr ex_decay_store (''GLTD_'', 1) = Inr \<lparr>units = ''day'', val = 0\<rparr>"
    by (simp add: getattr_def ex_decay_store_def)
  have a: "getattr ex_decay_store (''GLF0D_'', 1) = Inr \<lparr>units = ''Hz'', val = 1\<rparr>"
    by (simp add: getattr_def ex_decay_store_def)
  have z: "val \<lparr>units = ''day'', val = 0\<rparr> = 0" by simp
  have "d_phase_d_GLTD ex_decay_store [54999, 55001, 55002] (''GLTD_'', 1) [0, 0, 0]
          = Inr (replicate (length [54999, 55001, 55002 :: real]) 0)"
    by (rule d_phase_d_GLTD_zero_tau [OF g t z])
  then show ?thesis using g t a by (simp add: numeral_3_eq_3)
qed

text \<open>
  C8. Each of the six derivative operations, called with a parameter name whose prefix is not
  the one of its own family, raises \<^verbatim>\<open>ValueError\<close> and returns no array.
\<close>

theorem derivative_wrong_prefix:
  "(fst prm \<noteq> ''GLPH_'' \<longrightarrow> d_phase_d_GLPH self tdbld prm delay = Inl ValueError) \<and>
   (fst prm \<noteq> ''GLF0_'' \<longrightarrow> d_phase_d_GLF0 self tdbld prm delay = Inl ValueError) \<and>
   (fst prm \<noteq> ''GLF1_'' \<longrightarrow> d_phase_d_GLF1 self tdbld prm delay = Inl ValueError) \<and>
   (fst prm \<noteq> ''GLF2_'' \<longrightarrow> d_phase_d_GLF2 self tdbld prm delay = Inl ValueError) \<and>
   (fst prm \<noteq> ''GLF0D_'' \<longrightarrow> d_phase_d_GLF0D self tdbld prm delay = Inl ValueError) \<and>
   (fst prm \<noteq> ''GLTD_'' \<longrightarrow> d_phase_d_GLTD self tdbld prm delay = Inl ValueError)"
  by (simp add: d_phase_d_GLPH_def d_phase_d_GLF0_def d_phase_d_GLF1_def d_phase_d_GLF2_def
      d_phase_d_GLF0D_def d_phase_d_GLTD_def)

theorem derivative_wrong_prefix_witness:
  "fst (''GLF0_'', 2::nat) \<noteq> ''GLPH_'' \<and> fst (''GLEP_'', 2::nat) \<noteq> ''GLF0_'' \<and>
   fst (''GLEP_'', 2::nat) \<noteq> ''GLF1_'' \<and> fst (''GLEP_'', 2::nat) \<noteq> ''GLF2_'' \<and>
   fst (''GLEP_'', 2::nat) \<noteq> ''GLF0D_'' \<and> fst (''GLEP_'', 2::nat) \<noteq> ''GLTD_'' \<and>
   d_phase_d_GLPH ex_store [55001] (''GLF0_'', 2) [0] = Inl ValueError \<and>
   d_phase_d_GLF0 ex_store [55001] (''GLEP_'', 2) [0] = Inl ValueError \<and>
   d_phase_d_GLF1 ex_store [55001] (''GLEP_'', 2) [0] = Inl ValueError \<and>
   d_phase_d_GLF2 ex_store [55001] (''GLEP_'', 2) [0] = Inl ValueError \<and>
   d_phase_d_GLF0D ex_store [55001] (''GLEP_'', 2) [0] = Inl ValueError \<and>
   d_phase_d_GLTD ex_store [55001] (''GLEP_'', 2) [0] = Inl ValueError"
  using derivative_wrong_prefix [of "(''GLF0_'', 2)" ex_store "[55001]" "[0]"]
    derivative_wrong_prefix [of "(''GLEP_'', 2)" ex_store "[55001]" "[0]"]
  by simp

text \<open>
  C1. \<^verbatim>\<open>glitch_phase\<close> returns when every epoch has its six family parameters and the delays
  are as many as the TOAs. Whenever it returns, the array is as long as the table and its entry
  for a TOA is the sum, over the glitch events (the epoch names), of what each event adds to it.
  With \<open>dt = (timestamp - epoch) * 1 day - delay\<close> in seconds, an event with \<open>dt > 0\<close> adds
  exactly \<open>GLPH + dt * (GLF0 + 0.5 * dt * GLF1 + 1/6 * dt\<^sup>2 * GLF2) + decay\<close>, where the decay is
  \<open>GLF0D * GLTD * (1 - exp (- dt / GLTD))\<close> (\<open>GLTD\<close> in seconds) when \<open>GLF0D \<noteq> 0\<close> and 0
  when \<open>GLF0D = 0\<close>; an event with \<open>dt \<le> 0\<close> adds nothing. With \<open>GLF0D = 0\<close> nothing is
  divided, whatever \<open>GLTD\<close> is. The entry is marked exactly when some event with \<open>dt > 0\<close>
  has \<open>GLF0D \<noteq> 0\<close> and \<open>GLTD = 0\<close>, where the quotient \<open>dt / GLTD\<close> is a division by
  zero. In the statement \<open>n\<close> ranges over the epoch names, \<open>event_vals self (snd n) x\<close>
  is the value of the parameter of prefix \<open>x\<close> at the index of \<open>n\<close>, and
  \<open>event_vals self (snd n) (fst n)\<close> is the value of the epoch \<open>n\<close> itself.
\<close>

theorem glitch_phase_adds:
  assumes "i < length tdbld"
  shows "((\<forall>n\<in>set (glepnames self). \<forall>x\<in>set glitch_prop. hasattr self (x, snd n)) \<and>
          length delay = length tdbld \<longrightarrow>
            (\<exists>arr. glitch_phase self tdbld delay = Inr arr)) \<and>
         (\<forall>arr. glitch_phase self tdbld delay = Inr arr \<longrightarrow>
            length arr = length tdbld \<and>
            arr ! i =
              (if \<exists>n\<in>set (glepnames self).
                     (tdbld ! i - event_vals self (snd n) (fst n)) * day - delay ! i > 0 \<and>
                     event_vals self (snd n) ''GLF0D_'' \<noteq> 0 \<and>
                     event_vals self (snd n) ''GLTD_'' = 0
               then Inl DivideByZero
               else Inr (\<Sum>n\<leftarrow>glepnames self.
                      let dt = (tdbld ! i - event_vals self (snd n) (fst n)) * day - delay ! i;
                          GLPH = event_vals self (snd n) ''GLPH_'';
                          GLF0 = event_vals self (snd n) ''GLF0_'';
                          GLF1 = event_vals self (snd n) ''GLF1_'';
                          GLF2 = event_vals self (snd n) ''GLF2_'';
                          GLF0D = event_vals self (snd n) ''GLF0D_'';
                          GLTD = event_vals self (snd n) ''GLTD_'' * day
                      in if dt > 0
                         then GLPH + dt * (GLF0 + 0.5 * dt * GLF1 + (1 / 6) * dt\<^sup>2 * GLF2)
                              + (if GLF0D \<noteq> 0 then GLF0D * GLTD * (1 - exp (- (dt / GLTD)))
                                 else 0)
                         else 0)))"
proof (intro conjI allI impI)
  assume "(\<forall>n\<in>set (glepnames self). \<forall>x\<in>set glitch_prop. hasattr self (x, snd n)) \<and>
          length delay = length tdbld"
  then show "\<exists>arr. glitch_phase self tdbld delay = Inr arr"
    by (intro glitch_phase_returns) simp_all
next
  fix arr assume a: "glitch_phase self tdbld delay = Inr arr"
  from glitch_phase_entries [OF a] show "length arr = length tdbld" by simp
  from glitch_phase_entries [OF a] assms
  have "arr ! i =
       (if \<exists>n\<in>set (glepnames self). divides_by_zero self tdbld delay n i then Inl DivideByZero
        else Inr (\<Sum>n\<leftarrow>glepnames self. event_phase (event_vals self (snd n))
                                      (event_dt self tdbld delay n i)))" by blast
  then show "arr ! i =
              (if \<exists>n\<in>set (glepnames self).
                     (tdbld ! i - event_vals self (snd n) (fst n)) * day - delay ! i > 0 \<and>
                     event_vals self (snd n) ''GLF0D_'' \<noteq> 0 \<and>
                     event_vals self (snd n) ''GLTD_'' = 0
               then Inl DivideByZero
               else Inr (\<Sum>n\<leftarrow>glepnames self.
                      let dt = (tdbld ! i - event_vals self (snd n) (fst n)) * day - delay ! i;
                          GLPH = event_vals self (snd n) ''GLPH_'';
                          GLF0 = event_vals self (snd n) ''GLF0_'';
                          GLF1 = event_vals self (snd n) ''GLF1_'';
                          GLF2 = event_vals self (snd n) ''GLF2_'';
                          GLF0D = event_vals self (snd n) ''GLF0D_'';
                          GLTD = event_vals self (snd n) ''GLTD_'' * day
                      in if dt > 0
                         then GLPH + dt * (GLF0 + 0.5 * dt * GLF1 + (1 / 6) * dt\<^sup>2 * GLF2)
                              + (if GLF0D \<noteq> 0 then GLF0D * GLTD * (1 - exp (- (dt / GLTD)))
                                 else 0)
                         else 0))"
    unfolding divides_by_zero_def event_dt_def event_phase_def Let_def power2_eq_square
    by (simp only: mult.assoc)
qed

theorem glitch_phase_adds_witness:
  "(0::nat) < length [55010 :: real] \<and> length [0 :: real] = length [55010 :: real] \<and>
   glitch_phase ex_overlap_store [55010] [0]
     = Inr [Inr (1 / 1000000 * (10 * 86400) + 1 / 2)] \<and>
   glitch_phase ex_full_store [55001] [0]
     = Inr [Inr (1 + 86400 * (2 + 0.5 * 86400 * 3 + (1 / 6) * 86400\<^sup>2 * 4)
                 + 5 * (6 * 86400) * (1 - exp (- (86400 / (6 * 86400)))))] \<and>
   (1::nat) < length [54999, 55001 :: real] \<and>
   length [0, 0 :: real] = length [54999, 55001 :: real] \<and>
   glitch_phase ex_zero_tau_store [54999, 55001] [0, 0] = Inr [Inr 0, Inl DivideByZero]"
proof -
  have i: "(0::nat) < length [55010 :: real]" and l: "length [0 :: real] = length [55010 :: real]"
    by simp_all
  have n1: "glepnames ex_overlap_store = [(''GLEP_'', 1), (''GLEP_'', 2)]"
    by (simp add: glepnames_def ex_overlap_store_def)
  have c1: "(\<forall>n\<in>set (glepnames ex_overlap_store). \<forall>x\<in>set glitch_prop.
      hasattr ex_overlap_store (x, snd n)) \<and> length [0 :: real] = length [55010 :: real]"
    unfolding n1 by (simp add: glitch_prop_def hasattr_def ex_overlap_store_def)
  note t1 = glitch_phase_adds [OF i, of ex_overlap_store "[0]"]
  from t1 [THEN conjunct1, rule_format, OF c1] obtain a1 where
    a1: "glitch_phase ex_overlap_store [55010] [0] = Inr a1" ..
  note r1 = t1 [THEN conjunct2, rule_format, OF a1]
  from r1 have "length a1 = Suc 0" by simp
  then have "a1 = [a1 ! 0]" by (rule singleton_nth)
  also from r1 have "a1 ! 0 = Inr (1 / 1000000 * (10 * 86400) + 1 / 2)"
    unfolding n1 by (simp add: event_vals_def ex_overlap_store_def day_def)
  finally have p1: "glitch_phase ex_overlap_store [55010] [0]
     = Inr [Inr (1 / 1000000 * (10 * 86400) + 1 / 2)]"
    using a1 by simp
  have i2: "(0::nat) < length [55001 :: real]" by simp
  have n2: "glepnames ex_full_store = [(''GLEP_'', 1)]"
    by (simp add: glepnames_def ex_full_store_def)
  have c2: "(\<forall>n\<in>set (glepnames ex_full_store). \<forall>x\<in>set glitch_prop.
      hasattr ex_full_store (x, snd n)) \<and> length [0 :: real] = length [55001 :: real]"
    unfolding n2 by (simp add: glitch_prop_def hasattr_def ex_full_store_def)
  note t2 = glitch_phase_adds [OF i2, of ex_full_store "[0]"]
  from t2 [THEN conjunct1, rule_format, OF c2] obtain a2 where
    a2: "glitch_phase ex_full_store [55001] [0] = Inr a2" ..
  note r2 = t2 [THEN conjunct2, rule_format, OF a2]
  from r2 have "length a2 = Suc 0" by simp
  then have "a2 = [a2 ! 0]" by (rule singleton_nth)
  also from r2 have "a2 ! 0 = Inr (1 + 86400 * (2 + 0.5 * 86400 * 3 + (1 / 6) * 86400\<^sup>2 * 4)
                 + 5 * (6 * 86400) * (1 - exp (- (86400 / (6 * 86400)))))"
    unfolding n2 by (simp add: event_vals_def ex_full_store_def day_def)
  finally have p2: "glitch_phase ex_full_store [55001] [0]
     = Inr [Inr (1 + 86400 * (2 + 0.5 * 86400 * 3 + (1 / 6) * 86400\<^sup>2 * 4)
                 + 5 * (6 * 86400) * (1 - exp (- (86400 / (6 * 86400)))))]"
    using a2 by simp
  have i3: "(0::nat) < length [54999, 55001 :: real]"
    and j3: "(1::nat) < length [54999, 55001 :: real]"
    and l3: "length [0, 0 :: real] = length [54999, 55001 :: real]" by simp_all
  have n3: "glepnames ex_zero_tau_store = [(''GLEP_'', 1)]"
    by (simp add: glepnames_def ex_zero_tau_store_def)
  have c3: "(\<forall>n\<in>set (glepnames ex_zero_tau_store). \<forall>x\<in>set glitch_prop.
      hasattr ex_zero_tau_store (x, snd n)) \<and> length [0, 0 :: real] = length [54999, 55001 :: real]"
    unfolding n3 by (simp add: glitch_prop_def hasattr_def ex_zero_tau_store_def)
  note t3 = glitch_phase_adds [OF i3, of ex_zero_tau_store "[0, 0]"]
  note u3 = glitch_phase_adds [OF j3, of ex_zero_tau_store "[0, 0]"]
  from t3 [THEN conjunct1, rule_format, OF c3] obtain a3 where
    a3: "glitch_phase ex_zero_tau_store [54999, 55001] [0, 0] = Inr a3" ..
  note r3 = t3 [THEN conjunct2, rule_format, OF a3]
  note s3 = u3 [THEN conjunct2, rule_format, OF a3]
  from r3 have "length a3 = 2" by simp
  then have "a3 = [a3 ! 0, a3 ! 1]" by (rule two_nth)
  moreover from r3 have "a3 ! 0 = Inr 0"
    unfolding n3 by (simp add: event_vals_def ex_zero_tau_store_def day_def)
  moreover from s3 have "a3 ! 1 = Inl DivideByZero"
    unfolding n3 by (simp add: event_vals_def ex_zero_tau_store_def day_def)
  ultimately have p3: "glitch_phase ex_zero_tau_store [54999, 55001] [0, 0]
      = Inr [Inr 0, Inl DivideByZero]"
    using a3 by simp
  from i l p1 p2 j3 l3 p3 show ?thesis by blast
qed

text \<open>
  C4. For an event and a timestamp with \<open>dt \<le> 0\<close> (so also \<open>dt = 0\<close>), the pass of the
  loop of \<^verbatim>\<open>glitch_phase\<close> for that event leaves the entry of the timestamp as it was, and the
  array returned by each of the six derivative operations has 0 at that entry, whatever happens
  at the other entries. When the six parameters of the event are present and the delays are as
  many as the TOAs, the pass and the six operations do return. In the array \<^verbatim>\<open>glitch_phase\<close>
  returns, the entry of that timestamp is what the other events add to it.
\<close>

theorem unaffected_contribution_zero:
  assumes "getattr self (''GLEP_'', idx) = Inr glep"
    and "i < length tdbld"
    and "(tdbld ! i - val glep) * day - delay ! i \<le> 0"
  shows "(\<forall>phs phs'. length phs = length tdbld \<longrightarrow>
            glitch_event self tdbld delay (''GLEP_'', idx) phs = Inr phs' \<longrightarrow> phs' ! i = phs ! i) \<and>
         (\<forall>arr. d_phase_d_GLPH self tdbld (''GLPH_'', idx) delay = Inr arr \<longrightarrow> arr ! i = 0) \<and>
         (\<forall>arr. d_phase_d_GLF0 self tdbld (''GLF0_'', idx) delay = Inr arr \<longrightarrow> arr ! i = 0) \<and>
         (\<forall>arr. d_phase_d_GLF1 self tdbld (''GLF1_'', idx) delay = Inr arr \<longrightarrow> arr ! i = 0) \<and>
         (\<forall>arr. d_phase_d_GLF2 self tdbld (''GLF2_'', idx) delay = Inr arr \<longrightarrow> arr ! i = 0) \<and>
         (\<forall>arr. d_phase_d_GLF0D self tdbld (''GLF0D_'', idx) delay = Inr arr \<longrightarrow> arr ! i = Inr 0) \<and>
         (\<forall>arr. d_phase_d_GLTD self tdbld (''GLTD_'', idx) delay = Inr arr \<longrightarrow> arr ! i = 0) \<and>
         ((\<forall>x\<in>set glitch_prop. hasattr self (x, idx)) \<and> length delay = length tdbld \<longrightarrow>
            (\<forall>phs. \<exists>phs'. glitch_event self tdbld delay (''GLEP_'', idx) phs = Inr phs') \<and>
            (\<exists>arr. d_phase_d_GLPH self tdbld (''GLPH_'', idx) delay = Inr arr) \<and>
            (\<exists>arr. d_phase_d_GLF0 self tdbld (''GLF0_'', idx) delay = Inr arr) \<and>
            (\<exists>arr. d_phase_d_GLF1 self tdbld (''GLF1_'', idx) delay = Inr arr) \<and>
            (\<exists>arr. d_phase_d_GLF2 self tdbld (''GLF2_'', idx) delay = Inr arr) \<and>
            (\<exists>arr. d_phase_d_GLF0D self tdbld (''GLF0D_'', idx) delay = Inr arr) \<and>
            (\<exists>arr. d_phase_d_GLTD self tdbld (''GLTD_'', idx) delay = Inr arr)) \<and>
         (\<forall>arr. glitch_phase self tdbld delay = Inr arr \<longrightarrow>
            arr ! i =
              (if \<exists>n\<in>set (remove1 (''GLEP_'', idx) (glepnames self)).
                     divides_by_zero self tdbld delay n i
               then Inl DivideByZero
               else Inr (\<Sum>n\<leftarrow>remove1 (''GLEP_'', idx) (glepnames self).
                           event_phase (event_vals self (snd n)) (event_dt self tdbld delay n i))))"
proof -
  have d: "event_dt self tdbld delay (''GLEP_'', idx) i \<le> 0"
    using assms(3) by (simp add: event_dt_def getattr_event_vals [OF assms(1)])
  have 8: "arr ! i =
              (if \<exists>n\<in>set (remove1 (''GLEP_'', idx) (glepnames self)).
                     divides_by_zero self tdbld delay n i
               then Inl DivideByZero
               else Inr (\<Sum>n\<leftarrow>remove1 (''GLEP_'', idx) (glepnames self).
                           event_phase (event_vals self (snd n)) (event_dt self tdbld delay n i)))"
    if a: "glitch_phase self tdbld delay = Inr arr" for arr
  proof -
    let ?e = "(''GLEP_'', idx)"
    have m: "?e \<in> set (glepnames self)"
      using assms(1) by (intro glepnames_member) (auto simp: hasattr_getattr)
    from d have nd: "\<not> divides_by_zero self tdbld delay ?e i"
      by (simp add: divides_by_zero_def)
    from d have z: "event_phase (event_vals self (snd ?e)) (event_dt self tdbld delay ?e i) = 0"
      by (rule event_phase_unaffected)
    have s: "(\<Sum>n\<leftarrow>glepnames self. f n) = f ?e + (\<Sum>n\<leftarrow>remove1 ?e (glepnames self). f n)"
      for f :: "pname \<Rightarrow> real"
      using m by (rule sum_list_map_remove1)
    have b: "(\<exists>n\<in>set (glepnames self). P n) \<longleftrightarrow>
        P ?e \<or> (\<exists>n\<in>set (remove1 ?e (glepnames self)). P n)" for P
      using m by (metis in_set_remove1 notin_set_remove1)
    from glitch_phase_entries [OF a] assms(2)
    have "arr ! i =
       (if \<exists>n\<in>set (glepnames self). divides_by_zero self tdbld delay n i then Inl DivideByZero
        else Inr (\<Sum>n\<leftarrow>glepnames self. event_phase (event_vals self (snd n))
                                      (event_dt self tdbld delay n i)))" by blast
    then show ?thesis unfolding b s using nd z by simp
  qed
  have 0: "phs' ! i = phs ! i"
    if len: "length phs = length tdbld"
      and ev: "glitch_event self tdbld delay (''GLEP_'', idx) phs = Inr phs'" for phs phs'
    using glitch_event_step [OF ev len assms(2)] d by simp
  have 1: "arr ! i = 0" if "d_phase_d_GLPH self tdbld (''GLPH_'', idx) delay = Inr arr" for arr
    using d_phase_d_GLPH_Inr [OF that, of glep] assms by simp
  have 2: "arr ! i = 0" if "d_phase_d_GLF0 self tdbld (''GLF0_'', idx) delay = Inr arr" for arr
    using d_phase_d_GLF0_Inr [OF that, of glep] assms by simp
  have 3: "arr ! i = 0" if "d_phase_d_GLF1 self tdbld (''GLF1_'', idx) delay = Inr arr" for arr
    using d_phase_d_GLF1_Inr [OF that, of glep] assms by simp
  have 4: "arr ! i = 0" if "d_phase_d_GLF2 self tdbld (''GLF2_'', idx) delay = Inr arr" for arr
    using d_phase_d_GLF2_Inr [OF that, of glep] assms by simp
  have 5: "arr ! i = Inr 0"
    if a: "d_phase_d_GLF0D self tdbld (''GLF0D_'', idx) delay = Inr arr" for arr
  proof -
    from a obtain tau where "getattr self (''GLTD_'', idx) = Inr tau"
      by (auto simp: d_phase_d_GLF0D_def bind_err_Inr_iff)
    from d_phase_d_GLF0D_Inr [OF a, of glep tau] this assms show ?thesis by simp
  qed
  have 6: "arr ! i = 0" if a: "d_phase_d_GLTD self tdbld (''GLTD_'', idx) delay = Inr arr" for arr
  proof -
    from a obtain gltd where "getattr self (''GLTD_'', idx) = Inr gltd"
      by (auto simp: d_phase_d_GLTD_def bind_err_Inr_iff)
    from d_phase_d_GLTD_Inr [OF a, of glep gltd] this assms show ?thesis
      by (cases "val gltd = 0") auto
  qed
  have 7: "(\<forall>phs. \<exists>phs'. glitch_event self tdbld delay (''GLEP_'', idx) phs = Inr phs') \<and>
            (\<exists>arr. d_phase_d_GLPH self tdbld (''GLPH_'', idx) delay = Inr arr) \<and>
            (\<exists>arr. d_phase_d_GLF0 self tdbld (''GLF0_'', idx) delay = Inr arr) \<and>
            (\<exists>arr. d_phase_d_GLF1 self tdbld (''GLF1_'', idx) delay = Inr arr) \<and>
            (\<exists>arr. d_phase_d_GLF2 self tdbld (''GLF2_'', idx) delay = Inr arr) \<and>
            (\<exists>arr. d_phase_d_GLF0D self tdbld (''GLF0D_'', idx) delay = Inr arr) \<and>
            (\<exists>arr. d_phase_d_GLTD self tdbld (''GLTD_'', idx) delay = Inr arr)"
    if h: "\<forall>x\<in>set glitch_prop. hasattr self (x, idx)" and l: "length delay = length tdbld"
  proof -
    from h obtain dphs dF0 dF1 dF2 dF0D tau where
      a: "getattr self (''GLPH_'', idx) = Inr dphs"
         "getattr self (''GLF0_'', idx) = Inr dF0"
         "getattr self (''GLF1_'', idx) = Inr dF1"
         "getattr self (''GLF2_'', idx) = Inr dF2"
         "getattr self (''GLF0D_'', idx) = Inr dF0D"
         "getattr self (''GLTD_'', idx) = Inr tau"
      unfolding glitch_prop_def hasattr_getattr by auto
    from assms(1) have e: "hasattr self (''GLEP_'', idx)" by (auto simp: hasattr_getattr)
    have "\<exists>phs'. glitch_event self tdbld delay (''GLEP_'', idx) phs = Inr phs'" for phs
      by (rule glitch_event_returns [OF e _ l]) (simp add: h)
    moreover have "\<exists>arr. d_phase_d_GLPH self tdbld (''GLPH_'', idx) delay = Inr arr"
      by (simp add: d_phase_d_GLPH_def assms(1) a dt_seconds_def l)
    moreover have "\<exists>arr. d_phase_d_GLF0 self tdbld (''GLF0_'', idx) delay = Inr arr"
      by (simp add: d_phase_d_GLF0_def assms(1) a dt_seconds_def l)
    moreover have "\<exists>arr. d_phase_d_GLF1 self tdbld (''GLF1_'', idx) delay = Inr arr"
      by (simp add: d_phase_d_GLF1_def assms(1) a dt_seconds_def l)
    moreover have "\<exists>arr. d_phase_d_GLF2 self tdbld (''GLF2_'', idx) delay = Inr arr"
      by (simp add: d_phase_d_GLF2_def assms(1) a dt_seconds_def l)
    moreover have "\<exists>arr. d_phase_d_GLF0D self tdbld (''GLF0D_'', idx) delay = Inr arr"
      by (rule d_phase_d_GLF0D_defined [OF assms(1) a(5) a(6) l])
    moreover have "\<exists>arr. d_phase_d_GLTD self tdbld (''GLTD_'', idx) delay = Inr arr"
      by (simp add: d_phase_d_GLTD_def assms(1) a dt_seconds_def l)
    ultimately show ?thesis by blast
  qed
  from 0 1 2 3 4 5 6 7 8 show ?thesis by blast
qed

theorem unaffected_contribution_zero_witness:
  "getattr ex_f0_store (''GLEP_'', 1) = Inr \<lparr>units = ''day'', val = 55000\<rparr> \<and>
   (0::nat) < length [55000, 55010 :: real] \<and>
   ([55000, 55010] ! 0 - val \<lparr>units = ''day'', val = 55000\<rparr>) * day - [0, 0] ! 0 \<le> 0 \<and>
   length [0, 0 :: real] = length [55000, 55010 :: real] \<and>
   glitch_event ex_f0_store [55000, 55010] [0, 0] (''GLEP_'', 1) [Inr 7, Inr 7]
     = Inr [Inr 7, Inr (7 + 1 / 1000000 * (10 * 86400))] \<and>
   d_phase_d_GLPH ex_f0_store [55000, 55010] (''GLPH_'', 1) [0, 0] = Inr [0, 1] \<and>
   d_phase_d_GLF0 ex_f0_store [55000, 55010] (''GLF0_'', 1) [0, 0] = Inr [0, 10 * 86400] \<and>
   d_phase_d_GLF1 ex_f0_store [55000, 55010] (''GLF1_'', 1) [0, 0]
     = Inr [0, 0.5 * (10 * 86400)\<^sup>2] \<and>
   d_phase_d_GLF2 ex_f0_store [55000, 55010] (''GLF2_'', 1) [0, 0]
     = Inr [0, (1 / 6) * (10 * 86400) ^ 3] \<and>
   d_phase_d_GLF0D ex_f0_store [55000, 55010] (''GLF0D_'', 1) [0, 0]
     = Inr [Inr 0, Inl DivideByZero] \<and>
   d_phase_d_GLTD ex_f0_store [55000, 55010] (''GLTD_'', 1) [0, 0] = Inr [0, 0] \<and>
   getattr ex_overlap_store (''GLEP_'', 2) = Inr \<lparr>units = ''day'', val = 55005\<rparr> \<and>
   (0::nat) < length [55003 :: real] \<and>
   ([55003] ! 0 - val \<lparr>units = ''day'', val = 55005\<rparr>) * day - [0] ! 0 \<le> 0 \<and>
   glitch_phase ex_overlap_store [55003] [0] = Inr [Inr (1 / 1000000 * (3 * 86400))]"
proof -
  have g2: "getattr ex_overlap_store (''GLEP_'', 2) = Inr \<lparr>units = ''day'', val = 55005\<rparr>"
    by (simp add: getattr_def ex_overlap_store_def)
  have i2: "(0::nat) < length [55003 :: real]" by simp
  have le2: "([55003] ! 0 - val \<lparr>units = ''day'', val = 55005\<rparr>) * day - [0] ! 0 \<le> 0"
    by (simp add: day_def)
  note u2 = unaffected_contribution_zero [OF g2 i2 le2]
  have "\<exists>x. glitch_phase ex_overlap_store [55003] [0] = Inr [x]"
    by (simp add: glitch_phase_def glepnames_def glitch_event_def dt_seconds_def getattr_def
        ex_overlap_store_def day_def)
  then obtain y where ey: "glitch_phase ex_overlap_store [55003] [0] = Inr [y]" ..
  have n2: "glepnames ex_overlap_store = [(''GLEP_'', 1), (''GLEP_'', 2)]"
    by (simp add: glepnames_def ex_overlap_store_def)
  from u2 [THEN conjunct2, THEN conjunct2, THEN conjunct2, THEN conjunct2, THEN conjunct2,
      THEN conjunct2, THEN conjunct2, THEN conjunct2, rule_format, OF ey]
  have "y = Inr (1 / 1000000 * (3 * 86400))"
    unfolding n2
    by (simp add: divides_by_zero_def event_dt_def event_phase_def event_vals_def
        ex_overlap_store_def day_def)
  with ey have gp: "glitch_phase ex_overlap_store [55003] [0]
      = Inr [Inr (1 / 1000000 * (3 * 86400))]" by simp
  have g: "getattr ex_f0_store (''GLEP_'', 1) = Inr \<lparr>units = ''day'', val = 55000\<rparr>"
    by (simp add: getattr_def ex_f0_store_def)
  have i: "(0::nat) < length [55000, 55010 :: real]" by simp
  have le: "([55000, 55010] ! 0 - val \<lparr>units = ''day'', val = 55000\<rparr>) * day - [0, 0] ! 0 \<le> 0"
    by simp
  have l: "length [0, 0 :: real] = length [55000, 55010 :: real]" by simp
  have h: "\<forall>x\<in>set glitch_prop. hasattr ex_f0_store (x, 1)"
    by (simp add: glitch_prop_def hasattr_def ex_f0_store_def)
  note u = unaffected_contribution_zero [OF g i le]
  note w = u [THEN conjunct2, THEN conjunct2, THEN conjunct2, THEN conjunct2, THEN conjunct2,
      THEN conjunct2, THEN conjunct2, THEN conjunct1, rule_format, OF conjI, OF h l]
  from w [THEN conjunct1, rule_format, of "[Inr 7, Inr 7]"] obtain p where
    e: "glitch_event ex_f0_store [55000, 55010] [0, 0] (''GLEP_'', 1) [Inr 7, Inr 7] = Inr p" ..
  have p0: "p ! 0 = [Inr 7, Inr 7 :: element] ! 0"
    by (rule u [THEN conjunct1, rule_format, OF _ e]) simp
  have "glitch_event ex_f0_store [55000, 55010] [0, 0] (''GLEP_'', 1) [Inr 7, Inr 7]
     = Inr [[Inr 7, Inr 7] ! 0, Inr (7 + 1 / 1000000 * (10 * 86400))]"
    by (simp add: glitch_event_def getattr_def ex_f0_store_def dt_seconds_def day_def)
  with e p0 have ev: "glitch_event ex_f0_store [55000, 55010] [0, 0] (''GLEP_'', 1) [Inr 7, Inr 7]
     = Inr [Inr 7, Inr (7 + 1 / 1000000 * (10 * 86400))]" by simp
  have "\<exists>x. d_phase_d_GLPH ex_f0_store [55000, 55010] (''GLPH_'', 1) [0, 0] = Inr [x, 1]"
    by (simp add: deriv_defs day_def ex_f0_store_def)
  then obtain x0 where
    e0: "d_phase_d_GLPH ex_f0_store [55000, 55010] (''GLPH_'', 1) [0, 0] = Inr [x0, 1]" ..
  have "[x0, 1] ! 0 = 0" by (rule u [THEN conjunct2, THEN conjunct1, rule_format, OF e0])
  with e0 have d0: "d_phase_d_GLPH ex_f0_store [55000, 55010] (''GLPH_'', 1) [0, 0] = Inr [0, 1]"
    by simp
  have "\<exists>x. d_phase_d_GLF0 ex_f0_store [55000, 55010] (''GLF0_'', 1) [0, 0]
      = Inr [x, 10 * 86400]"
    by (simp add: deriv_defs day_def ex_f0_store_def)
  then obtain x1 where e1: "d_phase_d_GLF0 ex_f0_store [55000, 55010] (''GLF0_'', 1) [0, 0]
      = Inr [x1, 10 * 86400]" ..
  have "[x1, 10 * 86400] ! 0 = 0"
    by (rule u [THEN conjunct2, THEN conjunct2, THEN conjunct1, rule_format, OF e1])
  with e1 have d1: "d_phase_d_GLF0 ex_f0_store [55000, 55010] (''GLF0_'', 1) [0, 0]
      = Inr [0, 10 * 86400]" by simp
  have "\<exists>x. d_phase_d_GLF1 ex_f0_store [55000, 55010] (''GLF1_'', 1) [0, 0]
      = Inr [x, 0.5 * (10 * 86400)\<^sup>2]"
    by (simp add: deriv_defs day_def ex_f0_store_def)
  then obtain x2 where e2: "d_phase_d_GLF1 ex_f0_store [55000, 55010] (''GLF1_'', 1) [0, 0]
      = Inr [x2, 0.5 * (10 * 86400)\<^sup>2]" ..
  have "[x2, 0.5 * (10 * 86400)\<^sup>2] ! 0 = 0"
    by (rule u [THEN conjunct2, THEN conjunct2, THEN conjunct2, THEN conjunct1, rule_format, OF e2])
  with e2 have d2: "d_phase_d_GLF1 ex_f0_store [55000, 55010] (''GLF1_'', 1) [0, 0]
      = Inr [0, 0.5 * (10 * 86400)\<^sup>2]" by simp
  have "\<exists>x. d_phase_d_GLF2 ex_f0_store [55000, 55010] (''GLF2_'', 1) [0, 0]
      = Inr [x, (1 / 6) * (10 * 86400) ^ 3]"
    by (simp add: deriv_defs day_def ex_f0_store_def)
  then obtain x3 where e3: "d_phase_d_GLF2 ex_f0_store [55000, 55010] (''GLF2_'', 1) [0, 0]
      = Inr [x3, (1 / 6) * (10 * 86400) ^ 3]" ..
  have "[x3, (1 / 6) * (10 * 86400) ^ 3] ! 0 = 0"
    by (rule u [THEN conjunct2, THEN conjunct2, THEN conjunct2, THEN conjunct2, THEN conjunct1,
          rule_format, OF e3])
  with e3 have d3: "d_phase_d_GLF2 ex_f0_store [55000, 55010] (''GLF2_'', 1) [0, 0]
      = Inr [0, (1 / 6) * (10 * 86400) ^ 3]" by simp
  have "\<exists>x. d_phase_d_GLF0D ex_f0_store [55000, 55010] (''GLF0D_'', 1) [0, 0]
      = Inr [x, Inl DivideByZero]"
    by (simp add: deriv_defs day_def ex_f0_store_def)
  then obtain x4 where e4: "d_phase_d_GLF0D ex_f0_store [55000, 55010] (''GLF0D_'', 1) [0, 0]
      = Inr [x4, Inl DivideByZero]" ..
  have "[x4, Inl DivideByZero] ! 0 = Inr 0"
    by (rule u [THEN conjunct2, THEN conjunct2, THEN conjunct2, THEN conjunct2, THEN conjunct2,
          THEN conjunct1, rule_format, OF e4])
  with e4 have d4: "d_phase_d_GLF0D ex_f0_store [55000, 55010] (''GLF0D_'', 1) [0, 0]
      = Inr [Inr 0, Inl DivideByZero]" by simp
  have "\<exists>x. d_phase_d_GLTD ex_f0_store [55000, 55010] (''GLTD_'', 1) [0, 0] = Inr [x, 0]"
    by (simp add: deriv_defs day_def ex_f0_store_def numeral_2_eq_2)
  then obtain x5 where
    e5: "d_phase_d_GLTD ex_f0_store [55000, 55010] (''GLTD_'', 1) [0, 0] = Inr [x5, 0]" ..
  have "[x5, 0] ! 0 = 0"
    by (rule u [THEN conjunct2, THEN conjunct2, THEN conjunct2, THEN conjunct2, THEN conjunct2,
          THEN conjunct2, THEN conjunct1, rule_format, OF e5])
  with e5 have d5: "d_phase_d_GLTD ex_f0_store [55000, 55010] (''GLTD_'', 1) [0, 0] = Inr [0, 0]"
    by simp
  from g i le l ev d0 d1 d2 d3 d4 d5 g2 i2 le2 gp show ?thesis by blast
qed

text \<open>
  C6. On a parameter set whose names carry the seven prefixes and that holds the six templates
  of index 1, \<^verbatim>\<open>setup\<close> fails exactly when (a) an index collected from the six families has
  no epoch \<^verbatim>\<open>GLEP_n\<close>, or (b) some \<^verbatim>\<open>GLF0D_n\<close> differs from 0 while \<^verbatim>\<open>GLTD_n\<close> is 0
  (or absent, and so set to 0.0). The error is \<^verbatim>\<open>MissingParameter\<close> for the component
  \<^verbatim>\<open>Glitch\<close>, naming the missing epoch key in case (a) and the decay-time key in case (b);
  when neither holds, \<^verbatim>\<open>setup\<close> succeeds. This holds for every order in which the set of
  indices is iterated.
\<close>

theorem setup_missing_parameter:
  assumes w: "wf_names self" and t: "templates self"
    and py: "\<forall>xs. set (py_set xs) = set xs"
  shows "((\<exists>e. glitch_setup py_set self = Inl e) \<longleftrightarrow> missing_epoch self \<or> bad_decay self) \<and>
         (\<forall>e. glitch_setup py_set self = Inl e \<longrightarrow>
            (\<exists>idx\<in>set (collect_indices self). \<not> hasattr self (''GLEP_'', idx) \<and>
                e = MissingParameter ''Glitch'' (''GLEP_'', idx)) \<or>
            (\<not> missing_epoch self \<and>
               (\<exists>idx. bad_decay_at self idx \<and> e = MissingParameter ''Glitch'' (''GLTD_'', idx))))"
proof -
  let ?self1 = "self\<lparr>glitch_indices := collect_indices self\<rparr>"
  let ?idxs = "py_set (collect_indices self)"
  have p1: "params ?self1 = params self" by simp
  have h1: "hasattr ?self1 n = hasattr self n" for n by (simp add: hasattr_def)
  have t1: "templates ?self1" using t by (simp add: templates_def h1)
  have w1: "wf_names ?self1" using w by (simp add: wf_names_def)
  have c1: "collect_indices ?self1 = collect_indices self" by (simp add: collect_indices_def)
  have b1: "bad_decay_at ?self1 k = bad_decay_at self k" for k
    by (simp add: bad_decay_at_def cong: option.case_cong)
  have bd1: "bad_decay ?self1 = bad_decay self" by (simp add: bad_decay_def b1)
  have all: "(\<forall>idx\<in>set ?idxs. hasattr ?self1 (''GLEP_'', idx)) \<longleftrightarrow> \<not> missing_epoch self"
    using py by (simp add: missing_epoch_def h1)
  note tot = setup_indices_total [OF t1, of ?idxs]
  show ?thesis
  proof (cases "missing_epoch self")
    case True
    with tot all obtain idx where i: "idx \<in> set ?idxs" "\<not> hasattr ?self1 (''GLEP_'', idx)"
      and e: "setup_indices ?idxs ?self1 = Inl (MissingParameter ''Glitch'' (''GLEP_'', idx))"
      by auto
    have r: "glitch_setup py_set self = Inl (MissingParameter ''Glitch'' (''GLEP_'', idx))"
      unfolding glitch_setup_unfold e by simp
    from i py have "idx \<in> set (collect_indices self)" "\<not> hasattr self (''GLEP_'', idx)"
      by (simp_all add: h1)
    with True show ?thesis unfolding r by blast
  next
    case False
    with tot all obtain s2 where s2: "setup_indices ?idxs ?self1 = Inr s2" by auto
    from setup_indices_Inr [OF s2] py
    have g: "grown (set glitch_prop) (set (collect_indices ?self1)) ?self1 s2"
      and c: "\<forall>idx\<in>set (collect_indices ?self1). complete_at s2 idx"
      by (simp_all add: c1)
    let ?nms = "[x \<leftarrow> map fst (params s2). prefix ''GLF0D_'' (fst x)]"
    have r: "glitch_setup py_set self = bind_err (check_decay ?nms s2) (\<lambda>_. Inr s2)"
      unfolding glitch_setup_unfold s2 by simp
    have ex: "\<forall>n\<in>set ?nms. \<exists>g t. getattr s2 n = Inr g \<and> getattr s2 (''GLTD_'', snd n) = Inr t"
      using decay_names [OF g c w1] by blast
    note cd = check_decay_total [OF ex]
    note bn = bad_decay_names [OF g c w1, unfolded bd1]
    show ?thesis
    proof (cases "bad_decay self")
      case True
      with bn have ex1: "\<exists>n\<in>set ?nms. decay_undefined s2 n" by blast
      from cd have "\<exists>n\<in>set ?nms. decay_undefined s2 n \<and>
          check_decay ?nms s2 = Inl (MissingParameter ''Glitch'' (''GLTD_'', snd n))"
        by (simp only: ex1 if_True)
      then obtain n where n: "n \<in> set ?nms" and d: "decay_undefined s2 n"
        and e: "check_decay ?nms s2 = Inl (MissingParameter ''Glitch'' (''GLTD_'', snd n))"
        by blast
      from decay_names [OF g c w1 n] d have bd: "bad_decay_at self (snd n)" by (simp add: b1)
      have r2: "glitch_setup py_set self = Inl (MissingParameter ''Glitch'' (''GLTD_'', snd n))"
        unfolding r e by simp
      show ?thesis unfolding r2 using bd True False by auto
    next
      case nb: False
      with bn have ex0: "\<not> (\<exists>n\<in>set ?nms. decay_undefined s2 n)" by blast
      from cd have "check_decay ?nms s2 = Inr ()" by (simp only: ex0 if_False)
      then have "glitch_setup py_set self = Inr s2" unfolding r by simp
      with nb False show ?thesis by simp
    qed
  qed
qed

theorem setup_missing_parameter_witness:
  "(wf_names ex_two_store \<and> templates ex_two_store \<and> (\<forall>xs. set (set_order xs) = set xs) \<and>
    \<not> missing_epoch ex_two_store \<and> \<not> bad_decay ex_two_store \<and>
    (\<nexists>e. glitch_setup set_order ex_two_store = Inl e)) \<and>
   (wf_names ex_no_epoch_store \<and> templates ex_no_epoch_store \<and>
    glitch_setup set_order ex_no_epoch_store = Inl (MissingParameter ''Glitch'' (''GLEP_'', 2))) \<and>
   (wf_names ex_bad_decay_store \<and> templates ex_bad_decay_store \<and>
    glitch_setup set_order ex_bad_decay_store = Inl (MissingParameter ''Glitch'' (''GLTD_'', 2)))"
proof -
  have w1: "wf_names ex_two_store" and t1: "templates ex_two_store"
    by (simp_all add: wf_names_def templates_def ex_two_store_def ex_defs)
  have m1: "\<not> missing_epoch ex_two_store"
    by (simp add: missing_epoch_def ex_collect) (simp add: ex_two_store_def ex_defs)
  have b1: "\<not> bad_decay ex_two_store"
    by (simp add: bad_decay_def bad_decay_at_def ex_two_store_def ex_defs)
  from setup_missing_parameter [OF w1 t1 set_order_set] m1 b1
  have r1: "\<nexists>e. glitch_setup set_order ex_two_store = Inl e" by simp
  have w2: "wf_names ex_no_epoch_store" and t2: "templates ex_no_epoch_store"
    by (simp_all add: wf_names_def templates_def ex_no_epoch_store_def ex_defs)
  have c2: "collect_indices ex_no_epoch_store = [1, 1, 2, 1, 1, 1, 1]"
    by (simp add: collect_indices_def ex_no_epoch_store_def ex_defs)
  have h2: "hasattr ex_no_epoch_store (''GLEP_'', 1)"
    by (simp add: ex_no_epoch_store_def ex_defs)
  have m2: "missing_epoch ex_no_epoch_store"
    by (simp add: missing_epoch_def c2) (simp add: ex_no_epoch_store_def ex_defs)
  from setup_missing_parameter [OF w2 t2 set_order_set] m2
  obtain e where e: "glitch_setup set_order ex_no_epoch_store = Inl e"
    and "\<exists>idx\<in>set (collect_indices ex_no_epoch_store).
            \<not> hasattr ex_no_epoch_store (''GLEP_'', idx) \<and>
            e = MissingParameter ''Glitch'' (''GLEP_'', idx)"
    by blast
  then have "e = MissingParameter ''Glitch'' (''GLEP_'', 2)"
    using h2 by (auto simp: c2)
  with e have r2: "glitch_setup set_order ex_no_epoch_store
      = Inl (MissingParameter ''Glitch'' (''GLEP_'', 2))" by simp
  have w3: "wf_names ex_bad_decay_store" and t3: "templates ex_bad_decay_store"
    by (simp_all add: wf_names_def templates_def ex_bad_decay_store_def ex_defs)
  have c3: "collect_indices ex_bad_decay_store = [1, 1, 1, 1, 1, 2, 1]"
    by (simp add: collect_indices_def ex_bad_decay_store_def ex_defs)
  have m3: "\<not> missing_epoch ex_bad_decay_store"
    by (simp add: missing_epoch_def c3) (simp add: ex_bad_decay_store_def ex_defs)
  have b3: "bad_decay ex_bad_decay_store"
    by (simp add: bad_decay_def bad_decay_at_def ex_bad_decay_store_def ex_defs)
  from setup_missing_parameter [OF w3 t3 set_order_set] b3 m3 m3 [unfolded missing_epoch_def]
  obtain e' where e': "glitch_setup set_order ex_bad_decay_store = Inl e'"
    and "\<exists>idx. bad_decay_at ex_bad_decay_store idx \<and>
            e' = MissingParameter ''Glitch'' (''GLTD_'', idx)"
    by blast
  then have "e' = MissingParameter ''Glitch'' (''GLTD_'', 2)"
    using ex_bad_decay_only_2 by blast
  with e' have r3: "glitch_setup set_order ex_bad_decay_store
      = Inl (MissingParameter ''Glitch'' (''GLTD_'', 2))" by simp
  from w1 t1 set_order_set m1 b1 r1 w2 t2 r2 w3 t3 r3 show ?thesis by blast
qed

text \<open>
  C9. When \<^verbatim>\<open>setup\<close> has succeeded, running it again succeeds as well, leaves the list of
  parameters and their values as they are, and collects the same set of glitch indices,
  whatever the order of iteration of either run.
\<close>

theorem setup_idempotent:
  assumes ok: "glitch_setup py_set self = Inr self'"
    and py: "\<forall>xs. set (py_set xs) = set xs"
    and py': "\<forall>xs. set (py_set' xs) = set xs"
  shows "\<exists>self''. glitch_setup py_set' self' = Inr self'' \<and>
           params self'' = params self' \<and>
           set (glitch_indices self'') = set (glitch_indices self')"
proof -
  let ?self1 = "self\<lparr>glitch_indices := collect_indices self\<rparr>"
  let ?self1' = "self'\<lparr>glitch_indices := collect_indices self'\<rparr>"
  note si = glitch_setup_InrD [OF ok]
  from setup_indices_Inr [OF si(1)] py
  have g: "grown (set glitch_prop) (set (collect_indices self)) ?self1 self'"
    and c: "\<forall>idx\<in>set (collect_indices self). complete_at self' idx"
    by simp_all
  have c1: "collect_indices ?self1 = collect_indices self"
    by (simp add: collect_indices_def)
  have "grown (set glitch_prop) (set (collect_indices ?self1)) ?self1 self'"
    using g by (simp only: c1)
  then have "set (collect_indices self') = set (collect_indices ?self1)"
    by (rule grown_collect_indices)
  then have eq: "set (collect_indices self') = set (collect_indices self)"
    by (simp add: c1)
  have gi: "glitch_indices self' = collect_indices self"
    using grown_indices [OF g] by simp
  have p1: "params ?self1' = params self'" by simp
  have "\<forall>idx\<in>set (py_set' (glitch_indices ?self1')). complete_at ?self1' idx"
    using c py' eq complete_at_cong [OF p1] by simp
  from setup_indices_noop [OF this] obtain s3
    where s3: "setup_indices (py_set' (glitch_indices ?self1')) ?self1' = Inr s3"
      and p3: "params s3 = params ?self1'"
      and g3: "glitch_indices s3 = glitch_indices ?self1'"
    by blast
  from p3 have p3': "params s3 = params self'" by simp
  have "check_decay [x \<leftarrow> map fst (params s3). prefix ''GLF0D_'' (fst x)] s3 = Inr ()"
    using si(2) check_decay_cong [OF p3'] by (simp add: p3')
  with s3 have "glitch_setup py_set' self' = Inr s3"
    by (simp add: glitch_setup_def Let_def)
  moreover have "set (glitch_indices s3) = set (glitch_indices self')"
    using g3 eq gi by simp
  ultimately show ?thesis using p3' by blast
qed

theorem setup_idempotent_witness:
  "glitch_setup set_order ex_two_store = Inr ex_two_after \<and>
   (\<forall>xs. set (set_order xs) = set xs) \<and>
   (\<exists>self''. glitch_setup set_order ex_two_after = Inr self'' \<and>
       params self'' = params ex_two_after \<and>
       set (glitch_indices self'') = set (glitch_indices ex_two_after))"
  using setup_idempotent [OF ex_two_setup set_order_set set_order_set] ex_two_setup set_order_set
  by blast

text \<open>
  C3, at the parameter set with the templates of glitch 1 and a lone \<^verbatim>\<open>GLEP_3\<close>:
  \<^verbatim>\<open>setup\<close> succeeds, collects the index 1 only and creates no parameter of index 3, and
  \<^verbatim>\<open>glitch_phase\<close>, which visits every \<^verbatim>\<open>GLEP_\<close> name, then fails on \<^verbatim>\<open>GLPH_3\<close>.
\<close>

theorem setup_ignores_lone_epoch:
  "glitch_setup set_order ex_glep3_store
     = Inr (ex_glep3_store\<lparr>glitch_indices := [1, 1, 1, 1, 1, 1], deriv_funcs := ex_registered\<rparr>) \<and>
   \<not> hasattr (ex_glep3_store\<lparr>glitch_indices := [1, 1, 1, 1, 1, 1], deriv_funcs := ex_registered\<rparr>)
        (''GLPH_'', 3) \<and>
   glitch_phase (ex_glep3_store\<lparr>glitch_indices := [1, 1, 1, 1, 1, 1], deriv_funcs := ex_registered\<rparr>)
      [55200] [0] = Inl (AttributeError (''GLPH_'', 3))"
proof -
  have c: "collect_indices ex_glep3_store = [1, 1, 1, 1, 1, 1]"
    by (simp add: collect_indices_def ex_glep3_store_def ex_defs)
  have 1: "glitch_setup set_order ex_glep3_store
     = Inr (ex_glep3_store\<lparr>glitch_indices := [1, 1, 1, 1, 1, 1], deriv_funcs := ex_registered\<rparr>)"
    by (simp add: glitch_setup_def c set_order_def)
      (simp add: ex_glep3_store_def ex_registered_def ex_defs)
  have 2: "\<not> hasattr (ex_glep3_store\<lparr>glitch_indices := [1, 1, 1, 1, 1, 1],
      deriv_funcs := ex_registered\<rparr>) (''GLPH_'', 3)"
    by (simp add: ex_glep3_store_def ex_defs)
  have 3: "glitch_phase (ex_glep3_store\<lparr>glitch_indices := [1, 1, 1, 1, 1, 1],
      deriv_funcs := ex_registered\<rparr>) [55200] [0] = Inl (AttributeError (''GLPH_'', 3))"
    by (simp add: glitch_phase_def glepnames_def glitch_event_def dt_seconds_def
        ex_glep3_store_def ex_defs)
  from 1 2 3 show ?thesis by blast
qed

text \<open>
  C5, at the parameter set of the constructor with an epoch for glitch 1 (all of \<^verbatim>\<open>GLF0D_1\<close>
  and \<^verbatim>\<open>GLTD_1\<close> at 0.0): \<^verbatim>\<open>setup\<close> succeeds and \<^verbatim>\<open>glitch_phase\<close> is defined, but
  \<^verbatim>\<open>d_phase_d_GLF0D\<close> divides the \<open>dt\<close> of a TOA after the epoch by the decay time 0:
  the entry of that TOA is marked.
\<close>

theorem d_phase_d_GLF0D_divides_by_zero:
  "glitch_setup set_order ex_store
     = Inr (ex_store\<lparr>glitch_indices := [1, 1, 1, 1, 1, 1], deriv_funcs := ex_registered\<rparr>) \<and>
   glitch_phase (ex_store\<lparr>glitch_indices := [1, 1, 1, 1, 1, 1], deriv_funcs := ex_registered\<rparr>)
      [55001] [0] = Inr [Inr 0] \<and>
   d_phase_d_GLF0D (ex_store\<lparr>glitch_indices := [1, 1, 1, 1, 1, 1], deriv_funcs := ex_registered\<rparr>)
      [55001] (''GLF0D_'', 1) [0] = Inr [Inl DivideByZero]"
proof -
  have c: "collect_indices ex_store = [1, 1, 1, 1, 1, 1]"
    by (simp add: collect_indices_def ex_store_def ex_defs)
  have 1: "glitch_setup set_order ex_store
     = Inr (ex_store\<lparr>glitch_indices := [1, 1, 1, 1, 1, 1], deriv_funcs := ex_registered\<rparr>)"
    by (simp add: glitch_setup_def c set_order_def)
      (simp add: ex_store_def ex_registered_def ex_defs)
  have 2: "glitch_phase (ex_store\<lparr>glitch_indices := [1, 1, 1, 1, 1, 1],
      deriv_funcs := ex_registered\<rparr>) [55001] [0] = Inr [Inr 0]"
    by (simp add: glitch_phase_def glepnames_def glitch_event_def dt_seconds_def
        ex_store_def ex_defs)
  have 3: "d_phase_d_GLF0D (ex_store\<lparr>glitch_indices := [1, 1, 1, 1, 1, 1],
      deriv_funcs := ex_registered\<rparr>) [55001] (''GLF0D_'', 1) [0] = Inr [Inl DivideByZero]"
    by (simp add: d_phase_d_GLF0D_def dt_seconds_def decay_factor_def day_def
        ex_store_def ex_defs)
  from 1 2 3 show ?thesis by blast
qed

text \<open>
  C10. When \<^verbatim>\<open>glitch_phase\<close> returns an array of numbers (no entry marked), every event
  can be computed alone (one pass of the loop on an array of zeros) and gives an array of
  numbers, and each entry of the result is the sum of the entries of these contributions; the
  result is the same for every order of the parameter list, hence of the events; and with two
  glitches it is, entry by entry, the sum of the two phases computed with the other glitch
  absent (its six fields zero).
\<close>

theorem glitch_phase_additive:
  assumes "glitch_phase self tdbld delay = Inr (map Inr phs)"
  shows "(\<exists>cs. map (\<lambda>n. glitch_event self tdbld delay n (replicate (length tdbld) (Inr 0)))
                   (glepnames self) = map (\<lambda>c. Inr (map Inr c)) cs \<and>
              (\<forall>i<length tdbld. phs ! i = (\<Sum>c\<leftarrow>cs. c ! i))) \<and>
         (\<forall>self'. distinct (map fst (params self)) \<longrightarrow> mset (params self') = mset (params self) \<longrightarrow>
              glitch_phase self' tdbld delay = Inr (map Inr phs)) \<and>
         (\<forall>ea eb. glepnames self = [ea, eb] \<longrightarrow> fst ea = ''GLEP_'' \<longrightarrow> fst eb = ''GLEP_'' \<longrightarrow>
              snd ea \<noteq> snd eb \<longrightarrow>
              (\<exists>pa pb. glitch_phase (zero_event (snd eb) self) tdbld delay = Inr (map Inr pa) \<and>
                       glitch_phase (zero_event (snd ea) self) tdbld delay = Inr (map Inr pb) \<and>
                       (\<forall>i<length tdbld. phs ! i = pa ! i + pb ! i)))"
proof (intro conjI allI impI)
  from assms have v: "phase_values self tdbld delay = Inr phs" by (simp only: phase_values_iff)
  from v obtain cs where
    cs: "those_err (map (\<lambda>n. event_values self tdbld delay n (replicate (length tdbld) 0))
                   (glepnames self)) = Inr cs"
    and s: "\<forall>i<length tdbld. phs ! i = (\<Sum>c\<leftarrow>cs. c ! i)"
    unfolding phase_values_sum by (elim exE conjE)
  from contributions_marks [OF cs] s
  show "\<exists>cs. map (\<lambda>n. glitch_event self tdbld delay n (replicate (length tdbld) (Inr 0)))
                   (glepnames self) = map (\<lambda>c. Inr (map Inr c)) cs \<and>
              (\<forall>i<length tdbld. phs ! i = (\<Sum>c\<leftarrow>cs. c ! i))"
    by (intro exI [of _ cs] conjI)
  {
    fix self' :: glitch
    assume "distinct (map fst (params self))" "mset (params self') = mset (params self)"
    with v have "phase_values self' tdbld delay = Inr phs" by (rule phase_values_permuted)
    then show "glitch_phase self' tdbld delay = Inr (map Inr phs)" by (simp only: phase_values_iff)
  }
  {
    fix ea eb
    assume "glepnames self = [ea, eb]" "fst ea = ''GLEP_''" "fst eb = ''GLEP_''" "snd ea \<noteq> snd eb"
    with v have "\<exists>pa pb. phase_values (zero_event (snd eb) self) tdbld delay = Inr pa \<and>
                       phase_values (zero_event (snd ea) self) tdbld delay = Inr pb \<and>
                       (\<forall>i<length tdbld. phs ! i = pa ! i + pb ! i)"
      by (rule two_glitches_additive)
    then show "\<exists>pa pb. glitch_phase (zero_event (snd eb) self) tdbld delay = Inr (map Inr pa) \<and>
                       glitch_phase (zero_event (snd ea) self) tdbld delay = Inr (map Inr pb) \<and>
                       (\<forall>i<length tdbld. phs ! i = pa ! i + pb ! i)"
      by (simp only: phase_values_iff)
  }
qed

theorem glitch_phase_additive_witness:
  "glitch_phase ex_overlap_store [55010] [0] = Inr (map Inr [341 / 250]) \<and>
   distinct (map fst (params ex_overlap_store)) \<and>
   mset (params (ex_overlap_store\<lparr>params := rev (params ex_overlap_store)\<rparr>))
     = mset (params ex_overlap_store) \<and>
   glitch_phase (ex_overlap_store\<lparr>params := rev (params ex_overlap_store)\<rparr>) [55010] [0]
     = Inr [Inr (341 / 250)] \<and>
   glepnames ex_overlap_store = [(''GLEP_'', 1), (''GLEP_'', 2)] \<and>
   glitch_phase (zero_event 2 ex_overlap_store) [55010] [0] = Inr [Inr (108 / 125)] \<and>
   glitch_phase (zero_event 1 ex_overlap_store) [55010] [0] = Inr [Inr (1 / 2)] \<and>
   (341 / 250 :: real) = 108 / 125 + 1 / 2"
proof -
  note t = glitch_phase_additive [OF ex_overlap_marks]
  have d: "distinct (map fst (params ex_overlap_store))"
    by (simp add: ex_overlap_store_def)
  have m: "mset (params (ex_overlap_store\<lparr>params := rev (params ex_overlap_store)\<rparr>))
     = mset (params ex_overlap_store)" by simp
  from t [THEN conjunct2, THEN conjunct1, rule_format, OF d m]
  have r: "glitch_phase (ex_overlap_store\<lparr>params := rev (params ex_overlap_store)\<rparr>) [55010] [0]
     = Inr [Inr (341 / 250)]" by simp
  have n: "glepnames ex_overlap_store = [(''GLEP_'', 1), (''GLEP_'', 2)]"
    by (simp add: glepnames_def ex_overlap_store_def)
  from t [THEN conjunct2, THEN conjunct2, rule_format, OF n]
  obtain pa pb where "glitch_phase (zero_event 2 ex_overlap_store) [55010] [0] = Inr (map Inr pa)"
    "glitch_phase (zero_event 1 ex_overlap_store) [55010] [0] = Inr (map Inr pb)"
    "\<forall>i<length [55010 :: real]. [341 / 250] ! i = pa ! i + pb ! i"
    by auto
  with ex_overlap_alone_marks have s: "(341 / 250 :: real) = 108 / 125 + 1 / 2"
    by (simp add: inj_map_eq_map)
  from ex_overlap_alone_marks
  have a: "glitch_phase (zero_event 2 ex_overlap_store) [55010] [0] = Inr [Inr (108 / 125)]"
    "glitch_phase (zero_event 1 ex_overlap_store) [55010] [0] = Inr [Inr (1 / 2)]"
    by simp_all
  from ex_overlap_marks d m r n a s show ?thesis by blast
qed

text \<open>
  C2. For an event with all its parameters present, at parameter values where
  \<^verbatim>\<open>glitch_phase\<close> returns an array of numbers (no entry marked), the array returned by
  each derivative operation (for \<^verbatim>\<open>d_phase_d_GLF0D\<close>: when it has no marked entry) holds, at
  every TOA, the partial derivative of the phase of that TOA with respect to the value of the
  parameter: it is 1 for \<^verbatim>\<open>GLPH\<close>, \<open>dt\<close> for \<^verbatim>\<open>GLF0\<close>, \<open>0.5 * dt\<^sup>2\<close> for \<^verbatim>\<open>GLF1\<close>,
  \<open>1/6 * dt\<^sup>3\<close> for \<^verbatim>\<open>GLF2\<close>, \<open>GLTD * (1 - exp (- dt / GLTD))\<close> for \<^verbatim>\<open>GLF0D\<close> and
  \<open>GLF0D * (1 - exp (- dt / tau)) + GLF0D * tau * (- exp (- dt / tau)) * dt / tau\<^sup>2\<close> for
  \<^verbatim>\<open>GLTD\<close> (in cycles per day: times the seconds of a day) on the TOAs with \<open>dt > 0\<close>, and 0 on
  the others, with the \<open>dt\<close> of the forward model. Where the decay time is 0 the array of
  \<^verbatim>\<open>d_phase_d_GLTD\<close> is all zero, which is the derivative there as well.
\<close>

theorem derivatives_match_phase:
  assumes wf: "wf_names self" and dist: "distinct (map fst (params self))"
    and ph: "glitch_phase self tdbld delay = Inr (map Inr phs)"
    and ge: "getattr self (''GLEP_'', idx) = Inr glep"
    and gg: "getattr self (''GLF0D_'', idx) = Inr glf0d"
    and gt: "getattr self (''GLTD_'', idx) = Inr gltd"
    and i: "i < length tdbld"
    and dt: "dt = (tdbld ! i - val glep) * day - delay ! i"
  shows
    "(\<forall>arr. d_phase_d_GLPH self tdbld (''GLPH_'', idx) delay = Inr arr \<longrightarrow>
        arr ! i = (if dt > 0 then 1 else 0) \<and>
        is_phase_derivative self tdbld delay (''GLPH_'', idx) i (arr ! i)) \<and>
     (\<forall>arr. d_phase_d_GLF0 self tdbld (''GLF0_'', idx) delay = Inr arr \<longrightarrow>
        arr ! i = (if dt > 0 then dt else 0) \<and>
        is_phase_derivative self tdbld delay (''GLF0_'', idx) i (arr ! i)) \<and>
     (\<forall>arr. d_phase_d_GLF1 self tdbld (''GLF1_'', idx) delay = Inr arr \<longrightarrow>
        arr ! i = (if dt > 0 then 0.5 * dt\<^sup>2 else 0) \<and>
        is_phase_derivative self tdbld delay (''GLF1_'', idx) i (arr ! i)) \<and>
     (\<forall>arr. d_phase_d_GLF2 self tdbld (''GLF2_'', idx) delay = Inr arr \<longrightarrow>
        arr ! i = (if dt > 0 then (1 / 6) * dt ^ 3 else 0) \<and>
        is_phase_derivative self tdbld delay (''GLF2_'', idx) i (arr ! i)) \<and>
     (\<forall>arr. d_phase_d_GLF0D self tdbld (''GLF0D_'', idx) delay = Inr (map Inr arr) \<longrightarrow>
        arr ! i = (if dt > 0
                   then val gltd * day * (1 - exp (- (dt / (val gltd * day)))) else 0) \<and>
        is_phase_derivative self tdbld delay (''GLF0D_'', idx) i (arr ! i)) \<and>
     (\<forall>arr. d_phase_d_GLTD self tdbld (''GLTD_'', idx) delay = Inr arr \<longrightarrow>
        arr ! i = (if dt > 0 \<and> val gltd \<noteq> 0
                   then day * (val glf0d * (1 - exp (- dt / (val gltd * day)))
                          + val glf0d * (val gltd * day) * (- exp (- dt / (val gltd * day))) * dt
                            / ((val gltd * day) * (val gltd * day)))
                   else 0) \<and>
        is_phase_derivative self tdbld delay (''GLTD_'', idx) i (arr ! i))"
proof -
  from ph have pv: "phase_values self tdbld delay = Inr phs" by (simp only: phase_values_iff)
  from event_of_phase [OF pv ge gt] obtain dts where
    c: "\<forall>y\<in>set (''GLEP_'' # glitch_prop). hasattr self (y, idx)"
    and dts: "dt_seconds (event_vals self idx ''GLEP_'') tdbld delay = Inr dts"
    and ok: "decay_ok (event_vals self idx) dts"
    by (elim exE conjE)
  let ?w = "event_vals self idx"
  note wv = getattr_event_vals [OF ge] getattr_event_vals [OF gg] getattr_event_vals [OF gt]
  from dts have dts': "dt_seconds (val glep) tdbld delay = Inr dts" by (simp add: wv)
  note dd = dt_seconds_InrD [OF dts']
  from dd(3) [OF i] dt have di: "dts ! i = dt" by simp
  from dd(2) i have mem: "dts ! i \<in> set dts" by simp
  note I = is_phase_derivativeI [OF wf dist c _ pv dts i open_UNIV UNIV_I]
  have 1: "arr ! i = (if dt > 0 then 1 else 0) \<and>
        is_phase_derivative self tdbld delay (''GLPH_'', idx) i (arr ! i)"
    if a: "d_phase_d_GLPH self tdbld (''GLPH_'', idx) delay = Inr arr" for arr
  proof -
    from d_phase_d_GLPH_Inr [OF a, of glep] ge i dt
    have v: "arr ! i = (if dt > 0 then 1 else 0)" by simp
    have okv: "\<forall>v\<in>UNIV. decay_ok (?w(''GLPH_'' := v)) dts"
      using ok by (simp add: decay_ok_upd_other)
    have D: "((\<lambda>v. event_phase (?w(''GLPH_'' := v)) (dts ! i)) has_real_derivative
        (if dt > 0 then 1 else 0)) (at (?w ''GLPH_''))"
      unfolding di by (rule deriv_GLPH)
    have "is_phase_derivative self tdbld delay (''GLPH_'', idx) i (if dt > 0 then 1 else 0)"
      by (rule I [OF prop_strings(1) okv D])
    with v show ?thesis by simp
  qed
  have 2: "arr ! i = (if dt > 0 then dt else 0) \<and>
        is_phase_derivative self tdbld delay (''GLF0_'', idx) i (arr ! i)"
    if a: "d_phase_d_GLF0 self tdbld (''GLF0_'', idx) delay = Inr arr" for arr
  proof -
    from d_phase_d_GLF0_Inr [OF a, of glep] ge i dt
    have v: "arr ! i = (if dt > 0 then dt else 0)" by simp
    have okv: "\<forall>v\<in>UNIV. decay_ok (?w(''GLF0_'' := v)) dts"
      using ok by (simp add: decay_ok_upd_other)
    have D: "((\<lambda>v. event_phase (?w(''GLF0_'' := v)) (dts ! i)) has_real_derivative
        (if dt > 0 then dt else 0)) (at (?w ''GLF0_''))"
      unfolding di by (rule deriv_GLF0)
    have "is_phase_derivative self tdbld delay (''GLF0_'', idx) i (if dt > 0 then dt else 0)"
      by (rule I [OF prop_strings(2) okv D])
    with v show ?thesis by simp
  qed
  have 3: "arr ! i = (if dt > 0 then 0.5 * dt\<^sup>2 else 0) \<and>
        is_phase_derivative self tdbld delay (''GLF1_'', idx) i (arr ! i)"
    if a: "d_phase_d_GLF1 self tdbld (''GLF1_'', idx) delay = Inr arr" for arr
  proof -
    from d_phase_d_GLF1_Inr [OF a, of glep] ge i dt
    have v: "arr ! i = (if dt > 0 then 0.5 * dt\<^sup>2 else 0)" by simp
    have okv: "\<forall>v\<in>UNIV. decay_ok (?w(''GLF1_'' := v)) dts"
      using ok by (simp add: decay_ok_upd_other)
    have D: "((\<lambda>v. event_phase (?w(''GLF1_'' := v)) (dts ! i)) has_real_derivative
        (if dt > 0 then 0.5 * dt\<^sup>2 else 0)) (at (?w ''GLF1_''))"
      unfolding di by (rule deriv_GLF1)
    have "is_phase_derivative self tdbld delay (''GLF1_'', idx) i (if dt > 0 then 0.5 * dt\<^sup>2 else 0)"
      by (rule I [OF prop_strings(3) okv D])
    with v show ?thesis by simp
  qed
  have 4: "arr ! i = (if dt > 0 then (1 / 6) * dt ^ 3 else 0) \<and>
        is_phase_derivative self tdbld delay (''GLF2_'', idx) i (arr ! i)"
    if a: "d_phase_d_GLF2 self tdbld (''GLF2_'', idx) delay = Inr arr" for arr
  proof -
    from d_phase_d_GLF2_Inr [OF a, of glep] ge i dt
    have v: "arr ! i = (if dt > 0 then (1 / 6) * dt ^ 3 else 0)" by simp
    have okv: "\<forall>v\<in>UNIV. decay_ok (?w(''GLF2_'' := v)) dts"
      using ok by (simp add: decay_ok_upd_other)
    have D: "((\<lambda>v. event_phase (?w(''GLF2_'' := v)) (dts ! i)) has_real_derivative
        (if dt > 0 then (1 / 6) * dt ^ 3 else 0)) (at (?w ''GLF2_''))"
      unfolding di by (rule deriv_GLF2)
    have "is_phase_derivative self tdbld delay (''GLF2_'', idx) i (if dt > 0 then (1 / 6) * dt ^ 3 else 0)"
      by (rule I [OF prop_strings(4) okv D])
    with v show ?thesis by simp
  qed
  have 5: "arr ! i = (if dt > 0
                   then val gltd * day * (1 - exp (- (dt / (val gltd * day)))) else 0) \<and>
        is_phase_derivative self tdbld delay (''GLF0D_'', idx) i (arr ! i)"
    if a: "d_phase_d_GLF0D self tdbld (''GLF0D_'', idx) delay = Inr (map Inr arr)" for arr
  proof -
    note r = d_phase_d_GLF0D_Inr [OF a, of glep gltd, simplified, OF ge gt]
    have e: "Inr (arr ! j) =
       (if (tdbld ! j - val glep) * day - delay ! j > 0
        then if val gltd = 0 then Inl DivideByZero
             else Inr (val gltd * day *
               (1 - exp (- (((tdbld ! j - val glep) * day - delay ! j) / (val gltd * day)))))
        else (Inr 0 :: element))" if "j < length tdbld" for j
      using r that by auto
    from e [OF i] dt have v: "arr ! i = (if dt > 0
        then val gltd * day * (1 - exp (- (dt / (val gltd * day)))) else 0)"
      by (auto split: if_splits)
    have t: "val gltd \<noteq> 0 \<or> (\<forall>x\<in>set dts. x \<le> 0)"
    proof (rule disjCI)
      assume "\<not> (\<forall>x\<in>set dts. x \<le> 0)"
      then obtain j where j: "j < length dts" "dts ! j > 0"
        by (auto simp: in_set_conv_nth not_le)
      with dd(2) have jj: "j < length tdbld" by simp
      from e [OF jj] j(2) dd(3) [OF jj] show "val gltd \<noteq> 0"
        by (auto split: if_splits)
    qed
    then have okv: "\<forall>v\<in>UNIV. decay_ok (?w(''GLF0D_'' := v)) dts"
      by (simp add: decay_ok_def wv)
    have D: "((\<lambda>v. event_phase (?w(''GLF0D_'' := v)) (dts ! i)) has_real_derivative
        (if dt > 0 then ?w ''GLTD_'' * day * (1 - exp (- (dt / (?w ''GLTD_'' * day)))) else 0))
        (at (?w ''GLF0D_''))"
      unfolding di by (rule deriv_GLF0D)
    have "is_phase_derivative self tdbld delay (''GLF0D_'', idx) i
        (if dt > 0 then ?w ''GLTD_'' * day * (1 - exp (- (dt / (?w ''GLTD_'' * day)))) else 0)"
      by (rule I [OF prop_strings(5) okv D])
    then have "is_phase_derivative self tdbld delay (''GLF0D_'', idx) i
        (if dt > 0 then val gltd * day * (1 - exp (- (dt / (val gltd * day)))) else 0)"
      by (simp only: wv)
    with v show ?thesis by simp
  qed
  have 6: "arr ! i = (if dt > 0 \<and> val gltd \<noteq> 0
                   then day * (val glf0d * (1 - exp (- dt / (val gltd * day)))
                          + val glf0d * (val gltd * day) * (- exp (- dt / (val gltd * day))) * dt
                            / ((val gltd * day) * (val gltd * day)))
                   else 0) \<and>
        is_phase_derivative self tdbld delay (''GLTD_'', idx) i (arr ! i)"
    if a: "d_phase_d_GLTD self tdbld (''GLTD_'', idx) delay = Inr arr" for arr
  proof (cases "val gltd = 0")
    case True
    note r = d_phase_d_GLTD_Inr [OF a, of glep gltd, simplified, OF ge gt]
    from r True i have v: "arr ! i = 0" by simp
    have okv: "\<forall>v\<in>UNIV. decay_ok (?w(''GLTD_'' := v)) dts"
      using ok True by (simp add: decay_ok_def wv)
    have w0: "?w ''GLTD_'' = 0" using True by (simp add: wv)
    have D: "((\<lambda>v. event_phase (?w(''GLTD_'' := v)) (dts ! i)) has_real_derivative 0)
        (at (?w ''GLTD_''))"
      by (rule deriv_GLTD_zero [OF ok w0 mem])
    have "is_phase_derivative self tdbld delay (''GLTD_'', idx) i 0"
      by (rule I [OF prop_strings(6) okv D])
    with v True show ?thesis by simp
  next
    case False
    note r = d_phase_d_GLTD_Inr [OF a, of glep gltd, simplified, OF ge gt]
    from r False gg i dt have v: "arr ! i = (if dt > 0
                   then day * (val glf0d * (1 - exp (- dt / (val gltd * day)))
                          + val glf0d * (val gltd * day) * (- exp (- dt / (val gltd * day))) * dt
                            / ((val gltd * day) * (val gltd * day)))
                   else 0)"
      by auto
    have op: "open (- {0::real})" by (rule open_Compl) simp
    have m: "?w ''GLTD_'' \<in> - {0::real}" using False by (simp add: wv)
    have okv: "\<forall>v\<in>- {0::real}. decay_ok (?w(''GLTD_'' := v)) dts"
      by (simp add: decay_ok_def)
    have "?w ''GLTD_'' \<noteq> 0" using False by (simp add: wv)
    then have D: "((\<lambda>v. event_phase (?w(''GLTD_'' := v)) (dts ! i)) has_real_derivative
        (if dt > 0
         then day * (?w ''GLF0D_'' * (1 - exp (- dt / (?w ''GLTD_'' * day)))
                + ?w ''GLF0D_'' * (?w ''GLTD_'' * day) * (- exp (- dt / (?w ''GLTD_'' * day))) * dt
                  / ((?w ''GLTD_'' * day) * (?w ''GLTD_'' * day)))
         else 0)) (at (?w ''GLTD_''))"
      unfolding di by (rule deriv_GLTD)
    have "is_phase_derivative self tdbld delay (''GLTD_'', idx) i (if dt > 0
         then day * (?w ''GLF0D_'' * (1 - exp (- dt / (?w ''GLTD_'' * day)))
                + ?w ''GLF0D_'' * (?w ''GLTD_'' * day) * (- exp (- dt / (?w ''GLTD_'' * day))) * dt
                  / ((?w ''GLTD_'' * day) * (?w ''GLTD_'' * day)))
         else 0)"
      by (rule is_phase_derivativeI [OF wf dist c prop_strings(6) pv dts i op m okv D])
    then have "is_phase_derivative self tdbld delay (''GLTD_'', idx) i (if dt > 0
                   then day * (val glf0d * (1 - exp (- dt / (val gltd * day)))
                          + val glf0d * (val gltd * day) * (- exp (- dt / (val gltd * day))) * dt
                            / ((val gltd * day) * (val gltd * day)))
                   else 0)"
      by (simp only: wv)
    with v False show ?thesis by simp
  qed
  from 1 2 3 4 5 6 show ?thesis by blast
qed

theorem derivatives_match_phase_witness:
  "wf_names ex_full_store \<and> distinct (map fst (params ex_full_store)) \<and>
   (\<exists>phs. glitch_phase ex_full_store [55001] [0] = Inr (map Inr phs)) \<and>
   getattr ex_full_store (''GLEP_'', 1) = Inr \<lparr>units = ''day'', val = 55000\<rparr> \<and>
   getattr ex_full_store (''GLF0D_'', 1) = Inr \<lparr>units = ''Hz'', val = 5\<rparr> \<and>
   getattr ex_full_store (''GLTD_'', 1) = Inr \<lparr>units = ''day'', val = 6\<rparr> \<and>
   (0::nat) < length [55001 :: real] \<and>
   (86400 :: real) = ([55001] ! 0 - 55000) * day - [0] ! 0 \<and>
   d_phase_d_GLPH ex_full_store [55001] (''GLPH_'', 1) [0] = Inr [1] \<and>
   is_phase_derivative ex_full_store [55001] [0] (''GLPH_'', 1) 0 1 \<and>
   d_phase_d_GLF0 ex_full_store [55001] (''GLF0_'', 1) [0] = Inr [86400] \<and>
   is_phase_derivative ex_full_store [55001] [0] (''GLF0_'', 1) 0 86400 \<and>
   d_phase_d_GLF1 ex_full_store [55001] (''GLF1_'', 1) [0] = Inr [3732480000] \<and>
   is_phase_derivative ex_full_store [55001] [0] (''GLF1_'', 1) 0 3732480000 \<and>
   d_phase_d_GLF2 ex_full_store [55001] (''GLF2_'', 1) [0] = Inr [107495424000000] \<and>
   is_phase_derivative ex_full_store [55001] [0] (''GLF2_'', 1) 0 107495424000000 \<and>
   (\<exists>arr. d_phase_d_GLF0D ex_full_store [55001] (''GLF0D_'', 1) [0] = Inr (map Inr arr) \<and>
      arr ! 0 = 6 * day * (1 - exp (- (86400 / (6 * day)))) \<and>
      is_phase_derivative ex_full_store [55001] [0] (''GLF0D_'', 1) 0 (arr ! 0)) \<and>
   (\<exists>arr. d_phase_d_GLTD ex_full_store [55001] (''GLTD_'', 1) [0] = Inr arr \<and>
      is_phase_derivative ex_full_store [55001] [0] (''GLTD_'', 1) 0 (arr ! 0))"
proof -
  have wf: "wf_names ex_full_store"
    by (simp add: wf_names_def ex_full_store_def glitch_prop_def)
  have di: "distinct (map fst (params ex_full_store))"
    by (simp add: ex_full_store_def)
  have "\<exists>phs. phase_values ex_full_store [55001] [0] = Inr phs"
    by (simp add: phase_defs decay_factor_def day_def ex_full_store_def)
  then have ex: "\<exists>phs. glitch_phase ex_full_store [55001] [0] = Inr (map Inr phs)"
    by (simp only: phase_values_iff)
  then obtain phs where ph: "glitch_phase ex_full_store [55001] [0] = Inr (map Inr phs)" ..
  have ge: "getattr ex_full_store (''GLEP_'', 1) = Inr \<lparr>units = ''day'', val = 55000\<rparr>"
    and gg: "getattr ex_full_store (''GLF0D_'', 1) = Inr \<lparr>units = ''Hz'', val = 5\<rparr>"
    and gt: "getattr ex_full_store (''GLTD_'', 1) = Inr \<lparr>units = ''day'', val = 6\<rparr>"
    by (simp_all add: getattr_def ex_full_store_def)
  have i: "(0::nat) < length [55001 :: real]" by simp
  have dt: "(86400 :: real) = ([55001] ! 0 - val \<lparr>units = ''day'', val = 55000\<rparr>) * day - [0] ! 0"
    by (simp add: day_def)
  note t = derivatives_match_phase [OF wf di ph ge gg gt i dt]
  have e1: "d_phase_d_GLPH ex_full_store [55001] (''GLPH_'', 1) [0] = Inr [1]"
    by (simp add: deriv_defs day_def ex_full_store_def)
  from t [THEN conjunct1, rule_format, OF e1]
  have p1: "is_phase_derivative ex_full_store [55001] [0] (''GLPH_'', 1) 0 1" by simp
  have e2: "d_phase_d_GLF0 ex_full_store [55001] (''GLF0_'', 1) [0] = Inr [86400]"
    by (simp add: deriv_defs day_def ex_full_store_def)
  from t [THEN conjunct2, THEN conjunct1, rule_format, OF e2]
  have p2: "is_phase_derivative ex_full_store [55001] [0] (''GLF0_'', 1) 0 86400" by simp
  have e3: "d_phase_d_GLF1 ex_full_store [55001] (''GLF1_'', 1) [0] = Inr [3732480000]"
    by (simp add: deriv_defs day_def ex_full_store_def)
  from t [THEN conjunct2, THEN conjunct2, THEN conjunct1, rule_format, OF e3]
  have p3: "is_phase_derivative ex_full_store [55001] [0] (''GLF1_'', 1) 0 3732480000" by simp
  have e4: "d_phase_d_GLF2 ex_full_store [55001] (''GLF2_'', 1) [0] = Inr [107495424000000]"
    by (simp add: deriv_defs day_def ex_full_store_def)
  from t [THEN conjunct2, THEN conjunct2, THEN conjunct2, THEN conjunct1, rule_format, OF e4]
  have p4: "is_phase_derivative ex_full_store [55001] [0] (''GLF2_'', 1) 0 107495424000000"
    by simp
  have "\<exists>x. d_phase_d_GLF0D ex_full_store [55001] (''GLF0D_'', 1) [0] = Inr [Inr x]"
    by (simp add: deriv_defs day_def ex_full_store_def)
  then have "\<exists>arr. d_phase_d_GLF0D ex_full_store [55001] (''GLF0D_'', 1) [0] = Inr (map Inr arr)"
    by (elim exE) (rule exI [of _ "[x]" for x], simp)
  then obtain a5 where
    e5: "d_phase_d_GLF0D ex_full_store [55001] (''GLF0D_'', 1) [0] = Inr (map Inr a5)" ..
  note t5 = t [THEN conjunct2, THEN conjunct2, THEN conjunct2, THEN conjunct2, THEN conjunct1,
      rule_format, OF e5]
  from t5 [THEN conjunct1] have p5a: "a5 ! 0 = 6 * day * (1 - exp (- (86400 / (6 * day))))"
    by simp
  from t5 [THEN conjunct2]
  have p5b: "is_phase_derivative ex_full_store [55001] [0] (''GLF0D_'', 1) 0 (a5 ! 0)" .
  have "\<exists>arr. d_phase_d_GLTD ex_full_store [55001] (''GLTD_'', 1) [0] = Inr arr"
    by (simp add: deriv_defs day_def ex_full_store_def)
  then obtain a6 where e6: "d_phase_d_GLTD ex_full_store [55001] (''GLTD_'', 1) [0] = Inr a6" ..
  from t [THEN conjunct2, THEN conjunct2, THEN conjunct2, THEN conjunct2, THEN conjunct2,
      rule_format, OF e6]
  have p6: "is_phase_derivative ex_full_store [55001] [0] (''GLTD_'', 1) 0 (a6 ! 0)"
    by (rule conjunct2)
  have dt': "(86400 :: real) = ([55001] ! 0 - 55000) * day - [0] ! 0" using dt by simp
  from wf di ex ge gg gt i dt' e1 p1 e2 p2 e3 p3 e4 p4 e5 p5a p5b e6 p6 show ?thesis by blast
qed

end
